theory Spec2Isabelle
  imports Main "HOL-Library.Word"
begin

section \<open>Machine integers and outcomes\<close>

text \<open>
  The generator of \<^verbatim>\<open>js/src/wasm/WasmGenerator.cpp\<close> works on \<^verbatim>\<open>uint32_t\<close> offsets
  (addition and subtraction wrap modulo \<open>2^32\<close>) and on \<^verbatim>\<open>size_t\<close> sizes, which are
  modelled as natural numbers; a conversion from \<^verbatim>\<open>size_t\<close> to \<^verbatim>\<open>uint32_t\<close> is \<open>of_nat\<close>,
  which truncates.
\<close>

type_synonym u8 = "8 word"
type_synonym u32 = "32 word"

text \<open>
  Every way in which a member function leaves early is a value: \<^verbatim>\<open>return false\<close> after a
  failed allocation, after cancellation, after a failed compilation or after a failed helper
  thread; a \<^verbatim>\<open>MOZ_ASSERT\<close> that does not hold (the text of the asserted condition is kept); a
  \<^verbatim>\<open>MOZ_CRASH\<close>; a read outside a vector; a division by zero; a null pointer that is
  dereferenced; a length of the global data that leaves the range of \<^verbatim>\<open>uint32_t\<close>; and
  a wait on the condition variable that nobody will ever signal. The model is that of a
  debug build: the assertions are checked.
\<close>

datatype error =
    OutOfMemory
  | Cancelled
  | CompileFailed
  | HelperFailed
  | AssertionFailure string
  | Crash string
  | OutOfRange
  | DivisionByZero
  | NullDereference
  | GlobalDataOverflow
  | Blocked

definition andThen :: "error + 'a \<Rightarrow> ('a \<Rightarrow> error + 'b) \<Rightarrow> error + 'b" where
  "andThen m f = (case m of Inl e \<Rightarrow> Inl e | Inr x \<Rightarrow> f x)"

definition MOZ_ASSERT :: "bool \<Rightarrow> string \<Rightarrow> 'a \<Rightarrow> error + 'a" where
  "MOZ_ASSERT c txt x = (if c then Inr x else Inl (AssertionFailure txt))"

section \<open>Data model\<close>

datatype Tier = Baseline | Ion

datatype CompileMode = Once | Tier1 | Tier2

datatype ValType = I32 | I64 | F32 | F64 | I8x16 | I16x8 | I32x4 | F32x4 | B8x16 | B16x8 | B32x4

datatype DefinitionKind = FunctionDef | TableDef | MemoryDef | GlobalDef

text \<open>The enumerations \<^verbatim>\<open>Trap\<close> and \<^verbatim>\<open>SymbolicAddress\<close> are declared outside the file; a value
  is its ordinal. A \<^verbatim>\<open>CodeOffset\<close> wraps a \<^verbatim>\<open>size_t\<close>.\<close>

type_synonym Trap = nat
type_synonym SymbolicAddress = nat
type_synonym CodeOffset = nat

record Sig =
  args :: "ValType list"
  ret :: "ValType option"

text \<open>The kinds of \<^verbatim>\<open>CodeRange\<close>, in the order of the switch of \<^verbatim>\<open>noteCodeRange\<close>.\<close>

datatype Kind =
    Function
  | Entry
  | ImportJitExit
  | ImportInterpExit
  | TrapExit
  | DebugTrap
  | OutOfBoundsExit
  | UnalignedExit
  | Interrupt
  | Throw
  | FarJumpIsland
  | BuiltinThunk

text \<open>
  Modelled from the spec: the class \<^verbatim>\<open>CodeRange\<close> is declared outside the file. Section 3 gives
  it a kind, \<open>begin\<close>, \<open>end\<close> and an extra that carries a function index or a trap;
  \<^verbatim>\<open>offsetBy\<close> rebases \<open>begin\<close> and \<open>end\<close> (section 4.4, step 2), and the normal entry of a
  function lies at a fixed distance after \<open>begin\<close>.
\<close>

record CodeRange =
  cr_kind :: Kind
  cr_begin :: u32
  cr_end :: u32
  cr_funcIndex :: u32
  cr_trap :: Trap
  cr_beginToNormalEntry :: u32

definition CodeRange_offsetBy :: "u32 \<Rightarrow> CodeRange \<Rightarrow> CodeRange" where
  "CodeRange_offsetBy offset r = r\<lparr>cr_begin := cr_begin r + offset, cr_end := cr_end r + offset\<rparr>"

definition funcNormalEntry :: "CodeRange \<Rightarrow> u32" where
  "funcNormalEntry r = cr_begin r + cr_beginToNormalEntry r"

definition isFunction :: "CodeRange \<Rightarrow> bool" where
  "isFunction r = (cr_kind r = Function)"

text \<open>The constructor \<^verbatim>\<open>CodeRange(kind, offsets)\<close> that \<^verbatim>\<open>linkCallSites\<close> uses for an island.\<close>

definition CodeRange_of_offsets :: "Kind \<Rightarrow> u32 \<Rightarrow> u32 \<Rightarrow> CodeRange" where
  "CodeRange_of_offsets k b e =
     \<lparr>cr_kind = k, cr_begin = b, cr_end = e, cr_funcIndex = 0, cr_trap = 0,
      cr_beginToNormalEntry = 0\<rparr>"

text \<open>The kinds of \<^verbatim>\<open>CallSiteDesc\<close>, in the order of the switch of \<^verbatim>\<open>linkCallSites\<close>
  (\<open>TrapExitCall\<close> is \<^verbatim>\<open>CallSiteDesc::TrapExit\<close>).\<close>

datatype CallSiteKind =
    Dynamic
  | Symbolic
  | Func
  | TrapExitCall
  | Breakpoint
  | EnterFrame
  | LeaveFrame

record CallSite =
  cs_kind :: CallSiteKind
  returnAddressOffset :: u32

definition CallSite_offsetBy :: "u32 \<Rightarrow> CallSite \<Rightarrow> CallSite" where
  "CallSite_offsetBy delta c = c\<lparr>returnAddressOffset := returnAddressOffset c + delta\<rparr>"

text \<open>A \<^verbatim>\<open>CallSiteTarget\<close> carries a callee function index, a trap, or nothing.\<close>

datatype CallSiteTarget = NoTarget | FuncIndexTarget u32 | TrapTarget Trap

record CallFarJump =
  cfj_funcIndex :: u32
  cfj_jump :: CodeOffset

definition CallFarJump_offsetBy :: "nat \<Rightarrow> CallFarJump \<Rightarrow> CallFarJump" where
  "CallFarJump_offsetBy delta j = j\<lparr>cfj_jump := cfj_jump j + delta\<rparr>"

record TrapFarJump =
  tfj_trap :: Trap
  tfj_jump :: CodeOffset

definition TrapFarJump_offsetBy :: "nat \<Rightarrow> TrapFarJump \<Rightarrow> TrapFarJump" where
  "TrapFarJump_offsetBy delta j = j\<lparr>tfj_jump := tfj_jump j + delta\<rparr>"

record MemoryAccess =
  insnOffset :: u32

definition MemoryAccess_offsetBy :: "u32 \<Rightarrow> MemoryAccess \<Rightarrow> MemoryAccess" where
  "MemoryAccess_offsetBy delta a = a\<lparr>insnOffset := insnOffset a + delta\<rparr>"

record SymbolicAccess =
  sa_patchAt :: CodeOffset
  sa_target :: SymbolicAddress

record CodeLabel =
  cl_patchAt :: CodeOffset
  cl_target :: CodeOffset

record InternalLink =
  patchAtOffset :: u32
  targetOffset :: u32

record CompiledCode =
  cc_bytes :: "u8 list"
  cc_codeRanges :: "CodeRange list"
  cc_callSites :: "CallSite list"
  cc_callSiteTargets :: "CallSiteTarget list"
  cc_trapSites :: "nat list"
  cc_trapFarJumps :: "TrapFarJump list"
  cc_callFarJumps :: "CallFarJump list"
  cc_memoryAccesses :: "MemoryAccess list"
  cc_symbolicAccesses :: "SymbolicAccess list"
  cc_codeLabels :: "CodeLabel list"

definition CompiledCode_empty :: CompiledCode where
  "CompiledCode_empty =
     \<lparr>cc_bytes = [], cc_codeRanges = [], cc_callSites = [], cc_callSiteTargets = [],
      cc_trapSites = [], cc_trapFarJumps = [], cc_callFarJumps = [], cc_memoryAccesses = [],
      cc_symbolicAccesses = [], cc_codeLabels = []\<rparr>"

record FuncCompileInput =
  fi_index :: u32
  fi_lineOrBytecode :: u32
  fi_bytes :: "u8 list"
  fi_begin :: nat
  fi_end :: nat
  fi_lineNums :: "u32 list"

record CompileTask =
  task_inputs :: "FuncCompileInput list"
  task_output :: CompiledCode

text \<open>The record that the coordinator and the helper threads share under the lock. A
  \<^verbatim>\<open>CompileTask*\<close> is the index of the task in \<^verbatim>\<open>tasks_\<close>; a \<^verbatim>\<open>UniqueChars\<close> is a string or
  null.\<close>

record TaskState =
  finished :: "nat list"
  numFailed :: u32
  errorMessage :: "string option"

record FuncImport =
  fim_sig :: Sig
  fim_tlsDataOffset :: u32
  fim_interpExitCodeOffset :: u32
  fim_jitExitCodeOffset :: u32

record FuncExport =
  fe_sig :: Sig
  fe_funcIndex :: u32
  fe_codeRangeIndex :: u32
  fe_entryOffset :: u32

section \<open>What is declared outside the file\<close>

record JitOptionsT =
  jumpThreshold :: u32
  wasmBatchBaselineThreshold :: u32
  wasmBatchIonThreshold :: u32

text \<open>
  The constants of the target and of the build, the options, and the consumed black boxes
  (the two function compilers and the stub generator) are parameters of the model. A
  compiler returns the compiled code, or fails with or without a message.
\<close>

record Globals =
  JitOptions :: JitOptionsT
  JumpImmediateRange :: u32
  CodeAlignment :: nat
  MaxModuleBytes :: u32
  haltCode :: u8
  farJumpCode :: "u8 list"
  farJumpPatchAt :: nat
  loadTlsCode :: "u8 list"
  sizeofFuncImportTls :: u32
  sizeofTableTls :: u32
  sizeofPointer :: u32
  SystemPageSize :: nat
  AsmJSFirstDefFuncIndex :: nat
  AsmJSMaxTypes :: nat
  AsmJSMaxTables :: nat
  threadCount :: nat
  cpuCount :: nat
  maxWasmCompilationThreads :: nat
  CanUseExtraThreads :: bool
  SigIdDesc_isGlobal :: "Sig \<Rightarrow> bool"
  IonCompileFunctions :: "FuncCompileInput list \<Rightarrow> string option + CompiledCode"
  BaselineCompileFunctions :: "FuncCompileInput list \<Rightarrow> string option + CompiledCode"
  GenerateStubs :: "FuncImport list \<Rightarrow> FuncExport list \<Rightarrow> CompiledCode option"

section \<open>The assembler\<close>

text \<open>
  Modelled from the spec: the macro assembler is declared outside the file. Section 6 lists
  what the generator consumes: the size and the current offset of an append-only buffer,
  \<^verbatim>\<open>haltingAlign\<close>, \<^verbatim>\<open>appendRawCode\<close>, \<^verbatim>\<open>farJumpWithPatch\<close> (placeholder bytes and a patch
  point), \<^verbatim>\<open>patchCall\<close>, \<^verbatim>\<open>patchFarJump\<close>, \<^verbatim>\<open>loadPtr\<close>, \<^verbatim>\<open>flushBuffer\<close>, \<^verbatim>\<open>finish\<close> and
  \<^verbatim>\<open>oom\<close>. The encoding of a patch depends on the target, so the model records the patches
  in the order in which they are made. \<open>growth\<close> lists the outcomes of the coming attempts
  to grow the buffer (none left: every attempt succeeds); after a failed attempt the
  assembler is out of memory and drops what it is asked to emit.
\<close>

record MacroAssembler =
  buffer :: "u8 list"
  oom :: bool
  growth :: "bool list"
  patchedCalls :: "(u32 \<times> u32) list"
  patchedFarJumps :: "(CodeOffset \<times> u32) list"

definition size_masm :: "MacroAssembler \<Rightarrow> nat" where
  "size_masm m = length (buffer m)"

definition currentOffset :: "MacroAssembler \<Rightarrow> u32" where
  "currentOffset m = of_nat (size_masm m)"

definition emit :: "u8 list \<Rightarrow> MacroAssembler \<Rightarrow> MacroAssembler" where
  "emit bs m =
     (if oom m \<or> bs = [] then m
      else case growth m of
        [] \<Rightarrow> m\<lparr>buffer := buffer m @ bs\<rparr>
      | ok # rest \<Rightarrow>
          if ok then m\<lparr>buffer := buffer m @ bs, growth := rest\<rparr>
          else m\<lparr>oom := True, growth := rest\<rparr>)"

definition haltingAlign :: "Globals \<Rightarrow> nat \<Rightarrow> MacroAssembler \<Rightarrow> MacroAssembler" where
  "haltingAlign g alignment m =
     emit (replicate ((alignment - size_masm m mod alignment) mod alignment) (haltCode g)) m"

definition appendRawCode :: "u8 list \<Rightarrow> MacroAssembler \<Rightarrow> bool \<times> MacroAssembler" where
  "appendRawCode bs m = (let m' = emit bs m in (\<not> oom m', m'))"

definition farJumpWithPatch :: "Globals \<Rightarrow> MacroAssembler \<Rightarrow> CodeOffset \<times> MacroAssembler" where
  "farJumpWithPatch g m = (size_masm m + farJumpPatchAt g, emit (farJumpCode g) m)"

definition loadTls :: "Globals \<Rightarrow> MacroAssembler \<Rightarrow> MacroAssembler" where
  "loadTls g m = emit (loadTlsCode g) m"

definition patchCall :: "u32 \<Rightarrow> u32 \<Rightarrow> MacroAssembler \<Rightarrow> MacroAssembler" where
  "patchCall callerOffset calleeOffset m =
     m\<lparr>patchedCalls := patchedCalls m @ [(callerOffset, calleeOffset)]\<rparr>"

definition patchFarJump :: "CodeOffset \<Rightarrow> u32 \<Rightarrow> MacroAssembler \<Rightarrow> MacroAssembler" where
  "patchFarJump farJump target m =
     m\<lparr>patchedFarJumps := patchedFarJumps m @ [(farJump, target)]\<rparr>"

definition flushBuffer :: "MacroAssembler \<Rightarrow> MacroAssembler" where
  "flushBuffer m = m"

definition finish :: "MacroAssembler \<Rightarrow> MacroAssembler" where
  "finish m = m"

section \<open>The module environment and the metadata\<close>

record Export =
  exp_fieldName :: string
  exp_kind :: DefinitionKind
  exp_funcIndex :: u32

record TableDesc =
  external :: bool
  tbl_globalDataOffset :: u32

record ElemSegment =
  tableIndex :: u32
  elemFuncIndices :: "u32 list"
  elemCodeRangeIndices :: "u32 list"

record GlobalDesc =
  gd_type :: ValType
  gd_isConstant :: bool
  gd_offset :: u32

datatype SigIdDesc = NoSigId | GlobalSigId u32 | ImmediateSigId

record SigWithId =
  sig_sig :: Sig
  sig_id :: SigIdDesc

text \<open>An entry of \<^verbatim>\<open>funcSigs\<close> points into \<^verbatim>\<open>sigs\<close> or is null: it is the index of the
  signature, or \<open>None\<close>.\<close>

record ModuleEnvironment =
  isAsmJS :: bool
  tier :: Tier
  mode :: CompileMode
  sigs :: "SigWithId list"
  funcSigs :: "nat option list"
  funcImportGlobalDataOffsets :: "u32 list"
  tables :: "TableDesc list"
  globals :: "GlobalDesc list"
  exports :: "Export list"
  startFuncIndex :: "u32 option"
  elemSegments :: "ElemSegment list"
  asmJSSigToTableIndex :: "u32 list"

definition numFuncs :: "ModuleEnvironment \<Rightarrow> nat" where
  "numFuncs e = length (funcSigs e)"

record Metadata =
  globalDataLength :: u32
  md_startFuncIndex :: "u32 option"
  sigIds :: "(Sig \<times> SigIdDesc) list"
  md_filename :: "string option"

record MetadataTier =
  codeRanges :: "CodeRange list"
  callSites :: "CallSite list"
  memoryAccesses :: "MemoryAccess list"
  funcImports :: "FuncImport list"
  funcExports :: "FuncExport list"
  debugTrapFarJumpOffsets :: "u32 list"

record LinkDataTier =
  internalLinks :: "InternalLink list"
  symbolicLinks :: "SymbolicAddress \<Rightarrow> u32 list"
  outOfBoundsOffset :: u32
  unalignedAccessOffset :: u32
  interruptOffset :: u32

section \<open>The generator\<close>

text \<open>
  The members of \<^verbatim>\<open>ModuleGenerator\<close>, without the trailing underscore. \<open>metadata\<close>,
  \<open>metadataTier\<close> and \<open>linkDataTier\<close> are the objects behind the pointers of the same
  names; \<open>cancelled\<close> is null or the value of the flag; \<open>errorSlot\<close> is what \<^verbatim>\<open>error_\<close>
  points to; \<open>exportedFuncs\<close> lists the elements of the hash set without repetition, in
  the order in which the set would enumerate them.

  Three members are not in the class. \<open>systemAlloc\<close> lists the outcomes of the coming
  fallible allocations of the vectors, maps and sets (none left: every one succeeds).
  \<open>wasmWorklist\<close> is the work list of the helper threads, and \<open>helperSchedule\<close> says
  what the helper threads do each time the coordinator takes or waits for the lock of the
  task state: which tasks of the work list they complete (by position, modulo its length)
  and whether the append to \<^verbatim>\<open>finished\<close> succeeds.
\<close>

record ModuleGenerator =
  env :: ModuleEnvironment
  cancelled :: "bool option"
  errorSlot :: "string option"
  metadata :: Metadata
  metadataTier :: MetadataTier
  linkDataTier :: LinkDataTier
  taskState :: TaskState
  numFuncDefs :: u32
  numSigs :: u32
  numTables :: u32
  masm :: MacroAssembler
  funcToCodeRange :: "u32 list"
  trapCodeOffsets :: "Trap \<Rightarrow> u32"
  debugTrapCodeOffset :: u32
  callSiteTargets :: "CallSiteTarget list"
  trapFarJumps :: "TrapFarJump list"
  callFarJumps :: "CallFarJump list"
  debugTrapFarJumps :: "CodeOffset list"
  lastPatchedCallSite :: nat
  startOfUnpatchedCallsites :: u32
  exportedFuncs :: "u32 list"
  parallel :: bool
  outstanding :: nat
  tasks :: "CompileTask list"
  freeTasks :: "nat list"
  currentTask :: "nat option"
  batchedBytecode :: u32
  startedFuncDefs :: bool
  finishedFuncDefs :: bool
  systemAlloc :: "bool list"
  wasmWorklist :: "nat list"
  helperSchedule :: "(nat \<times> bool) list list"

definition BAD_CODE_RANGE :: u32 where
  "BAD_CODE_RANGE = - 1"

text \<open>The constructor. The buffer of the assembler is empty, the offsets of the traps and
  of the link data are zero, nothing is exported and no task exists.\<close>

definition ModuleGenerator_new ::
  "ModuleEnvironment \<Rightarrow> bool option \<Rightarrow> bool list \<Rightarrow> bool list \<Rightarrow> (nat \<times> bool) list list
     \<Rightarrow> ModuleGenerator" where
  "ModuleGenerator_new e c lifo sys sched =
     \<lparr>env = e, cancelled = c, errorSlot = None,
      metadata = \<lparr>globalDataLength = 0, md_startFuncIndex = None, sigIds = [],
        md_filename = None\<rparr>,
      metadataTier = \<lparr>codeRanges = [], callSites = [], memoryAccesses = [], funcImports = [],
        funcExports = [], debugTrapFarJumpOffsets = []\<rparr>,
      linkDataTier = \<lparr>internalLinks = [], symbolicLinks = (\<lambda>_. []), outOfBoundsOffset = 0,
        unalignedAccessOffset = 0, interruptOffset = 0\<rparr>,
      taskState = \<lparr>finished = [], numFailed = 0, errorMessage = None\<rparr>,
      numFuncDefs = 0, numSigs = 0, numTables = 0,
      masm = \<lparr>buffer = [], oom = False, growth = lifo, patchedCalls = [],
        patchedFarJumps = []\<rparr>,
      funcToCodeRange = [], trapCodeOffsets = (\<lambda>_. 0), debugTrapCodeOffset = 0,
      callSiteTargets = [], trapFarJumps = [], callFarJumps = [], debugTrapFarJumps = [],
      lastPatchedCallSite = 0, startOfUnpatchedCallsites = 0, exportedFuncs = [],
      parallel = False, outstanding = 0, tasks = [], freeTasks = [], currentTask = None,
      batchedBytecode = 0, startedFuncDefs = False, finishedFuncDefs = False,
      systemAlloc = sys, wasmWorklist = [], helperSchedule = sched\<rparr>"

text \<open>A fallible allocation of a vector, a map or a set: \<^verbatim>\<open>false\<close> is \<open>OutOfMemory\<close>.\<close>

definition alloc :: "ModuleGenerator \<Rightarrow> error + ModuleGenerator" where
  "alloc s =
     (case systemAlloc s of
        [] \<Rightarrow> Inr s
      | ok # rest \<Rightarrow> if ok then Inr (s\<lparr>systemAlloc := rest\<rparr>) else Inl OutOfMemory)"

subsection \<open>\<^verbatim>\<open>funcIsCompiled\<close>, \<^verbatim>\<open>funcCodeRange\<close>, \<^verbatim>\<open>InRange\<close>\<close>

definition funcIsCompiled :: "ModuleGenerator \<Rightarrow> u32 \<Rightarrow> error + bool" where
  "funcIsCompiled s funcIndex =
     (if unat funcIndex < length (funcToCodeRange s)
      then Inr (funcToCodeRange s ! unat funcIndex \<noteq> BAD_CODE_RANGE)
      else Inl OutOfRange)"

definition funcCodeRange :: "ModuleGenerator \<Rightarrow> u32 \<Rightarrow> error + CodeRange" where
  "funcCodeRange s funcIndex =
     andThen (funcIsCompiled s funcIndex) (\<lambda>compiled.
     andThen (MOZ_ASSERT compiled ''funcIsCompiled(funcIndex)'' ()) (\<lambda>_.
       let i = unat (funcToCodeRange s ! unat funcIndex) in
       if i < length (codeRanges (metadataTier s)) then
         (let cr = codeRanges (metadataTier s) ! i
          in MOZ_ASSERT (isFunction cr) ''cr.isFunction()'' cr)
       else Inl OutOfRange))"

definition InRange :: "Globals \<Rightarrow> u32 \<Rightarrow> u32 \<Rightarrow> bool" where
  "InRange g caller callee =
     (let range = min (jumpThreshold (JitOptions g)) (JumpImmediateRange g)
      in if caller < callee then callee - caller < range else caller - callee < range)"

subsection \<open>\<^verbatim>\<open>allocateGlobalBytes\<close>\<close>

text \<open>\<^verbatim>\<open>mozilla::CheckedInt<uint32_t>\<close>: a value, or invalid once a result has left the
  range of \<^verbatim>\<open>uint32_t\<close>.\<close>

type_synonym CheckedInt = "u32 option"

definition CheckedInt_isValid :: "CheckedInt \<Rightarrow> bool" where
  "CheckedInt_isValid c = (c \<noteq> None)"

definition CheckedInt_value :: "CheckedInt \<Rightarrow> u32" where
  "CheckedInt_value c = the c"

definition CheckedInt_add :: "CheckedInt \<Rightarrow> nat \<Rightarrow> CheckedInt" where
  "CheckedInt_add c n =
     (case c of
        None \<Rightarrow> None
      | Some x \<Rightarrow> if unat x + n < 2 ^ 32 then Some (x + of_nat n) else None)"

text \<open>
  Modelled from the spec: \<^verbatim>\<open>ComputeByteAlignment\<close> is declared outside the file. Section 4.2
  asks for naturally aligned slots: the function gives the number of bytes that separate
  \<open>nbytes\<close> from the next multiple of \<open>alignment\<close>. The remainder it takes has no value
  for the alignment zero.
\<close>

definition ComputeByteAlignment :: "nat \<Rightarrow> nat \<Rightarrow> error + nat" where
  "ComputeByteAlignment nbytes alignment =
     (if alignment = 0 then Inl DivisionByZero
      else Inr ((alignment - nbytes mod alignment) mod alignment))"

text \<open>The result is the returned boolean, what was written through \<^verbatim>\<open>globalDataOffset\<close>
  (nothing when the function returns at the first check) and the generator.\<close>

definition allocateGlobalBytes ::
  "u32 \<Rightarrow> u32 \<Rightarrow> ModuleGenerator \<Rightarrow> error + bool \<times> u32 option \<times> ModuleGenerator" where
  "allocateGlobalBytes nbytes align s =
     (let newGlobalDataLength = Some (globalDataLength (metadata s)) in
      andThen (ComputeByteAlignment (unat (CheckedInt_value newGlobalDataLength)) (unat align))
        (\<lambda>padding.
          let newGlobalDataLength = CheckedInt_add newGlobalDataLength padding in
          if \<not> CheckedInt_isValid newGlobalDataLength then Inr (False, None, s)
          else
            let globalDataOffset = CheckedInt_value newGlobalDataLength;
                newGlobalDataLength = CheckedInt_add newGlobalDataLength (unat nbytes)
            in if \<not> CheckedInt_isValid newGlobalDataLength
               then Inr (False, Some globalDataOffset, s)
               else Inr (True, Some globalDataOffset,
                      s\<lparr>metadata := (metadata s)
                          \<lparr>globalDataLength := CheckedInt_value newGlobalDataLength\<rparr>\<rparr>)))"

subsection \<open>\<^verbatim>\<open>noteCodeRange\<close>\<close>

text \<open>
  Modelled from the spec: \<^verbatim>\<open>lookupFuncExport\<close>, \<^verbatim>\<open>initEntryOffset\<close>, \<^verbatim>\<open>initJitExitOffset\<close> and
  \<^verbatim>\<open>initInterpExitOffset\<close> are declared outside the file. Section 4.5 has them patch the
  entry offset of the export of a function, and the exit offsets of an import, to the
  \<open>begin\<close> of the code range; an export that is not in the table and an offset that is
  already set are programming errors.
\<close>

fun lookupFuncExport :: "FuncExport list \<Rightarrow> u32 \<Rightarrow> nat option" where
  "lookupFuncExport [] f = None"
| "lookupFuncExport (e # es) f =
     (if fe_funcIndex e = f then Some 0 else map_option Suc (lookupFuncExport es f))"

definition initEntryOffset :: "u32 \<Rightarrow> FuncExport \<Rightarrow> error + FuncExport" where
  "initEntryOffset entryOffset e =
     MOZ_ASSERT (fe_entryOffset e = - 1) ''entryOffset_ == UINT32_MAX''
       (e\<lparr>fe_entryOffset := entryOffset\<rparr>)"

definition initJitExitOffset :: "u32 \<Rightarrow> FuncImport \<Rightarrow> error + FuncImport" where
  "initJitExitOffset off i =
     MOZ_ASSERT (fim_jitExitCodeOffset i = 0) ''!jitExitCodeOffset_''
       (i\<lparr>fim_jitExitCodeOffset := off\<rparr>)"

definition initInterpExitOffset :: "u32 \<Rightarrow> FuncImport \<Rightarrow> error + FuncImport" where
  "initInterpExitOffset off i =
     MOZ_ASSERT (fim_interpExitCodeOffset i = 0) ''!interpExitCodeOffset_''
       (i\<lparr>fim_interpExitCodeOffset := off\<rparr>)"

definition noteCodeRange :: "u32 \<Rightarrow> CodeRange \<Rightarrow> ModuleGenerator \<Rightarrow> error + ModuleGenerator" where
  "noteCodeRange codeRangeIndex codeRange s =
     (case cr_kind codeRange of
        Function \<Rightarrow>
          (let f = unat (cr_funcIndex codeRange) in
           if \<not> f < length (funcToCodeRange s) then Inl OutOfRange
           else
             andThen (MOZ_ASSERT (funcToCodeRange s ! f = BAD_CODE_RANGE)
                        ''funcToCodeRange_[codeRange.funcIndex()] == BAD_CODE_RANGE'' ())
               (\<lambda>_. Inr (s\<lparr>funcToCodeRange := (funcToCodeRange s)[f := codeRangeIndex]\<rparr>)))
      | Entry \<Rightarrow>
          (case lookupFuncExport (funcExports (metadataTier s)) (cr_funcIndex codeRange) of
             None \<Rightarrow> Inl (Crash ''missing function export'')
           | Some i \<Rightarrow>
               andThen (initEntryOffset (cr_begin codeRange) (funcExports (metadataTier s) ! i))
                 (\<lambda>e. Inr (s\<lparr>metadataTier := (metadataTier s)
                               \<lparr>funcExports := (funcExports (metadataTier s))[i := e]\<rparr>\<rparr>)))
      | ImportJitExit \<Rightarrow>
          (let f = unat (cr_funcIndex codeRange) in
           if \<not> f < length (funcImports (metadataTier s)) then Inl OutOfRange
           else
             andThen (initJitExitOffset (cr_begin codeRange) (funcImports (metadataTier s) ! f))
               (\<lambda>i. Inr (s\<lparr>metadataTier := (metadataTier s)
                             \<lparr>funcImports := (funcImports (metadataTier s))[f := i]\<rparr>\<rparr>)))
      | ImportInterpExit \<Rightarrow>
          (let f = unat (cr_funcIndex codeRange) in
           if \<not> f < length (funcImports (metadataTier s)) then Inl OutOfRange
           else
             andThen (initInterpExitOffset (cr_begin codeRange) (funcImports (metadataTier s) ! f))
               (\<lambda>i. Inr (s\<lparr>metadataTier := (metadataTier s)
                             \<lparr>funcImports := (funcImports (metadataTier s))[f := i]\<rparr>\<rparr>)))
      | TrapExit \<Rightarrow>
          andThen (MOZ_ASSERT (trapCodeOffsets s (cr_trap codeRange) = 0)
                     ''!trapCodeOffsets_[codeRange.trap()]'' ())
            (\<lambda>_. Inr (s\<lparr>trapCodeOffsets :=
                          (trapCodeOffsets s)(cr_trap codeRange := cr_begin codeRange)\<rparr>))
      | DebugTrap \<Rightarrow>
          andThen (MOZ_ASSERT (debugTrapCodeOffset s = 0) ''!debugTrapCodeOffset_'' ())
            (\<lambda>_. Inr (s\<lparr>debugTrapCodeOffset := cr_begin codeRange\<rparr>))
      | OutOfBoundsExit \<Rightarrow>
          andThen (MOZ_ASSERT (outOfBoundsOffset (linkDataTier s) = 0)
                     ''!linkDataTier_->outOfBoundsOffset'' ())
            (\<lambda>_. Inr (s\<lparr>linkDataTier := (linkDataTier s)
                          \<lparr>outOfBoundsOffset := cr_begin codeRange\<rparr>\<rparr>))
      | UnalignedExit \<Rightarrow>
          andThen (MOZ_ASSERT (unalignedAccessOffset (linkDataTier s) = 0)
                     ''!linkDataTier_->unalignedAccessOffset'' ())
            (\<lambda>_. Inr (s\<lparr>linkDataTier := (linkDataTier s)
                          \<lparr>unalignedAccessOffset := cr_begin codeRange\<rparr>\<rparr>))
      | Interrupt \<Rightarrow>
          andThen (MOZ_ASSERT (interruptOffset (linkDataTier s) = 0)
                     ''!linkDataTier_->interruptOffset'' ())
            (\<lambda>_. Inr (s\<lparr>linkDataTier := (linkDataTier s)
                          \<lparr>interruptOffset := cr_begin codeRange\<rparr>\<rparr>))
      | Throw \<Rightarrow> Inr s
      | FarJumpIsland \<Rightarrow> Inl (Crash ''Unexpected CodeRange kind'')
      | BuiltinThunk \<Rightarrow> Inl (Crash ''Unexpected CodeRange kind''))"

subsection \<open>\<^verbatim>\<open>AppendForEach\<close> and \<^verbatim>\<open>linkCompiledCode\<close>\<close>

text \<open>
  \<^verbatim>\<open>AppendForEach\<close> grows the destination by the length of the source (the one fallible
  step, taken by the caller of the model), then copies each element to the next free slot
  and applies the operation to the index of the slot and to the copy. The operation may
  change the rest of the state \<open>st\<close>, and may fail.
\<close>

fun AppendForEach ::
  "(nat \<Rightarrow> 'a \<Rightarrow> 'st \<Rightarrow> error + 'a \<times> 'st) \<Rightarrow> 'a list \<Rightarrow> 'a list \<Rightarrow> 'st
     \<Rightarrow> error + 'a list \<times> 'st" where
  "AppendForEach op dstVec [] st = Inr (dstVec, st)"
| "AppendForEach op dstVec (src # srcVec) st =
     andThen (op (length dstVec) src st)
       (\<lambda>(dst, st'). AppendForEach op (dstVec @ [dst]) srcVec st')"

definition codeRangeOp ::
  "nat \<Rightarrow> nat \<Rightarrow> CodeRange \<Rightarrow> ModuleGenerator \<Rightarrow> error + CodeRange \<times> ModuleGenerator" where
  "codeRangeOp offsetInModule codeRangeIndex src s =
     (let codeRange = CodeRange_offsetBy (of_nat offsetInModule) src
      in andThen (noteCodeRange (of_nat codeRangeIndex) codeRange s)
           (\<lambda>s'. Inr (codeRange, s')))"

text \<open>The two loops at the end of \<^verbatim>\<open>linkCompiledCode\<close>.\<close>

fun linkSymbolicAccesses ::
  "nat \<Rightarrow> SymbolicAccess list \<Rightarrow> ModuleGenerator \<Rightarrow> error + ModuleGenerator" where
  "linkSymbolicAccesses offsetInModule [] s = Inr s"
| "linkSymbolicAccesses offsetInModule (access # rest) s =
     (let patchAt = (of_nat (offsetInModule + sa_patchAt access) :: u32)
      in andThen (alloc s) (\<lambda>s.
           linkSymbolicAccesses offsetInModule rest
             (s\<lparr>linkDataTier := (linkDataTier s)
                  \<lparr>symbolicLinks := (symbolicLinks (linkDataTier s))
                     (sa_target access :=
                        symbolicLinks (linkDataTier s) (sa_target access) @ [patchAt])\<rparr>\<rparr>)))"

fun linkCodeLabels ::
  "nat \<Rightarrow> CodeLabel list \<Rightarrow> ModuleGenerator \<Rightarrow> error + ModuleGenerator" where
  "linkCodeLabels offsetInModule [] s = Inr s"
| "linkCodeLabels offsetInModule (codeLabel # rest) s =
     (let link = \<lparr>patchAtOffset = of_nat (offsetInModule + cl_patchAt codeLabel),
                  targetOffset = of_nat (offsetInModule + cl_target codeLabel)\<rparr>
      in andThen (alloc s) (\<lambda>s.
           linkCodeLabels offsetInModule rest
             (s\<lparr>linkDataTier := (linkDataTier s)
                  \<lparr>internalLinks := internalLinks (linkDataTier s) @ [link]\<rparr>\<rparr>)))"

definition linkCompiledCode ::
  "Globals \<Rightarrow> CompiledCode \<Rightarrow> ModuleGenerator \<Rightarrow> error + ModuleGenerator" where
  "linkCompiledCode g code s0 =
     (let s = s0\<lparr>masm := haltingAlign g (CodeAlignment g) (masm s0)\<rparr>;
          offsetInModule = size_masm (masm s);
          (appended, m) = appendRawCode (cc_bytes code) (masm s);
          s = s\<lparr>masm := m\<rparr>
      in if \<not> appended then Inl OutOfMemory
         else
           andThen (alloc s) (\<lambda>s.
           andThen (AppendForEach (codeRangeOp offsetInModule) (codeRanges (metadataTier s))
                      (cc_codeRanges code) s) (\<lambda>(v, s).
           let s = s\<lparr>metadataTier := (metadataTier s)\<lparr>codeRanges := v\<rparr>\<rparr> in
           andThen (alloc s) (\<lambda>s.
           let s = s\<lparr>metadataTier := (metadataTier s)
                     \<lparr>callSites := callSites (metadataTier s) @
                        map (CallSite_offsetBy (of_nat offsetInModule)) (cc_callSites code)\<rparr>\<rparr> in
           andThen (alloc s) (\<lambda>s.
           let s = s\<lparr>callSiteTargets := callSiteTargets s @ cc_callSiteTargets code\<rparr> in
           andThen (MOZ_ASSERT (cc_trapSites code = []) ''code.trapSites.empty()'' s) (\<lambda>s.
           andThen (alloc s) (\<lambda>s.
           let s = s\<lparr>trapFarJumps := trapFarJumps s @
                     map (TrapFarJump_offsetBy offsetInModule) (cc_trapFarJumps code)\<rparr> in
           andThen (alloc s) (\<lambda>s.
           let s = s\<lparr>callFarJumps := callFarJumps s @
                     map (CallFarJump_offsetBy offsetInModule) (cc_callFarJumps code)\<rparr> in
           andThen (alloc s) (\<lambda>s.
           let s = s\<lparr>metadataTier := (metadataTier s)
                     \<lparr>memoryAccesses := memoryAccesses (metadataTier s) @
                        map (MemoryAccess_offsetBy (of_nat offsetInModule))
                          (cc_memoryAccesses code)\<rparr>\<rparr> in
           andThen (linkSymbolicAccesses offsetInModule (cc_symbolicAccesses code) s) (\<lambda>s.
           linkCodeLabels offsetInModule (cc_codeLabels code) s))))))))))"

subsection \<open>\<^verbatim>\<open>linkCallSites\<close>\<close>

text \<open>The accessors of a \<^verbatim>\<open>CallSiteTarget\<close> assert its kind.\<close>

definition CallSiteTarget_funcIndex :: "CallSiteTarget \<Rightarrow> error + u32" where
  "CallSiteTarget_funcIndex t =
     (case t of FuncIndexTarget f \<Rightarrow> Inr f | _ \<Rightarrow> Inl (AssertionFailure ''kind_ == FuncIndex''))"

definition CallSiteTarget_trap :: "CallSiteTarget \<Rightarrow> error + Trap" where
  "CallSiteTarget_trap t =
     (case t of TrapTarget tr \<Rightarrow> Inr tr | _ \<Rightarrow> Inl (AssertionFailure ''kind_ == TrapExit''))"

type_synonym OffsetMap = "u32 \<Rightarrow> u32 option"
type_synonym TrapOffsetArray = "Trap \<Rightarrow> u32 option"

text \<open>
  The body of the loop of \<^verbatim>\<open>linkCallSites\<close> is a switch on the kind of the call site;
  the model has one definition for each case that does something. The two tables of the
  islands that the pass has emitted are local to the pass: a case that uses one takes it
  and returns it.

  The case \<^verbatim>\<open>CallSiteDesc::Func\<close>.
\<close>

definition linkCallSites_Func ::
  "Globals \<Rightarrow> u32 \<Rightarrow> CallSiteTarget \<Rightarrow> OffsetMap \<Rightarrow> ModuleGenerator
     \<Rightarrow> error + OffsetMap \<times> ModuleGenerator" where
  "linkCallSites_Func g callerOffset target existingCallFarJumps s =
     andThen (CallSiteTarget_funcIndex target) (\<lambda>funcIndex.
     andThen (funcIsCompiled s funcIndex) (\<lambda>compiled.
     andThen (if compiled
              then andThen (funcCodeRange s funcIndex) (\<lambda>cr. Inr (Some (funcNormalEntry cr)))
              else Inr None) (\<lambda>calleeOffset.
       if (case calleeOffset of Some c \<Rightarrow> InRange g callerOffset c | None \<Rightarrow> False)
       then Inr (existingCallFarJumps,
                 s\<lparr>masm := patchCall callerOffset (the calleeOffset) (masm s)\<rparr>)
       else
         (case existingCallFarJumps funcIndex of
            Some island \<Rightarrow>
              Inr (existingCallFarJumps, s\<lparr>masm := patchCall callerOffset island (masm s)\<rparr>)
          | None \<Rightarrow>
              (let offsets_begin = currentOffset (masm s);
                   (jump, m) = farJumpWithPatch g (masm s)
               in andThen (alloc (s\<lparr>masm := m\<rparr>)) (\<lambda>s.
                  let s = s\<lparr>callFarJumps := callFarJumps s @
                             [\<lparr>cfj_funcIndex = funcIndex, cfj_jump = jump\<rparr>]\<rparr>;
                      offsets_end = currentOffset (masm s)
                  in if oom (masm s) then Inl OutOfMemory
                     else
                       andThen (alloc s) (\<lambda>s.
                       let s = s\<lparr>metadataTier := (metadataTier s)
                                 \<lparr>codeRanges := codeRanges (metadataTier s) @
                                    [CodeRange_of_offsets FarJumpIsland offsets_begin
                                       offsets_end]\<rparr>\<rparr>
                       in andThen (alloc s) (\<lambda>s.
                            Inr (existingCallFarJumps(funcIndex \<mapsto> offsets_begin),
                                 s\<lparr>masm := patchCall callerOffset offsets_begin
                                              (masm s)\<rparr>)))))))))"

text \<open>The case \<^verbatim>\<open>CallSiteDesc::TrapExit\<close>.\<close>

definition linkCallSites_TrapExit ::
  "Globals \<Rightarrow> u32 \<Rightarrow> CallSiteTarget \<Rightarrow> TrapOffsetArray \<Rightarrow> ModuleGenerator
     \<Rightarrow> error + TrapOffsetArray \<times> ModuleGenerator" where
  "linkCallSites_TrapExit g callerOffset target existingTrapFarJumps s =
     andThen (CallSiteTarget_trap target) (\<lambda>trap.
       case existingTrapFarJumps trap of
         Some island \<Rightarrow>
           Inr (existingTrapFarJumps, s\<lparr>masm := patchCall callerOffset island (masm s)\<rparr>)
       | None \<Rightarrow>
           (let offsets_begin = currentOffset (masm s);
                (jump, m) = farJumpWithPatch g (loadTls g (masm s))
            in andThen (alloc (s\<lparr>masm := m\<rparr>)) (\<lambda>s.
               let s = s\<lparr>trapFarJumps := trapFarJumps s @
                          [\<lparr>tfj_trap = trap, tfj_jump = jump\<rparr>]\<rparr>;
                   offsets_end = currentOffset (masm s)
               in if oom (masm s) then Inl OutOfMemory
                  else
                    andThen (alloc s) (\<lambda>s.
                    let s = s\<lparr>metadataTier := (metadataTier s)
                              \<lparr>codeRanges := codeRanges (metadataTier s) @
                                 [CodeRange_of_offsets FarJumpIsland offsets_begin
                                    offsets_end]\<rparr>\<rparr>
                    in Inr (existingTrapFarJumps(trap := Some offsets_begin),
                            s\<lparr>masm := patchCall callerOffset offsets_begin (masm s)\<rparr>)))))"

text \<open>The cases \<^verbatim>\<open>Breakpoint\<close>, \<^verbatim>\<open>EnterFrame\<close> and \<^verbatim>\<open>LeaveFrame\<close>.\<close>

definition linkCallSites_Breakpoint ::
  "Globals \<Rightarrow> u32 \<Rightarrow> ModuleGenerator \<Rightarrow> error + ModuleGenerator" where
  "linkCallSites_Breakpoint g callerOffset s =
     (let jumps = debugTrapFarJumpOffsets (metadataTier s)
      in if jumps = [] \<or> \<not> InRange g (last jumps) callerOffset
         then
           (let offsets_begin = currentOffset (masm s);
                (jumpOffset, m) = farJumpWithPatch g (loadTls g (masm s));
                s = s\<lparr>masm := m\<rparr>;
                offsets_end = currentOffset (masm s)
            in if oom (masm s) then Inl OutOfMemory
               else
                 andThen (alloc s) (\<lambda>s.
                 let s = s\<lparr>metadataTier := (metadataTier s)
                           \<lparr>codeRanges := codeRanges (metadataTier s) @
                              [CodeRange_of_offsets FarJumpIsland offsets_begin offsets_end]\<rparr>\<rparr>
                 in andThen (alloc s) (\<lambda>s.
                    let s = s\<lparr>debugTrapFarJumps := debugTrapFarJumps s @ [jumpOffset]\<rparr>
                    in andThen (alloc s) (\<lambda>s.
                         Inr (s\<lparr>metadataTier := (metadataTier s)
                                \<lparr>debugTrapFarJumpOffsets :=
                                   debugTrapFarJumpOffsets (metadataTier s) @
                                   [offsets_begin]\<rparr>\<rparr>)))))
         else Inr s)"

text \<open>The switch, for the call site at \<open>lastPatchedCallSite\<close>.\<close>

definition linkCallSite ::
  "Globals \<Rightarrow> OffsetMap \<Rightarrow> TrapOffsetArray \<Rightarrow> ModuleGenerator
     \<Rightarrow> error + OffsetMap \<times> TrapOffsetArray \<times> ModuleGenerator" where
  "linkCallSite g existingCallFarJumps existingTrapFarJumps s =
     (if \<not> lastPatchedCallSite s < length (callSites (metadataTier s)) then Inl OutOfRange
      else if \<not> lastPatchedCallSite s < length (callSiteTargets s) then Inl OutOfRange
      else
        let callSite = callSites (metadataTier s) ! lastPatchedCallSite s;
            target = callSiteTargets s ! lastPatchedCallSite s;
            callerOffset = returnAddressOffset callSite
        in case cs_kind callSite of
          Dynamic \<Rightarrow> Inr (existingCallFarJumps, existingTrapFarJumps, s)
        | Symbolic \<Rightarrow> Inr (existingCallFarJumps, existingTrapFarJumps, s)
        | Func \<Rightarrow>
            andThen (linkCallSites_Func g callerOffset target existingCallFarJumps s)
              (\<lambda>(m, s'). Inr (m, existingTrapFarJumps, s'))
        | TrapExitCall \<Rightarrow>
            andThen (linkCallSites_TrapExit g callerOffset target existingTrapFarJumps s)
              (\<lambda>(a, s'). Inr (existingCallFarJumps, a, s'))
        | Breakpoint \<Rightarrow>
            andThen (linkCallSites_Breakpoint g callerOffset s)
              (\<lambda>s'. Inr (existingCallFarJumps, existingTrapFarJumps, s'))
        | EnterFrame \<Rightarrow>
            andThen (linkCallSites_Breakpoint g callerOffset s)
              (\<lambda>s'. Inr (existingCallFarJumps, existingTrapFarJumps, s'))
        | LeaveFrame \<Rightarrow>
            andThen (linkCallSites_Breakpoint g callerOffset s)
              (\<lambda>s'. Inr (existingCallFarJumps, existingTrapFarJumps, s')))"

subsection \<open>What the cases of the switch return\<close>

lemma andThen_Inr_iff: "andThen m f = Inr y \<longleftrightarrow> (\<exists>x. m = Inr x \<and> f x = Inr y)"
  by (cases m) (auto simp: andThen_def)

lemma andThen_cong [fundef_cong]:
  "m = m' \<Longrightarrow> (\<And>x. m' = Inr x \<Longrightarrow> f x = f' x) \<Longrightarrow> andThen m f = andThen m' f'"
  by (cases m') (auto simp: andThen_def)

lemma MOZ_ASSERT_Inr_iff: "MOZ_ASSERT c txt x = Inr y \<longleftrightarrow> c \<and> y = x"
  by (auto simp: MOZ_ASSERT_def)

lemma alloc_Inr_iff:
  "alloc s = Inr s' \<longleftrightarrow>
     (\<exists>r. (systemAlloc s = [] \<and> r = [] \<or> systemAlloc s = True # r) \<and>
          s' = s\<lparr>systemAlloc := r\<rparr>)"
  by (cases "systemAlloc s") (auto simp: alloc_def)

lemma alloc_InrD: "alloc s = Inr s' \<Longrightarrow> \<exists>r. s' = s\<lparr>systemAlloc := r\<rparr>"
  by (auto simp: alloc_Inr_iff)

text \<open>The generator after an island of the code \<open>code\<close> was emitted for a call far jump.\<close>

lemma linkCallSites_Func_result:
  assumes "linkCallSites_Func g co target c s = Inr (c', s')"
  shows "\<exists>f. target = FuncIndexTarget f \<and>
     ((\<exists>callee. c' = c \<and> s' = s\<lparr>masm := patchCall co callee (masm s)\<rparr> \<and>
          ((\<exists>cr. funcCodeRange s f = Inr cr \<and> callee = funcNormalEntry cr \<and>
                 InRange g co callee)
           \<or> (\<forall>cr. funcCodeRange s f = Inr cr \<longrightarrow> \<not> InRange g co (funcNormalEntry cr)) \<and>
             c f = Some callee)) \<or>
      (\<exists>r. (\<forall>cr. funcCodeRange s f = Inr cr \<longrightarrow> \<not> InRange g co (funcNormalEntry cr)) \<and>
           c f = None \<and> c' = c(f \<mapsto> currentOffset (masm s)) \<and>
           \<not> oom (emit (farJumpCode g) (masm s)) \<and>
           s' = s\<lparr>masm := patchCall co (currentOffset (masm s)) (emit (farJumpCode g) (masm s)),
                  systemAlloc := r,
                  callFarJumps := callFarJumps s @
                     [\<lparr>cfj_funcIndex = f, cfj_jump = size_masm (masm s) + farJumpPatchAt g\<rparr>],
                  metadataTier := (metadataTier s)\<lparr>codeRanges := codeRanges (metadataTier s) @
                     [CodeRange_of_offsets FarJumpIsland (currentOffset (masm s))
                        (currentOffset (emit (farJumpCode g) (masm s)))]\<rparr>\<rparr>))"
proof -
  from assms obtain f where t: "target = FuncIndexTarget f"
    by (cases target) (auto simp: linkCallSites_Func_def CallSiteTarget_funcIndex_def andThen_def)
  from assms t obtain compiled where 1: "funcIsCompiled s f = Inr compiled"
    by (auto simp: linkCallSites_Func_def CallSiteTarget_funcIndex_def andThen_Inr_iff)
  from assms t 1 obtain calleeOffset where
    2: "(if compiled then andThen (funcCodeRange s f) (\<lambda>cr. Inr (Some (funcNormalEntry cr)))
              else Inr None) = Inr calleeOffset"
    by (auto simp: linkCallSites_Func_def CallSiteTarget_funcIndex_def andThen_Inr_iff)
  have 3: "(if (case calleeOffset of Some c \<Rightarrow> InRange g co c | None \<Rightarrow> False)
       then Inr (c, s\<lparr>masm := patchCall co (the calleeOffset) (masm s)\<rparr>)
       else
         (case c f of
            Some island \<Rightarrow>
              Inr (c, s\<lparr>masm := patchCall co island (masm s)\<rparr>)
          | None \<Rightarrow>
              (let offsets_begin = currentOffset (masm s);
                   (jump, m) = farJumpWithPatch g (masm s)
               in andThen (alloc (s\<lparr>masm := m\<rparr>)) (\<lambda>s.
                  let s = s\<lparr>callFarJumps := callFarJumps s @
                             [\<lparr>cfj_funcIndex = f, cfj_jump = jump\<rparr>]\<rparr>;
                      offsets_end = currentOffset (masm s)
                  in if oom (masm s) then Inl OutOfMemory
                     else
                       andThen (alloc s) (\<lambda>s.
                       let s = s\<lparr>metadataTier := (metadataTier s)
                                 \<lparr>codeRanges := codeRanges (metadataTier s) @
                                    [CodeRange_of_offsets FarJumpIsland offsets_begin
                                       offsets_end]\<rparr>\<rparr>
                       in andThen (alloc s) (\<lambda>s.
                            Inr (c(f \<mapsto> offsets_begin),
                                 s\<lparr>masm := patchCall co offsets_begin
                                              (masm s)\<rparr>))))))) = Inr (c', s')"
    using assms t 1 2 unfolding linkCallSites_Func_def CallSiteTarget_funcIndex_def
    by (simp add: andThen_def)
  show ?thesis
  proof (cases "case calleeOffset of Some c \<Rightarrow> InRange g co c | None \<Rightarrow> False")
    case True
    then obtain callee where co: "calleeOffset = Some callee" "InRange g co callee"
      by (cases calleeOffset) auto
    with 2 obtain cr where "funcCodeRange s f = Inr cr" "callee = funcNormalEntry cr"
      by (auto simp: andThen_Inr_iff split: if_splits)
    then show ?thesis using 3 True co t by auto
  next
    case False
    have far: "\<forall>cr. funcCodeRange s f = Inr cr \<longrightarrow> \<not> InRange g co (funcNormalEntry cr)"
    proof (intro allI impI)
      fix cr assume cr: "funcCodeRange s f = Inr cr"
      then have "compiled"
        using 1 by (auto simp: funcCodeRange_def andThen_Inr_iff MOZ_ASSERT_Inr_iff)
      with 2 cr have "calleeOffset = Some (funcNormalEntry cr)" by (simp add: andThen_def)
      with False show "\<not> InRange g co (funcNormalEntry cr)" by simp
    qed
    show ?thesis
    proof (cases "c f")
      case (Some island)
      then show ?thesis using 3 False t far by auto
    next
      case None
      from 3 False None obtain x1 x2 x3 where
        a1: "alloc (s\<lparr>masm := emit (farJumpCode g) (masm s)\<rparr>) = Inr x1" and
        o: "\<not> oom (masm x1)" and
        a2: "alloc (x1\<lparr>callFarJumps := callFarJumps x1 @
               [\<lparr>cfj_funcIndex = f, cfj_jump = size_masm (masm s) + farJumpPatchAt g\<rparr>]\<rparr>)
             = Inr x2" and
        a3: "alloc (x2\<lparr>metadataTier := (metadataTier x2)
               \<lparr>codeRanges := codeRanges (metadataTier x2) @
                  [CodeRange_of_offsets FarJumpIsland (currentOffset (masm s))
                     (currentOffset (masm x1))]\<rparr>\<rparr>) = Inr x3" and
        r: "c' = c(f \<mapsto> currentOffset (masm s))"
           "s' = x3\<lparr>masm := patchCall co (currentOffset (masm s)) (masm x3)\<rparr>"
        by (simp add: Let_def farJumpWithPatch_def andThen_Inr_iff split: if_splits) blast
      from a1 obtain r1 where
        x1: "x1 = s\<lparr>masm := emit (farJumpCode g) (masm s), systemAlloc := r1\<rparr>"
        by (auto dest: alloc_InrD)
      from a2 obtain r2 where
        x2: "x2 = x1\<lparr>callFarJumps := callFarJumps x1 @
               [\<lparr>cfj_funcIndex = f, cfj_jump = size_masm (masm s) + farJumpPatchAt g\<rparr>],
               systemAlloc := r2\<rparr>"
        by (auto dest: alloc_InrD)
      from a3 obtain r3 where
        x3: "x3 = x2\<lparr>metadataTier := (metadataTier x2)
               \<lparr>codeRanges := codeRanges (metadataTier x2) @
                  [CodeRange_of_offsets FarJumpIsland (currentOffset (masm s))
                     (currentOffset (masm x1))]\<rparr>, systemAlloc := r3\<rparr>"
        by (auto dest: alloc_InrD)
      have "s' = s\<lparr>masm := patchCall co (currentOffset (masm s)) (emit (farJumpCode g) (masm s)),
                  systemAlloc := r3,
                  callFarJumps := callFarJumps s @
                     [\<lparr>cfj_funcIndex = f, cfj_jump = size_masm (masm s) + farJumpPatchAt g\<rparr>],
                  metadataTier := (metadataTier s)\<lparr>codeRanges := codeRanges (metadataTier s) @
                     [CodeRange_of_offsets FarJumpIsland (currentOffset (masm s))
                        (currentOffset (emit (farJumpCode g) (masm s)))]\<rparr>\<rparr>"
        unfolding r x3 x2 x1 by simp
      moreover have "\<not> oom (emit (farJumpCode g) (masm s))" using o x1 by simp
      ultimately show ?thesis using t None r(1) far by blast
    qed
  qed
qed

lemma linkCallSites_TrapExit_result:
  assumes "linkCallSites_TrapExit g co target t s = Inr (t', s')"
  shows "\<exists>trap. target = TrapTarget trap \<and>
     ((\<exists>island. t trap = Some island \<and> t' = t \<and>
          s' = s\<lparr>masm := patchCall co island (masm s)\<rparr>) \<or>
      (\<exists>r. t trap = None \<and> t' = t(trap := Some (currentOffset (masm s))) \<and>
           \<not> oom (emit (farJumpCode g) (loadTls g (masm s))) \<and>
           s' = s\<lparr>masm := patchCall co (currentOffset (masm s))
                             (emit (farJumpCode g) (loadTls g (masm s))),
                  systemAlloc := r,
                  trapFarJumps := trapFarJumps s @
                     [\<lparr>tfj_trap = trap,
                       tfj_jump = size_masm (loadTls g (masm s)) + farJumpPatchAt g\<rparr>],
                  metadataTier := (metadataTier s)\<lparr>codeRanges := codeRanges (metadataTier s) @
                     [CodeRange_of_offsets FarJumpIsland (currentOffset (masm s))
                        (currentOffset (emit (farJumpCode g) (loadTls g (masm s))))]\<rparr>\<rparr>))"
proof -
  from assms obtain trap where tr: "target = TrapTarget trap"
    by (cases target) (auto simp: linkCallSites_TrapExit_def CallSiteTarget_trap_def andThen_def)
  show ?thesis
  proof (cases "t trap")
    case (Some island)
    then show ?thesis using assms tr
      by (auto simp: linkCallSites_TrapExit_def CallSiteTarget_trap_def andThen_def)
  next
    case None
    define m0 where "m0 = loadTls g (masm s)"
    from assms tr None obtain x1 x2 where
      a1: "alloc (s\<lparr>masm := emit (farJumpCode g) m0\<rparr>) = Inr x1" and
      o: "\<not> oom (masm x1)" and
      a2: "alloc (x1\<lparr>trapFarJumps := trapFarJumps x1 @
             [\<lparr>tfj_trap = trap, tfj_jump = size_masm m0 + farJumpPatchAt g\<rparr>]\<rparr>) = Inr x2" and
      r: "t' = t(trap := Some (currentOffset (masm s)))"
         "s' = x2\<lparr>metadataTier := (metadataTier x2)
               \<lparr>codeRanges := codeRanges (metadataTier x2) @
                  [CodeRange_of_offsets FarJumpIsland (currentOffset (masm s))
                     (currentOffset (masm x1))]\<rparr>,
               masm := patchCall co (currentOffset (masm s)) (masm x2)\<rparr>"
      unfolding linkCallSites_TrapExit_def CallSiteTarget_trap_def m0_def
      by (simp add: Let_def farJumpWithPatch_def andThen_Inr_iff split: if_splits) blast
    from a1 obtain r1 where
      x1: "x1 = s\<lparr>masm := emit (farJumpCode g) m0, systemAlloc := r1\<rparr>"
      by (auto dest: alloc_InrD)
    from a2 obtain r2 where
      x2: "x2 = x1\<lparr>trapFarJumps := trapFarJumps x1 @
             [\<lparr>tfj_trap = trap, tfj_jump = size_masm m0 + farJumpPatchAt g\<rparr>],
             systemAlloc := r2\<rparr>"
      by (auto dest: alloc_InrD)
    have "s' = s\<lparr>masm := patchCall co (currentOffset (masm s)) (emit (farJumpCode g) m0),
                  systemAlloc := r2,
                  trapFarJumps := trapFarJumps s @
                     [\<lparr>tfj_trap = trap, tfj_jump = size_masm m0 + farJumpPatchAt g\<rparr>],
                  metadataTier := (metadataTier s)\<lparr>codeRanges := codeRanges (metadataTier s) @
                     [CodeRange_of_offsets FarJumpIsland (currentOffset (masm s))
                        (currentOffset (emit (farJumpCode g) m0))]\<rparr>\<rparr>"
      unfolding r x2 x1 by simp
    moreover have "\<not> oom (emit (farJumpCode g) m0)" using o x1 by simp
    ultimately show ?thesis using tr None r(1) unfolding m0_def by blast
  qed
qed

lemma linkCallSites_Breakpoint_result:
  assumes "linkCallSites_Breakpoint g co s = Inr s'"
  shows "s' = s \<or>
      (\<exists>r. \<not> oom (emit (farJumpCode g) (loadTls g (masm s))) \<and>
           s' = s\<lparr>masm := emit (farJumpCode g) (loadTls g (masm s)),
                  systemAlloc := r,
                  debugTrapFarJumps := debugTrapFarJumps s @
                     [size_masm (loadTls g (masm s)) + farJumpPatchAt g],
                  metadataTier := (metadataTier s)\<lparr>codeRanges := codeRanges (metadataTier s) @
                     [CodeRange_of_offsets FarJumpIsland (currentOffset (masm s))
                        (currentOffset (emit (farJumpCode g) (loadTls g (masm s))))],
                     debugTrapFarJumpOffsets := debugTrapFarJumpOffsets (metadataTier s) @
                        [currentOffset (masm s)]\<rparr>\<rparr>)"
proof (cases "debugTrapFarJumpOffsets (metadataTier s) = [] \<or>
    \<not> InRange g (last (debugTrapFarJumpOffsets (metadataTier s))) co")
  case False
  then show ?thesis using assms by (auto simp: linkCallSites_Breakpoint_def)
next
  case True
  define m0 where "m0 = loadTls g (masm s)"
  define s0 where "s0 = s\<lparr>masm := emit (farJumpCode g) m0\<rparr>"
  from assms True obtain x1 x2 x3 where
    o: "\<not> oom (emit (farJumpCode g) m0)" and
    a1: "alloc s0 = Inr x1" and
    a2: "alloc (x1\<lparr>metadataTier := (metadataTier x1)
           \<lparr>codeRanges := codeRanges (metadataTier x1) @
              [CodeRange_of_offsets FarJumpIsland (currentOffset (masm s))
                 (currentOffset (emit (farJumpCode g) m0))]\<rparr>\<rparr>) = Inr x2" and
    a3: "alloc (x2\<lparr>debugTrapFarJumps := debugTrapFarJumps x2 @
           [size_masm m0 + farJumpPatchAt g]\<rparr>) = Inr x3" and
    r: "s' = x3\<lparr>metadataTier := (metadataTier x3)
           \<lparr>debugTrapFarJumpOffsets := debugTrapFarJumpOffsets (metadataTier x3) @
              [currentOffset (masm s)]\<rparr>\<rparr>"
    unfolding linkCallSites_Breakpoint_def m0_def s0_def
    by (simp add: Let_def farJumpWithPatch_def andThen_Inr_iff split: if_splits) blast
  from a1 obtain r1 where x1: "x1 = s0\<lparr>systemAlloc := r1\<rparr>"
    by (auto dest: alloc_InrD)
  from a2 obtain r2 where
    x2: "x2 = x1\<lparr>metadataTier := (metadataTier x1)
           \<lparr>codeRanges := codeRanges (metadataTier x1) @
              [CodeRange_of_offsets FarJumpIsland (currentOffset (masm s))
                 (currentOffset (emit (farJumpCode g) m0))]\<rparr>, systemAlloc := r2\<rparr>"
    by (auto dest: alloc_InrD)
  from a3 obtain r3 where
    x3: "x3 = x2\<lparr>debugTrapFarJumps := debugTrapFarJumps x2 @
           [size_masm m0 + farJumpPatchAt g], systemAlloc := r3\<rparr>"
    by (auto dest: alloc_InrD)
  have "s' = s\<lparr>masm := emit (farJumpCode g) m0,
                  systemAlloc := r3,
                  debugTrapFarJumps := debugTrapFarJumps s @ [size_masm m0 + farJumpPatchAt g],
                  metadataTier := (metadataTier s)\<lparr>codeRanges := codeRanges (metadataTier s) @
                     [CodeRange_of_offsets FarJumpIsland (currentOffset (masm s))
                        (currentOffset (emit (farJumpCode g) m0))],
                     debugTrapFarJumpOffsets := debugTrapFarJumpOffsets (metadataTier s) @
                        [currentOffset (masm s)]\<rparr>\<rparr>"
    unfolding r x3 x2 x1 s0_def by simp
  then show ?thesis using o unfolding m0_def by blast
qed

lemma linkCallSite_frame:
  assumes "linkCallSite g c t s = Inr (c', t', s')"
  shows "callSites (metadataTier s') = callSites (metadataTier s) \<and>
         lastPatchedCallSite s' = lastPatchedCallSite s \<and>
         callSiteTargets s' = callSiteTargets s \<and>
         funcToCodeRange s' = funcToCodeRange s"
proof -
  let ?cs = "callSites (metadataTier s) ! lastPatchedCallSite s"
  let ?co = "returnAddressOffset ?cs"
  let ?tg = "callSiteTargets s ! lastPatchedCallSite s"
  from assms have inb: "lastPatchedCallSite s < length (callSites (metadataTier s))"
    "lastPatchedCallSite s < length (callSiteTargets s)"
    by (auto simp: linkCallSite_def split: if_splits)
  show ?thesis
  proof (cases "cs_kind ?cs")
    case Dynamic
    then show ?thesis using assms inb by (simp add: linkCallSite_def)
  next
    case Symbolic
    then show ?thesis using assms inb by (simp add: linkCallSite_def)
  next
    case Func
    with assms inb obtain m where "linkCallSites_Func g ?co ?tg c s = Inr (m, s')"
      by (auto simp: linkCallSite_def Let_def andThen_Inr_iff)
    from linkCallSites_Func_result[OF this] show ?thesis by auto
  next
    case TrapExitCall
    with assms inb obtain a where "linkCallSites_TrapExit g ?co ?tg t s = Inr (a, s')"
      by (auto simp: linkCallSite_def Let_def andThen_Inr_iff)
    from linkCallSites_TrapExit_result[OF this] show ?thesis by auto
  next
    case Breakpoint
    with assms inb have "linkCallSites_Breakpoint g ?co s = Inr s'"
      by (auto simp: linkCallSite_def Let_def andThen_Inr_iff)
    from linkCallSites_Breakpoint_result[OF this] show ?thesis by auto
  next
    case EnterFrame
    with assms inb have "linkCallSites_Breakpoint g ?co s = Inr s'"
      by (auto simp: linkCallSite_def Let_def andThen_Inr_iff)
    from linkCallSites_Breakpoint_result[OF this] show ?thesis by auto
  next
    case LeaveFrame
    with assms inb have "linkCallSites_Breakpoint g ?co s = Inr s'"
      by (auto simp: linkCallSite_def Let_def andThen_Inr_iff)
    from linkCallSites_Breakpoint_result[OF this] show ?thesis by auto
  qed
qed

text \<open>The loop of \<^verbatim>\<open>linkCallSites\<close>: it runs while \<open>lastPatchedCallSite\<close> is below the number of
  call sites and increments \<open>lastPatchedCallSite\<close> after each call site.\<close>

function linkCallSites_loop ::
  "Globals \<Rightarrow> OffsetMap \<Rightarrow> TrapOffsetArray \<Rightarrow> ModuleGenerator
     \<Rightarrow> error + OffsetMap \<times> TrapOffsetArray \<times> ModuleGenerator" where
  "linkCallSites_loop g existingCallFarJumps existingTrapFarJumps s =
     (if lastPatchedCallSite s < length (callSites (metadataTier s))
      then andThen (linkCallSite g existingCallFarJumps existingTrapFarJumps s)
             (\<lambda>(m, a, s').
                linkCallSites_loop g m a
                  (s'\<lparr>lastPatchedCallSite := lastPatchedCallSite s' + 1\<rparr>))
      else Inr (existingCallFarJumps, existingTrapFarJumps, s))"
  by pat_completeness auto
termination
proof (relation "measure (\<lambda>(g, m, a, s).
    length (callSites (metadataTier s)) - lastPatchedCallSite s)")
  show "wf (measure (\<lambda>(g, m, a, s).
    length (callSites (metadataTier s)) - lastPatchedCallSite s))"
    by simp
next
  fix g :: Globals and existingCallFarJumps :: OffsetMap
    and existingTrapFarJumps :: TrapOffsetArray and s :: ModuleGenerator
    and x :: "OffsetMap \<times> TrapOffsetArray \<times> ModuleGenerator"
    and xa :: OffsetMap and y :: "TrapOffsetArray \<times> ModuleGenerator"
    and xb :: TrapOffsetArray and ya :: ModuleGenerator
  assume lt: "lastPatchedCallSite s < length (callSites (metadataTier s))"
    and step: "linkCallSite g existingCallFarJumps existingTrapFarJumps s = Inr x"
    and x: "(xa, y) = x" and y: "(xb, ya) = y"
  from step x y have "linkCallSite g existingCallFarJumps existingTrapFarJumps s
      = Inr (xa, xb, ya)"
    by simp
  from linkCallSite_frame[OF this] lt
  show "((g, xa, xb, ya\<lparr>lastPatchedCallSite := lastPatchedCallSite ya + 1\<rparr>),
         g, existingCallFarJumps, existingTrapFarJumps, s)
        \<in> measure (\<lambda>(g, m, a, s).
             length (callSites (metadataTier s)) - lastPatchedCallSite s)"
    by simp
qed

declare linkCallSites_loop.simps [simp del]

definition linkCallSites :: "Globals \<Rightarrow> ModuleGenerator \<Rightarrow> error + ModuleGenerator" where
  "linkCallSites g s0 =
     (let s = s0\<lparr>masm := haltingAlign g (CodeAlignment g) (masm s0)\<rparr>
      in andThen (alloc s) (\<lambda>s.
         andThen (linkCallSites_loop g Map.empty (\<lambda>_. None) s) (\<lambda>(m, a, s).
           let s = s\<lparr>masm := flushBuffer (masm s)\<rparr>
           in if oom (masm s) then Inl OutOfMemory else Inr s)))"

subsection \<open>\<^verbatim>\<open>finishTask\<close>\<close>

text \<open>\<^verbatim>\<open>task\<close> is the index of the task in \<^verbatim>\<open>tasks_\<close>. The arena of a task is not
  modelled.\<close>

definition finishTask :: "Globals \<Rightarrow> nat \<Rightarrow> ModuleGenerator \<Rightarrow> error + ModuleGenerator" where
  "finishTask g task s0 =
     (if \<not> task < length (tasks s0) then Inl OutOfRange
      else
        let s = s0\<lparr>masm := haltingAlign g (CodeAlignment g) (masm s0)\<rparr>;
            code = task_output (tasks s ! task)
        in andThen
             (if \<not> InRange g (startOfUnpatchedCallsites s)
                     (of_nat (size_masm (masm s) + length (cc_bytes code)))
              then linkCallSites g
                     (s\<lparr>startOfUnpatchedCallsites := of_nat (size_masm (masm s))\<rparr>)
              else Inr s) (\<lambda>s.
           andThen (linkCompiledCode g code s) (\<lambda>s.
           let s = s\<lparr>tasks := (tasks s)[task := (tasks s ! task)
                                   \<lparr>task_output := CompiledCode_empty\<rparr>]\<rparr>
           in andThen (MOZ_ASSERT (task_inputs (tasks s ! task) = [])
                         ''task->inputs.empty()'' s) (\<lambda>s.
              Inr (s\<lparr>freeTasks := freeTasks s @ [task]\<rparr>)))))"

subsection \<open>\<^verbatim>\<open>finishLinking\<close>\<close>

text \<open>The three loops that patch the far jumps.\<close>

fun patchCallFarJumps :: "CallFarJump list \<Rightarrow> ModuleGenerator \<Rightarrow> error + ModuleGenerator" where
  "patchCallFarJumps [] s = Inr s"
| "patchCallFarJumps (far # rest) s =
     andThen (funcCodeRange s (cfj_funcIndex far)) (\<lambda>cr.
       patchCallFarJumps rest
         (s\<lparr>masm := patchFarJump (cfj_jump far) (funcNormalEntry cr) (masm s)\<rparr>))"

fun patchTrapFarJumps :: "TrapFarJump list \<Rightarrow> ModuleGenerator \<Rightarrow> ModuleGenerator" where
  "patchTrapFarJumps [] s = s"
| "patchTrapFarJumps (far # rest) s =
     patchTrapFarJumps rest
       (s\<lparr>masm := patchFarJump (tfj_jump far) (trapCodeOffsets s (tfj_trap far)) (masm s)\<rparr>)"

fun patchDebugTrapFarJumps :: "CodeOffset list \<Rightarrow> ModuleGenerator \<Rightarrow> ModuleGenerator" where
  "patchDebugTrapFarJumps [] s = s"
| "patchDebugTrapFarJumps (farJump # rest) s =
     patchDebugTrapFarJumps rest
       (s\<lparr>masm := patchFarJump farJump (debugTrapCodeOffset s) (masm s)\<rparr>)"

text \<open>
  The assertions of the debug build on \<open>funcToCodeRange\<close> come first. The assertions that the side
  tables of the assembler are empty have no counterpart: the assembler of the model has no
  side tables.
\<close>

definition finishLinking_asserts :: "Globals \<Rightarrow> ModuleGenerator \<Rightarrow> error + ModuleGenerator" where
  "finishLinking_asserts g s =
     (if isAsmJS (env s)
      then
        if \<not> AsmJSFirstDefFuncIndex g + unat (numFuncDefs s) \<le> length (funcToCodeRange s)
        then Inl OutOfRange
        else MOZ_ASSERT
               (\<forall>i < length (funcToCodeRange s).
                  (funcToCodeRange s ! i \<noteq> BAD_CODE_RANGE) =
                  (AsmJSFirstDefFuncIndex g \<le> i \<and>
                   i < AsmJSFirstDefFuncIndex g + unat (numFuncDefs s)))
               ''funcToCodeRange_[i] != BAD_CODE_RANGE'' s
      else MOZ_ASSERT (\<forall>codeRangeIndex \<in> set (funcToCodeRange s).
                         codeRangeIndex \<noteq> BAD_CODE_RANGE)
             ''codeRangeIndex != BAD_CODE_RANGE'' s)"

definition finishLinking :: "Globals \<Rightarrow> ModuleGenerator \<Rightarrow> error + ModuleGenerator" where
  "finishLinking g s =
     andThen (finishLinking_asserts g s) (\<lambda>s.
     andThen (linkCallSites g s) (\<lambda>s.
     andThen (patchCallFarJumps (callFarJumps s) s) (\<lambda>s.
       let s = patchTrapFarJumps (trapFarJumps s) s;
           s = patchDebugTrapFarJumps (debugTrapFarJumps s) s;
           s = s\<lparr>masm := finish (masm s)\<rparr>
       in if oom (masm s) then Inl OutOfMemory else Inr s)))"

subsection \<open>Range-based loops\<close>

text \<open>A loop over the elements of a vector whose body may leave the function.\<close>

fun forEach :: "'a list \<Rightarrow> ('a \<Rightarrow> 'st \<Rightarrow> error + 'st) \<Rightarrow> 'st \<Rightarrow> error + 'st" where
  "forEach [] body st = Inr st"
| "forEach (x # xs) body st = andThen (body x st) (forEach xs body)"

subsection \<open>The exported functions\<close>

text \<open>\<^verbatim>\<open>exportedFuncs_.put\<close>: only the insertion of a new element allocates.\<close>

definition exportedFuncs_put :: "u32 \<Rightarrow> ModuleGenerator \<Rightarrow> error + ModuleGenerator" where
  "exportedFuncs_put funcIndex s =
     (if funcIndex \<in> set (exportedFuncs s) then Inr s
      else andThen (alloc s) (\<lambda>s. Inr (s\<lparr>exportedFuncs := funcIndex # exportedFuncs s\<rparr>)))"

definition funcSig :: "ModuleGenerator \<Rightarrow> u32 \<Rightarrow> error + SigWithId" where
  "funcSig s funcIndex =
     (if \<not> unat funcIndex < length (funcSigs (env s)) then Inl OutOfRange
      else case funcSigs (env s) ! unat funcIndex of
        None \<Rightarrow> Inl (AssertionFailure ''env_->funcSigs[funcIndex]'')
      | Some i \<Rightarrow> if i < length (sigs (env s)) then Inr (sigs (env s) ! i) else Inl OutOfRange)"

text \<open>The constructor of \<^verbatim>\<open>FuncExport\<close> leaves the code range index and the entry offset
  unset (\<^verbatim>\<open>UINT32_MAX\<close>).\<close>

definition FuncExport_new :: "Sig \<Rightarrow> u32 \<Rightarrow> FuncExport" where
  "FuncExport_new sg funcIndex =
     \<lparr>fe_sig = sg, fe_funcIndex = funcIndex, fe_codeRangeIndex = - 1, fe_entryOffset = - 1\<rparr>"

text \<open>The bodies of the first and of the last loop of \<^verbatim>\<open>finishFuncExports\<close>.\<close>

definition finishFuncExports_elems ::
  "ElemSegment \<Rightarrow> ModuleGenerator \<Rightarrow> error + ModuleGenerator" where
  "finishFuncExports_elems elems s =
     (if \<not> unat (tableIndex elems) < length (tables (env s)) then Inl OutOfRange
      else if external (tables (env s) ! unat (tableIndex elems))
      then forEach (elemFuncIndices elems) exportedFuncs_put s
      else Inr s)"

definition finishFuncExports_append :: "u32 \<Rightarrow> ModuleGenerator \<Rightarrow> error + ModuleGenerator" where
  "finishFuncExports_append funcIndex s =
     andThen (funcSig s funcIndex) (\<lambda>sg.
     andThen (alloc s) (\<lambda>s.
       Inr (s\<lparr>metadataTier := (metadataTier s)
              \<lparr>funcExports := funcExports (metadataTier s) @
                 [FuncExport_new (sig_sig sg) funcIndex]\<rparr>\<rparr>)))"

text \<open>\<^verbatim>\<open>finishFuncExports\<close>: the elements of the external tables join the exported
  functions; the set is copied to a vector, which \<^verbatim>\<open>std::sort\<close> sorts; one export is
  appended for each function index of the sorted vector.\<close>

definition finishFuncExports :: "ModuleGenerator \<Rightarrow> error + ModuleGenerator" where
  "finishFuncExports s =
     andThen (forEach (elemSegments (env s)) finishFuncExports_elems s) (\<lambda>s.
     andThen (alloc s) (\<lambda>s.
       let sorted = sort (exportedFuncs s) in
       andThen (MOZ_ASSERT (funcExports (metadataTier s) = [])
                  ''metadataTier_->funcExports.empty()'' s) (\<lambda>s.
       andThen (alloc s) (\<lambda>s.
         forEach sorted finishFuncExports_append s))))"

definition addExport :: "string \<Rightarrow> u32 \<Rightarrow> ModuleGenerator \<Rightarrow> error + ModuleGenerator" where
  "addExport fieldName funcIndex s =
     andThen (MOZ_ASSERT (isAsmJS (env s)) ''isAsmJS()'' s) (\<lambda>s.
     andThen (alloc s) (\<lambda>s.
       exportedFuncs_put funcIndex
         (s\<lparr>env := (env s)\<lparr>exports := exports (env s) @
              [\<lparr>exp_fieldName = fieldName, exp_kind = FunctionDef,
                exp_funcIndex = funcIndex\<rparr>]\<rparr>\<rparr>)))"

subsection \<open>\<^verbatim>\<open>allocateGlobal\<close>, \<^verbatim>\<open>addFuncImport\<close>, \<^verbatim>\<open>initWasm\<close>, \<^verbatim>\<open>initAsmJS\<close>, \<^verbatim>\<open>init\<close>\<close>

definition allocateGlobal ::
  "GlobalDesc \<Rightarrow> ModuleGenerator \<Rightarrow> error + GlobalDesc \<times> ModuleGenerator" where
  "allocateGlobal global s =
     andThen (MOZ_ASSERT (\<not> startedFuncDefs s) ''!startedFuncDefs_'' s) (\<lambda>s.
       let width = (case gd_type global of
                      I32 \<Rightarrow> 4 | F32 \<Rightarrow> 4
                    | I64 \<Rightarrow> 8 | F64 \<Rightarrow> 8
                    | _ \<Rightarrow> 16)
       in andThen (allocateGlobalBytes width width s) (\<lambda>(ok, offset, s).
            if \<not> ok then Inl GlobalDataOverflow
            else Inr (global\<lparr>gd_offset := the offset\<rparr>, s)))"

definition addFuncImport :: "Sig \<Rightarrow> u32 \<Rightarrow> ModuleGenerator \<Rightarrow> error + ModuleGenerator" where
  "addFuncImport sg globalDataOffset s =
     andThen (MOZ_ASSERT (\<not> finishedFuncDefs s) ''!finishedFuncDefs_'' s) (\<lambda>s.
     andThen (alloc s) (\<lambda>s.
     andThen (alloc s) (\<lambda>s.
       Inr (s\<lparr>metadataTier := (metadataTier s)
              \<lparr>funcImports := funcImports (metadataTier s) @
                 [\<lparr>fim_sig = sg, fim_tlsDataOffset = globalDataOffset,
                   fim_interpExitCodeOffset = 0, fim_jitExitCodeOffset = 0\<rparr>]\<rparr>\<rparr>))))"

text \<open>\<^verbatim>\<open>masm_.reserve\<close> changes the capacity of the buffer only, and may fail.\<close>

definition reserve_masm :: "MacroAssembler \<Rightarrow> bool \<times> MacroAssembler" where
  "reserve_masm m =
     (case growth m of [] \<Rightarrow> (True, m) | ok # rest \<Rightarrow> (ok, m\<lparr>growth := rest\<rparr>))"

text \<open>The bodies of the five loops of \<^verbatim>\<open>initWasm\<close>: for the function import, the
  table, the signature and the global at an index, and for an export.\<close>

definition initWasm_funcImport ::
  "Globals \<Rightarrow> nat \<Rightarrow> ModuleGenerator \<Rightarrow> error + ModuleGenerator" where
  "initWasm_funcImport g i s0 =
     (let offset = globalDataLength (metadata s0);
          s = s0\<lparr>env := (env s0)\<lparr>funcImportGlobalDataOffsets :=
                   (funcImportGlobalDataOffsets (env s0))[i := offset]\<rparr>,
                 metadata := (metadata s0)\<lparr>globalDataLength :=
                   globalDataLength (metadata s0) + sizeofFuncImportTls g\<rparr>\<rparr>
      in if \<not> i < length (funcSigs (env s)) then Inl OutOfRange
         else case funcSigs (env s) ! i of
           None \<Rightarrow> Inl NullDereference
         | Some j \<Rightarrow>
             if \<not> j < length (sigs (env s)) then Inl OutOfRange
             else addFuncImport (sig_sig (sigs (env s) ! j)) offset s)"

definition initWasm_table ::
  "Globals \<Rightarrow> nat \<Rightarrow> ModuleGenerator \<Rightarrow> error + ModuleGenerator" where
  "initWasm_table g i s0 =
     andThen (allocateGlobalBytes (sizeofTableTls g) (sizeofPointer g) s0)
       (\<lambda>(ok, offset, s).
          let s = (case offset of
                     None \<Rightarrow> s
                   | Some off \<Rightarrow>
                       s\<lparr>env := (env s)\<lparr>tables := (tables (env s))
                            [i := (tables (env s) ! i)\<lparr>tbl_globalDataOffset := off\<rparr>]\<rparr>\<rparr>)
          in if ok then Inr s else Inl GlobalDataOverflow)"

definition initWasm_sig ::
  "Globals \<Rightarrow> nat \<Rightarrow> ModuleGenerator \<Rightarrow> error + ModuleGenerator" where
  "initWasm_sig g i s0 =
     (if \<not> i < length (sigs (env s0)) then Inl OutOfRange
      else
        let sg = sigs (env s0) ! i in
        if SigIdDesc_isGlobal g (sig_sig sg)
        then
          andThen (allocateGlobalBytes (sizeofPointer g) (sizeofPointer g) s0)
            (\<lambda>(ok, offset, s).
               if \<not> ok then Inl GlobalDataOverflow
               else
                 let sg = sg\<lparr>sig_id := GlobalSigId (the offset)\<rparr>;
                     s = s\<lparr>env := (env s)\<lparr>sigs := (sigs (env s))[i := sg]\<rparr>\<rparr>
                 in andThen (alloc s) (\<lambda>s.
                    andThen (alloc s) (\<lambda>s.
                      Inr (s\<lparr>metadata := (metadata s)\<lparr>sigIds :=
                             sigIds (metadata s) @ [(sig_sig sg, sig_id sg)]\<rparr>\<rparr>))))
        else Inr (s0\<lparr>env := (env s0)\<lparr>sigs := (sigs (env s0))
                    [i := sg\<lparr>sig_id := ImmediateSigId\<rparr>]\<rparr>\<rparr>))"

definition initWasm_global :: "nat \<Rightarrow> ModuleGenerator \<Rightarrow> error + ModuleGenerator" where
  "initWasm_global i s0 =
     (let global = globals (env s0) ! i in
      if gd_isConstant global then Inr s0
      else andThen (allocateGlobal global s0) (\<lambda>(global, s).
             Inr (s\<lparr>env := (env s)\<lparr>globals := (globals (env s))[i := global]\<rparr>\<rparr>)))"

definition initWasm_export :: "Export \<Rightarrow> ModuleGenerator \<Rightarrow> error + ModuleGenerator" where
  "initWasm_export exp s =
     (if exp_kind exp = FunctionDef then exportedFuncs_put (exp_funcIndex exp) s
      else Inr s)"

text \<open>What \<^verbatim>\<open>initWasm\<close> does before the loops: the metadata and the link data are fresh
  objects, and the reservations change capacities only.\<close>

definition initWasm_reserve :: "ModuleGenerator \<Rightarrow> error + ModuleGenerator" where
  "initWasm_reserve s =
     andThen (MOZ_ASSERT (\<not> isAsmJS (env s)) ''!env_->isAsmJS()'' s) (\<lambda>s.
     andThen (alloc s) (\<lambda>s.
     andThen (alloc s) (\<lambda>s.
     andThen (alloc s) (\<lambda>s.
       let s = s\<lparr>numSigs := of_nat (length (sigs (env s))),
                 numTables := of_nat (length (tables (env s)))\<rparr>;
           (reserved, m) = reserve_masm (masm s);
           s = s\<lparr>masm := m\<rparr>
       in if \<not> reserved then Inl OutOfMemory
          else
            andThen (alloc s) (\<lambda>s.
            andThen (alloc s) (\<lambda>s.
            alloc s))))))"

text \<open>
  \<^verbatim>\<open>initWasm\<close>: after the reservations come the slots in the global data for the imports,
  the tables, the signatures and the mutable globals, and the seed of the set of exported
  functions: the exports of kind function and the start function.
\<close>

definition initWasm :: "Globals \<Rightarrow> nat \<Rightarrow> ModuleGenerator \<Rightarrow> error + ModuleGenerator" where
  "initWasm g codeSectionSize s =
     andThen (initWasm_reserve s) (\<lambda>s.
     andThen (forEach [0 ..< length (funcImportGlobalDataOffsets (env s))]
                (initWasm_funcImport g) s) (\<lambda>s.
     andThen (forEach [0 ..< length (tables (env s))] (initWasm_table g) s) (\<lambda>s.
     andThen (forEach [0 ..< unat (numSigs s)] (initWasm_sig g) s) (\<lambda>s.
     andThen (forEach [0 ..< length (globals (env s))] initWasm_global s) (\<lambda>s.
     andThen (forEach (exports (env s)) initWasm_export s) (\<lambda>s.
       case startFuncIndex (env s) of
         None \<Rightarrow> Inr s
       | Some start \<Rightarrow>
           exportedFuncs_put start
             (s\<lparr>metadata := (metadata s)\<lparr>md_startFuncIndex := Some start\<rparr>\<rparr>)))))))"

definition initAsmJS ::
  "Globals \<Rightarrow> (Metadata \<times> MetadataTier) option \<Rightarrow> ModuleGenerator
     \<Rightarrow> error + ModuleGenerator" where
  "initAsmJS g asmJSMetadata s =
     andThen (MOZ_ASSERT (isAsmJS (env s)) ''env_->isAsmJS()'' s) (\<lambda>s.
       case asmJSMetadata of
         None \<Rightarrow> Inl NullDereference
       | Some (md, mdt) \<Rightarrow>
           andThen (alloc s) (\<lambda>s.
           let s = s\<lparr>metadataTier := mdt, metadata := md\<rparr> in
           andThen (MOZ_ASSERT (length (sigs (env s)) = AsmJSMaxTypes g)
                      ''env_->sigs.length() == AsmJSMaxTypes'' s) (\<lambda>s.
           andThen (MOZ_ASSERT (length (tables (env s)) = AsmJSMaxTables g)
                      ''env_->tables.length() == AsmJSMaxTables'' s) (\<lambda>s.
           MOZ_ASSERT (length (asmJSSigToTableIndex (env s)) = AsmJSMaxTypes g)
             ''env_->asmJSSigToTableIndex.length() == AsmJSMaxTypes'' s))))"

definition init ::
  "Globals \<Rightarrow> nat \<Rightarrow> (Metadata \<times> MetadataTier) option \<Rightarrow> string option
     \<Rightarrow> ModuleGenerator \<Rightarrow> error + ModuleGenerator" where
  "init g codeSectionSize maybeAsmJSMetadata filename s =
     andThen (alloc s) (\<lambda>s.
     let s = s\<lparr>funcToCodeRange := funcToCodeRange s @
                 replicate (length (funcSigs (env s))) BAD_CODE_RANGE\<rparr> in
     andThen (alloc s) (\<lambda>s.
     andThen (alloc s) (\<lambda>s.
     andThen (if isAsmJS (env s) then initAsmJS g maybeAsmJSMetadata s
              else initWasm g codeSectionSize s) (\<lambda>s.
       case filename of
         None \<Rightarrow> Inr s
       | Some name \<Rightarrow>
           andThen (alloc s) (\<lambda>s.
             Inr (s\<lparr>metadata := (metadata s)\<lparr>md_filename := Some name\<rparr>\<rparr>))))))"

subsection \<open>The tasks\<close>

definition CompileTask_new :: CompileTask where
  "CompileTask_new = \<lparr>task_inputs = [], task_output = CompiledCode_empty\<rparr>"

definition startFuncDefs :: "Globals \<Rightarrow> ModuleGenerator \<Rightarrow> error + ModuleGenerator" where
  "startFuncDefs g s =
     andThen (MOZ_ASSERT (\<not> startedFuncDefs s) ''!startedFuncDefs_'' s) (\<lambda>s.
     andThen (MOZ_ASSERT (\<not> finishedFuncDefs s) ''!finishedFuncDefs_'' s) (\<lambda>s.
     andThen (MOZ_ASSERT (threadCount g > 1) ''threads.threadCount > 1'' s) (\<lambda>s.
       let par = (CanUseExtraThreads g \<and> cpuCount g > 1);
           numTasks = (if par then 2 * maxWasmCompilationThreads g else 1);
           s = (if par then s\<lparr>parallel := True\<rparr> else s)
       in andThen (alloc s) (\<lambda>s.
          let s = s\<lparr>tasks := tasks s @ replicate numTasks CompileTask_new\<rparr> in
          andThen (alloc s) (\<lambda>s.
            Inr (s\<lparr>freeTasks := freeTasks s @ [0 ..< numTasks],
                   startedFuncDefs := True\<rparr>))))))"

text \<open>
  \<^verbatim>\<open>ExecuteCompileTask\<close> returns the boolean, the error message that the compiler has
  written (if any) and the task.
\<close>

definition ExecuteCompileTask ::
  "Globals \<Rightarrow> Tier \<Rightarrow> CompileTask \<Rightarrow> error + bool \<times> string option \<times> CompileTask" where
  "ExecuteCompileTask g tr task =
     andThen (MOZ_ASSERT (task_output task = CompiledCode_empty) ''task->output.empty()'' task)
       (\<lambda>task.
          case (case tr of
                  Ion \<Rightarrow> IonCompileFunctions g (task_inputs task)
                | Baseline \<Rightarrow> BaselineCompileFunctions g (task_inputs task)) of
            Inl message \<Rightarrow> Inr (False, message, task)
          | Inr code \<Rightarrow>
              andThen (MOZ_ASSERT (length (task_inputs task) = length (cc_codeRanges code))
                         ''task->inputs.length() == task->output.codeRanges.length()''
                         (task\<lparr>task_output := code\<rparr>))
                (\<lambda>task. Inr (True, None, task\<lparr>task_inputs := []\<rparr>)))"

text \<open>
  \<^verbatim>\<open>ExecuteCompileTaskFromHelperThread\<close>, for the task at \<open>taskPtr\<close>: the compilation, then,
  under the lock, the update of the shared task state. \<open>appended\<close> says whether the
  append to \<^verbatim>\<open>finished\<close> succeeds when it is attempted.
\<close>

definition ExecuteCompileTaskFromHelperThread ::
  "Globals \<Rightarrow> Tier \<Rightarrow> bool \<Rightarrow> nat \<Rightarrow> CompileTask \<Rightarrow> TaskState
     \<Rightarrow> error + CompileTask \<times> TaskState" where
  "ExecuteCompileTaskFromHelperThread g tr appended taskPtr task st =
     andThen (ExecuteCompileTask g tr task) (\<lambda>(ok, message, task).
       let st = (if ok \<and> appended then st\<lparr>finished := finished st @ [taskPtr]\<rparr> else st) in
       if \<not> ok \<or> \<not> appended
       then
         (let st = st\<lparr>numFailed := numFailed st + 1\<rparr>
          in if errorMessage st = None
             then Inr (task, st\<lparr>errorMessage := message\<rparr>)
             else Inr (task, st))
       else Inr (task, st))"

text \<open>
  The helper threads. One of them takes the task at a position of the work list and runs
  \<^verbatim>\<open>ExecuteCompileTaskFromHelperThread\<close> on it; \<open>helperThreadsRun\<close> does so for each
  completion of a step of the schedule.
\<close>

definition helperThreadRuns ::
  "Globals \<Rightarrow> nat \<times> bool \<Rightarrow> ModuleGenerator \<Rightarrow> error + ModuleGenerator" where
  "helperThreadRuns g completion s =
     (if wasmWorklist s = [] then Inr s
      else
        let k = fst completion mod length (wasmWorklist s);
            taskPtr = wasmWorklist s ! k
        in if \<not> taskPtr < length (tasks s) then Inl OutOfRange
           else
             andThen (ExecuteCompileTaskFromHelperThread g (tier (env s)) (snd completion)
                        taskPtr (tasks s ! taskPtr) (taskState s))
               (\<lambda>(task, st).
                  Inr (s\<lparr>tasks := (tasks s)[taskPtr := task], taskState := st,
                         wasmWorklist := take k (wasmWorklist s) @
                           drop (Suc k) (wasmWorklist s)\<rparr>)))"

definition helperThreadsRun ::
  "Globals \<Rightarrow> (nat \<times> bool) list \<Rightarrow> ModuleGenerator \<Rightarrow> error + ModuleGenerator" where
  "helperThreadsRun g completions s = forEach completions (helperThreadRuns g) s"

text \<open>Taking the lock of the task state: the helper threads have made the next step of
  the schedule, if there is one.\<close>

definition lockTaskState :: "Globals \<Rightarrow> ModuleGenerator \<Rightarrow> error + ModuleGenerator" where
  "lockTaskState g s =
     (case helperSchedule s of
        [] \<Rightarrow> Inr s
      | completions # rest \<Rightarrow> helperThreadsRun g completions (s\<lparr>helperSchedule := rest\<rparr>))"

text \<open>Waiting for \<^verbatim>\<open>failedOrFinished\<close>: the helper threads make the next step of the
  schedule; with no step left, the wait never ends.\<close>

definition waitFailedOrFinished :: "Globals \<Rightarrow> ModuleGenerator \<Rightarrow> error + ModuleGenerator" where
  "waitFailedOrFinished g s =
     (case helperSchedule s of
        [] \<Rightarrow> Inl Blocked
      | completions # rest \<Rightarrow> helperThreadsRun g completions (s\<lparr>helperSchedule := rest\<rparr>))"

lemma forEach_invariant:
  assumes "forEach xs body s = Inr s'"
    and "\<And>x a b. body x a = Inr b \<Longrightarrow> f b = f a"
  shows "f s' = f s"
  using assms
proof (induction xs arbitrary: s)
  case Nil
  then show ?case by simp
next
  case (Cons x xs)
  from Cons.prems(1) obtain s1 where "body x s = Inr s1" "forEach xs body s1 = Inr s'"
    by (auto simp: andThen_Inr_iff)
  then show ?case using Cons.IH[of s1] Cons.prems(2) by metis
qed

lemma helperThreadRuns_helperSchedule:
  "helperThreadRuns g completion s = Inr s' \<Longrightarrow> helperSchedule s' = helperSchedule s"
  by (auto simp: helperThreadRuns_def Let_def andThen_Inr_iff split: if_splits)

lemma waitFailedOrFinished_helperSchedule:
  assumes "waitFailedOrFinished g s = Inr s'"
  shows "length (helperSchedule s') < length (helperSchedule s)"
proof (cases "helperSchedule s")
  case Nil
  then show ?thesis using assms by (simp add: waitFailedOrFinished_def)
next
  case (Cons completions rest)
  then have "helperThreadsRun g completions (s\<lparr>helperSchedule := rest\<rparr>) = Inr s'"
    using assms by (simp add: waitFailedOrFinished_def)
  then have "helperSchedule s' = helperSchedule (s\<lparr>helperSchedule := rest\<rparr>)"
    unfolding helperThreadsRun_def
    by (rule forEach_invariant) (rule helperThreadRuns_helperSchedule)
  then show ?thesis using Cons by simp
qed

text \<open>The loop of \<^verbatim>\<open>finishOutstandingTask\<close>, under the lock: it returns the task that it has
  taken from \<^verbatim>\<open>finished\<close>.\<close>

function awaitFinishedTask ::
  "Globals \<Rightarrow> ModuleGenerator \<Rightarrow> error + nat \<times> ModuleGenerator" where
  "awaitFinishedTask g s =
     andThen (MOZ_ASSERT (outstanding s > 0) ''outstanding_ > 0'' s) (\<lambda>s.
       if numFailed (taskState s) > 0 then Inl HelperFailed
       else if finished (taskState s) \<noteq> []
       then Inr (last (finished (taskState s)),
                 s\<lparr>outstanding := outstanding s - 1,
                   taskState := (taskState s)
                     \<lparr>finished := butlast (finished (taskState s))\<rparr>\<rparr>)
       else andThen (waitFailedOrFinished g s) (awaitFinishedTask g))"
  by pat_completeness auto
termination
proof (relation "measure (\<lambda>(g, s). length (helperSchedule s))")
  show "wf (measure (\<lambda>(g, s). length (helperSchedule s)))"
    by simp
next
  fix g :: Globals and s x xa :: ModuleGenerator
  assume "MOZ_ASSERT (0 < outstanding s) ''outstanding_ > 0'' s = Inr x"
    and "waitFailedOrFinished g x = Inr xa"
  then show "((g, xa), g, s) \<in> measure (\<lambda>(g, s). length (helperSchedule s))"
    using waitFailedOrFinished_helperSchedule[of g x xa]
    by (simp add: MOZ_ASSERT_Inr_iff)
qed

declare awaitFinishedTask.simps [simp del]

definition finishOutstandingTask :: "Globals \<Rightarrow> ModuleGenerator \<Rightarrow> error + ModuleGenerator" where
  "finishOutstandingTask g s =
     andThen (MOZ_ASSERT (parallel s) ''parallel_'' s) (\<lambda>s.
     andThen (lockTaskState g s) (\<lambda>s.
     andThen (awaitFinishedTask g s) (\<lambda>(task, s). finishTask g task s)))"

text \<open>\<^verbatim>\<open>StartOffThreadWasmCompile\<close> is declared outside the file: it appends the task to the
  work list of the helper threads, which may fail.\<close>

definition StartOffThreadWasmCompile :: "nat \<Rightarrow> ModuleGenerator \<Rightarrow> error + ModuleGenerator" where
  "StartOffThreadWasmCompile task s =
     andThen (alloc s) (\<lambda>s. Inr (s\<lparr>wasmWorklist := wasmWorklist s @ [task]\<rparr>))"

definition launchBatchCompile :: "Globals \<Rightarrow> ModuleGenerator \<Rightarrow> error + ModuleGenerator" where
  "launchBatchCompile g s =
     (case currentTask s of
        None \<Rightarrow> Inl (AssertionFailure ''currentTask_'')
      | Some task \<Rightarrow>
          if cancelled s = Some True then Inl Cancelled
          else
            andThen
              (if parallel s
               then andThen (StartOffThreadWasmCompile task s) (\<lambda>s.
                      Inr (s\<lparr>outstanding := outstanding s + 1\<rparr>))
               else
                 if \<not> task < length (tasks s) then Inl OutOfRange
                 else
                   andThen (ExecuteCompileTask g (tier (env s)) (tasks s ! task))
                     (\<lambda>(ok, message, t).
                        let s = s\<lparr>tasks := (tasks s)[task := t]\<rparr>;
                            s = (if ok then s else s\<lparr>errorSlot := message\<rparr>)
                        in if \<not> ok then Inl CompileFailed
                           else finishTask g task s)) (\<lambda>s.
              Inr (s\<lparr>currentTask := None, batchedBytecode := 0\<rparr>)))"

text \<open>
  \<^verbatim>\<open>compileFuncDef\<close>, the overload with six parameters that the other two call. \<open>begin\<close>
  and \<open>end\<close> are the addresses of the pointers; their difference is converted to
  \<^verbatim>\<open>uint32_t\<close>, which is the difference of the two addresses modulo \<open>2 ^ 32\<close>.
\<close>

definition compileFuncDef ::
  "Globals \<Rightarrow> u32 \<Rightarrow> u32 \<Rightarrow> u8 list \<Rightarrow> nat \<Rightarrow> nat \<Rightarrow> u32 list \<Rightarrow> ModuleGenerator
     \<Rightarrow> error + ModuleGenerator" where
  "compileFuncDef g funcIndex lineOrBytecode bs bgn en lineNums s =
     andThen (MOZ_ASSERT (startedFuncDefs s) ''startedFuncDefs_'' s) (\<lambda>s.
     andThen (MOZ_ASSERT (\<not> finishedFuncDefs s) ''!finishedFuncDefs_'' s) (\<lambda>s.
     andThen (MOZ_ASSERT (mode (env s) = Tier1 \<longrightarrow> unat funcIndex < numFuncs (env s))
                ''funcIndex < env_->numFuncs()'' s) (\<lambda>s.
       let s = s\<lparr>numFuncDefs := numFuncDefs s + 1\<rparr> in
       andThen
         (if currentTask s = None
          then
            andThen (if freeTasks s = [] then finishOutstandingTask g s else Inr s) (\<lambda>s.
              if freeTasks s = [] then Inl (AssertionFailure ''!empty()'')
              else Inr (s\<lparr>currentTask := Some (last (freeTasks s)),
                          freeTasks := butlast (freeTasks s)\<rparr>))
          else Inr s) (\<lambda>s.
         let funcBytecodeLength = (of_nat en - of_nat bgn :: u32);
             task = the (currentTask s)
         in if \<not> task < length (tasks s) then Inl OutOfRange
            else
              andThen (alloc s) (\<lambda>s.
              let s = s\<lparr>tasks := (tasks s)[task := (tasks s ! task)
                          \<lparr>task_inputs := task_inputs (tasks s ! task) @
                             [\<lparr>fi_index = funcIndex, fi_lineOrBytecode = lineOrBytecode,
                               fi_bytes = bs, fi_begin = bgn, fi_end = en,
                               fi_lineNums = lineNums\<rparr>]\<rparr>]\<rparr>;
                  threshold = (case tier (env s) of
                                 Baseline \<Rightarrow> wasmBatchBaselineThreshold (JitOptions g)
                               | Ion \<Rightarrow> wasmBatchIonThreshold (JitOptions g));
                  s = s\<lparr>batchedBytecode := batchedBytecode s + funcBytecodeLength\<rparr>
              in andThen (MOZ_ASSERT (batchedBytecode s \<le> MaxModuleBytes g)
                            ''batchedBytecode_ <= MaxModuleBytes'' s) (\<lambda>s.
                   if batchedBytecode s \<le> threshold then Inr s
                   else launchBatchCompile g s))))))"


section \<open>What the operations change\<close>

lemma emit_patches [simp]:
  "patchedCalls (emit bs m) = patchedCalls m"
  "patchedFarJumps (emit bs m) = patchedFarJumps m"
  by (auto simp: emit_def split: list.splits)

lemma emit_not_oom:
  assumes "\<not> oom (emit bs m)"
  shows "\<not> oom m" and "buffer (emit bs m) = buffer m @ bs"
  using assms by (auto simp: emit_def split: list.splits if_splits)

lemma size_masm_emit: "\<not> oom (emit bs m) \<Longrightarrow> size_masm (emit bs m) = size_masm m + length bs"
  by (simp add: size_masm_def emit_not_oom)

lemma patchCall_simps [simp]:
  "buffer (patchCall a b m) = buffer m" "oom (patchCall a b m) = oom m"
  "growth (patchCall a b m) = growth m"
  "patchedFarJumps (patchCall a b m) = patchedFarJumps m"
  "patchedCalls (patchCall a b m) = patchedCalls m @ [(a, b)]"
  "size_masm (patchCall a b m) = size_masm m"
  "currentOffset (patchCall a b m) = currentOffset m"
  by (simp_all add: patchCall_def size_masm_def currentOffset_def)

lemma patchFarJump_simps [simp]:
  "buffer (patchFarJump a b m) = buffer m" "oom (patchFarJump a b m) = oom m"
  "growth (patchFarJump a b m) = growth m"
  "patchedCalls (patchFarJump a b m) = patchedCalls m"
  "patchedFarJumps (patchFarJump a b m) = patchedFarJumps m @ [(a, b)]"
  "size_masm (patchFarJump a b m) = size_masm m"
  by (simp_all add: patchFarJump_def size_masm_def)

text \<open>What \<^verbatim>\<open>noteCodeRange\<close> leaves alone.\<close>

definition noted :: "ModuleGenerator \<Rightarrow> ModuleGenerator \<Rightarrow> bool" where
  "noted s x \<longleftrightarrow>
     env x = env s \<and> cancelled x = cancelled s \<and> errorSlot x = errorSlot s \<and>
     metadata x = metadata s \<and>
     codeRanges (metadataTier x) = codeRanges (metadataTier s) \<and>
     callSites (metadataTier x) = callSites (metadataTier s) \<and>
     memoryAccesses (metadataTier x) = memoryAccesses (metadataTier s) \<and>
     debugTrapFarJumpOffsets (metadataTier x) = debugTrapFarJumpOffsets (metadataTier s) \<and>
     internalLinks (linkDataTier x) = internalLinks (linkDataTier s) \<and>
     symbolicLinks (linkDataTier x) = symbolicLinks (linkDataTier s) \<and>
     taskState x = taskState s \<and> numFuncDefs x = numFuncDefs s \<and>
     masm x = masm s \<and> callSiteTargets x = callSiteTargets s \<and>
     trapFarJumps x = trapFarJumps s \<and> callFarJumps x = callFarJumps s \<and>
     debugTrapFarJumps x = debugTrapFarJumps s \<and>
     lastPatchedCallSite x = lastPatchedCallSite s \<and>
     startOfUnpatchedCallsites x = startOfUnpatchedCallsites s \<and>
     exportedFuncs x = exportedFuncs s \<and> parallel x = parallel s \<and>
     outstanding x = outstanding s \<and> tasks x = tasks s \<and> freeTasks x = freeTasks s \<and>
     currentTask x = currentTask s \<and> batchedBytecode x = batchedBytecode s \<and>
     startedFuncDefs x = startedFuncDefs s \<and> finishedFuncDefs x = finishedFuncDefs s \<and>
     systemAlloc x = systemAlloc s \<and> wasmWorklist x = wasmWorklist s \<and>
     helperSchedule x = helperSchedule s \<and>
     length (funcToCodeRange x) = length (funcToCodeRange s)"

lemma noted_refl [simp]: "noted s s"
  by (simp add: noted_def)

lemma noted_trans: "noted s x \<Longrightarrow> noted x y \<Longrightarrow> noted s y"
  by (simp add: noted_def)

lemma noteCodeRange_noted:
  assumes "noteCodeRange i cr s = Inr s'"
  shows "noted s s'"
  using assms
  by (cases "cr_kind cr")
     (auto simp: noteCodeRange_def noted_def Let_def andThen_Inr_iff MOZ_ASSERT_Inr_iff
        initEntryOffset_def initJitExitOffset_def initInterpExitOffset_def
        split: if_splits option.splits)

lemma codeRangeOp_Inr_iff:
  "codeRangeOp B i a s = Inr (c, s') \<longleftrightarrow>
     c = CodeRange_offsetBy (of_nat B) a \<and>
     noteCodeRange (of_nat i) (CodeRange_offsetBy (of_nat B) a) s = Inr s'"
  by (auto simp: codeRangeOp_def Let_def andThen_Inr_iff)

lemma AppendForEach_codeRangeOp:
  assumes "AppendForEach (codeRangeOp B) dst src s = Inr (v, x)"
  shows "v = dst @ map (CodeRange_offsetBy (of_nat B)) src \<and> noted s x"
  using assms
proof (induction src arbitrary: dst s)
  case Nil
  then show ?case by simp
next
  case (Cons a src)
  from Cons.prems obtain c s1 where
    n: "codeRangeOp B (length dst) a s = Inr (c, s1)" and
    r: "AppendForEach (codeRangeOp B) (dst @ [c]) src s1 = Inr (v, x)"
    by (auto simp: andThen_Inr_iff)
  from n have c: "c = CodeRange_offsetBy (of_nat B) a" and
    n': "noteCodeRange (of_nat (length dst)) (CodeRange_offsetBy (of_nat B) a) s = Inr s1"
    by (simp_all add: codeRangeOp_Inr_iff)
  from Cons.IH[OF r] noteCodeRange_noted[OF n'] c show ?case
    by (auto intro: noted_trans)
qed

lemma linkCodeLabels_result:
  assumes "linkCodeLabels B labels s = Inr s'"
  shows "\<exists>r. s' = s\<lparr>linkDataTier := (linkDataTier s)
            \<lparr>internalLinks := internalLinks (linkDataTier s) @
                map (\<lambda>l. \<lparr>patchAtOffset = of_nat (B + cl_patchAt l),
                           targetOffset = of_nat (B + cl_target l)\<rparr>) labels\<rparr>,
            systemAlloc := r\<rparr>"
  using assms
proof (induction labels arbitrary: s)
  case Nil
  then have "s' = s" by simp
  then show ?case by (intro exI[of _ "systemAlloc s"]) simp
next
  case (Cons a labels)
  define y where "y = (\<lambda>x::ModuleGenerator. x\<lparr>linkDataTier := (linkDataTier x)
               \<lparr>internalLinks := internalLinks (linkDataTier x) @
                  [\<lparr>patchAtOffset = of_nat (B + cl_patchAt a),
                    targetOffset = of_nat (B + cl_target a)\<rparr>]\<rparr>\<rparr>)"
  have "linkCodeLabels B (a # labels) s = andThen (alloc s) (\<lambda>x. linkCodeLabels B labels (y x))"
    by (simp add: y_def Let_def)
  with Cons.prems obtain x where
    a: "alloc s = Inr x" and
    r: "linkCodeLabels B labels (y x) = Inr s'"
    by (auto simp only: andThen_Inr_iff)
  from a obtain r1 where x: "x = s\<lparr>systemAlloc := r1\<rparr>"
    by (auto dest: alloc_InrD)
  from Cons.IH[OF r] obtain r2 where
    s': "s' = (y x)\<lparr>linkDataTier := (linkDataTier (y x))
            \<lparr>internalLinks := internalLinks (linkDataTier (y x)) @
                map (\<lambda>l. \<lparr>patchAtOffset = of_nat (B + cl_patchAt l),
                           targetOffset = of_nat (B + cl_target l)\<rparr>) labels\<rparr>,
            systemAlloc := r2\<rparr>"
    by blast
  have "s' = s\<lparr>linkDataTier := (linkDataTier s)
            \<lparr>internalLinks := internalLinks (linkDataTier s) @
                map (\<lambda>l. \<lparr>patchAtOffset = of_nat (B + cl_patchAt l),
                           targetOffset = of_nat (B + cl_target l)\<rparr>) (a # labels)\<rparr>,
            systemAlloc := r2\<rparr>"
    unfolding s' y_def x by simp
  then show ?case by blast
qed

lemma linkSymbolicAccesses_result:
  assumes "linkSymbolicAccesses B accesses s = Inr s'"
  shows "\<exists>r. s' = s\<lparr>linkDataTier := (linkDataTier s)
            \<lparr>symbolicLinks := (\<lambda>t. symbolicLinks (linkDataTier s) t @
                map (\<lambda>a. of_nat (B + sa_patchAt a)) (filter (\<lambda>a. sa_target a = t) accesses))\<rparr>,
            systemAlloc := r\<rparr>"
  using assms
proof (induction accesses arbitrary: s)
  case Nil
  then have "s' = s" by simp
  then show ?case by (intro exI[of _ "systemAlloc s"]) simp
next
  case (Cons a accesses)
  define y where "y = (\<lambda>x::ModuleGenerator. x\<lparr>linkDataTier := (linkDataTier x)
               \<lparr>symbolicLinks := (symbolicLinks (linkDataTier x))
                  (sa_target a := symbolicLinks (linkDataTier x) (sa_target a) @
                     [of_nat (B + sa_patchAt a)])\<rparr>\<rparr>)"
  have "linkSymbolicAccesses B (a # accesses) s =
      andThen (alloc s) (\<lambda>x. linkSymbolicAccesses B accesses (y x))"
    by (simp add: y_def Let_def)
  with Cons.prems obtain x where
    a: "alloc s = Inr x" and
    r: "linkSymbolicAccesses B accesses (y x) = Inr s'"
    by (auto simp only: andThen_Inr_iff)
  from a obtain r1 where x: "x = s\<lparr>systemAlloc := r1\<rparr>"
    by (auto dest: alloc_InrD)
  from Cons.IH[OF r] obtain r2 where
    s': "s' = (y x)\<lparr>linkDataTier := (linkDataTier (y x))
            \<lparr>symbolicLinks := (\<lambda>t. symbolicLinks (linkDataTier (y x)) t @
                map (\<lambda>a. of_nat (B + sa_patchAt a)) (filter (\<lambda>a. sa_target a = t) accesses))\<rparr>,
            systemAlloc := r2\<rparr>"
    by blast
  have e: "(\<lambda>t. ((symbolicLinks (linkDataTier s))
                  (sa_target a := symbolicLinks (linkDataTier s) (sa_target a) @
                     [of_nat (B + sa_patchAt a)])) t @
                map (\<lambda>a. of_nat (B + sa_patchAt a)) (filter (\<lambda>a. sa_target a = t) accesses))
      = (\<lambda>t. symbolicLinks (linkDataTier s) t @
                map (\<lambda>a. of_nat (B + sa_patchAt a))
                  (filter (\<lambda>a. sa_target a = t) (a # accesses)))"
    by (rule ext) simp
  have "s' = s\<lparr>linkDataTier := (linkDataTier s)
            \<lparr>symbolicLinks := (\<lambda>t. symbolicLinks (linkDataTier s) t @
                map (\<lambda>a. of_nat (B + sa_patchAt a))
                  (filter (\<lambda>a. sa_target a = t) (a # accesses)))\<rparr>,
            systemAlloc := r2\<rparr>"
    unfolding s' y_def x using e by simp
  then show ?case by blast
qed

text \<open>What linking leaves alone.\<close>

definition unlinked :: "ModuleGenerator \<Rightarrow> ModuleGenerator \<Rightarrow> bool" where
  "unlinked s x \<longleftrightarrow>
     env x = env s \<and> cancelled x = cancelled s \<and> errorSlot x = errorSlot s \<and>
     metadata x = metadata s \<and> taskState x = taskState s \<and>
     numFuncDefs x = numFuncDefs s \<and> exportedFuncs x = exportedFuncs s \<and>
     parallel x = parallel s \<and> outstanding x = outstanding s \<and> tasks x = tasks s \<and>
     freeTasks x = freeTasks s \<and> currentTask x = currentTask s \<and>
     batchedBytecode x = batchedBytecode s \<and> startedFuncDefs x = startedFuncDefs s \<and>
     finishedFuncDefs x = finishedFuncDefs s \<and> wasmWorklist x = wasmWorklist s \<and>
     helperSchedule x = helperSchedule s"

lemma unlinked_refl [simp]: "unlinked s s"
  by (simp add: unlinked_def)

lemma unlinked_trans: "unlinked s x \<Longrightarrow> unlinked x y \<Longrightarrow> unlinked s y"
  by (simp add: unlinked_def)

lemma noted_unlinked: "noted s x \<Longrightarrow> unlinked s x"
  by (simp add: noted_def unlinked_def)

lemma andThenE:
  assumes "andThen m f = Inr y"
  obtains x where "m = Inr x" and "f x = Inr y"
  using assms by (auto simp: andThen_Inr_iff)

lemma linkCompiledCode_result:
  fixes s :: ModuleGenerator
  assumes ok: "linkCompiledCode g code s = Inr s'"
  defines "m0 \<equiv> haltingAlign g (CodeAlignment g) (masm s)"
  defines "B \<equiv> size_masm m0"
  shows "masm s' = emit (cc_bytes code) m0 \<and> \<not> oom (emit (cc_bytes code) m0) \<and>
    codeRanges (metadataTier s') = codeRanges (metadataTier s) @
       map (CodeRange_offsetBy (of_nat B)) (cc_codeRanges code) \<and>
    callSites (metadataTier s') = callSites (metadataTier s) @
       map (CallSite_offsetBy (of_nat B)) (cc_callSites code) \<and>
    callSiteTargets s' = callSiteTargets s @ cc_callSiteTargets code \<and>
    trapFarJumps s' = trapFarJumps s @ map (TrapFarJump_offsetBy B) (cc_trapFarJumps code) \<and>
    callFarJumps s' = callFarJumps s @ map (CallFarJump_offsetBy B) (cc_callFarJumps code) \<and>
    memoryAccesses (metadataTier s') = memoryAccesses (metadataTier s) @
       map (MemoryAccess_offsetBy (of_nat B)) (cc_memoryAccesses code) \<and>
    symbolicLinks (linkDataTier s') = (\<lambda>t. symbolicLinks (linkDataTier s) t @
       map (\<lambda>a. of_nat (B + sa_patchAt a))
         (filter (\<lambda>a. sa_target a = t) (cc_symbolicAccesses code))) \<and>
    internalLinks (linkDataTier s') = internalLinks (linkDataTier s) @
       map (\<lambda>l. \<lparr>patchAtOffset = of_nat (B + cl_patchAt l),
                  targetOffset = of_nat (B + cl_target l)\<rparr>) (cc_codeLabels code) \<and>
    debugTrapFarJumpOffsets (metadataTier s') = debugTrapFarJumpOffsets (metadataTier s) \<and>
    debugTrapFarJumps s' = debugTrapFarJumps s \<and>
    lastPatchedCallSite s' = lastPatchedCallSite s \<and>
    startOfUnpatchedCallsites s' = startOfUnpatchedCallsites s \<and>
    length (funcToCodeRange s') = length (funcToCodeRange s) \<and>
    cc_trapSites code = [] \<and>
    unlinked s s'"
proof -
  define s2 where "s2 = s\<lparr>masm := emit (cc_bytes code) m0\<rparr>"
  define F1 where "F1 = (\<lambda>v (x::ModuleGenerator). x\<lparr>metadataTier := (metadataTier x)\<lparr>codeRanges := v\<rparr>\<rparr>)"
  define F2 where "F2 = (\<lambda>x::ModuleGenerator. x\<lparr>metadataTier := (metadataTier x)
                     \<lparr>callSites := callSites (metadataTier x) @
                        map (CallSite_offsetBy (of_nat B)) (cc_callSites code)\<rparr>\<rparr>)"
  define F3 where "F3 = (\<lambda>x::ModuleGenerator.
      x\<lparr>callSiteTargets := callSiteTargets x @ cc_callSiteTargets code\<rparr>)"
  define F4 where "F4 = (\<lambda>x::ModuleGenerator. x\<lparr>trapFarJumps := trapFarJumps x @
                     map (TrapFarJump_offsetBy B) (cc_trapFarJumps code)\<rparr>)"
  define F5 where "F5 = (\<lambda>x::ModuleGenerator. x\<lparr>callFarJumps := callFarJumps x @
                     map (CallFarJump_offsetBy B) (cc_callFarJumps code)\<rparr>)"
  define F6 where "F6 = (\<lambda>x::ModuleGenerator. x\<lparr>metadataTier := (metadataTier x)
                     \<lparr>memoryAccesses := memoryAccesses (metadataTier x) @
                        map (MemoryAccess_offsetBy (of_nat B))
                          (cc_memoryAccesses code)\<rparr>\<rparr>)"
  have eq: "linkCompiledCode g code s =
     (if oom (emit (cc_bytes code) m0) then Inl OutOfMemory
      else andThen (alloc s2) (\<lambda>x.
           andThen (AppendForEach (codeRangeOp B) (codeRanges (metadataTier x))
                      (cc_codeRanges code) x) (\<lambda>p.
           andThen (alloc (F1 (fst p) (snd p))) (\<lambda>x.
           andThen (alloc (F2 x)) (\<lambda>x.
           andThen (MOZ_ASSERT (cc_trapSites code = []) ''code.trapSites.empty()'' (F3 x)) (\<lambda>x.
           andThen (alloc x) (\<lambda>x.
           andThen (alloc (F4 x)) (\<lambda>x.
           andThen (alloc (F5 x)) (\<lambda>x.
           andThen (linkSymbolicAccesses B (cc_symbolicAccesses code) (F6 x)) (\<lambda>x.
           linkCodeLabels B (cc_codeLabels code) x))))))))))"
    unfolding linkCompiledCode_def appendRawCode_def Let_def s2_def F1_def F2_def F3_def F4_def
      F5_def F6_def B_def m0_def
    by (simp add: split_def)
  from ok eq have noom: "\<not> oom (emit (cc_bytes code) m0)"
    by (auto split: if_splits)
  from ok eq noom have "andThen (alloc s2) (\<lambda>x.
           andThen (AppendForEach (codeRangeOp B) (codeRanges (metadataTier x))
                      (cc_codeRanges code) x) (\<lambda>p.
           andThen (alloc (F1 (fst p) (snd p))) (\<lambda>x.
           andThen (alloc (F2 x)) (\<lambda>x.
           andThen (MOZ_ASSERT (cc_trapSites code = []) ''code.trapSites.empty()'' (F3 x)) (\<lambda>x.
           andThen (alloc x) (\<lambda>x.
           andThen (alloc (F4 x)) (\<lambda>x.
           andThen (alloc (F5 x)) (\<lambda>x.
           andThen (linkSymbolicAccesses B (cc_symbolicAccesses code) (F6 x)) (\<lambda>x.
           linkCodeLabels B (cc_codeLabels code) x))))))))) = Inr s'"
    by simp
  then obtain x1 p x3 x4 x4' x5 x6 x7 x8 where
    a1: "alloc s2 = Inr x1" and
    a2: "AppendForEach (codeRangeOp B) (codeRanges (metadataTier x1))
                      (cc_codeRanges code) x1 = Inr p" and
    a3: "alloc (F1 (fst p) (snd p)) = Inr x3" and
    a4: "alloc (F2 x3) = Inr x4" and
    a4': "MOZ_ASSERT (cc_trapSites code = []) ''code.trapSites.empty()'' (F3 x4) = Inr x4'" and
    a5: "alloc x4' = Inr x5" and
    a6: "alloc (F4 x5) = Inr x6" and
    a7: "alloc (F5 x6) = Inr x7" and
    a8: "linkSymbolicAccesses B (cc_symbolicAccesses code) (F6 x7) = Inr x8" and
    a9: "linkCodeLabels B (cc_codeLabels code) x8 = Inr s'"
    by (elim andThenE) blast
  obtain v x2 where p: "p = (v, x2)" by (cases p)
  from a4' have ts: "cc_trapSites code = []" and x4': "x4' = F3 x4"
    by (simp_all add: MOZ_ASSERT_Inr_iff)
  from a1 obtain r1 where x1: "x1 = s2\<lparr>systemAlloc := r1\<rparr>" by (auto dest: alloc_InrD)
  from AppendForEach_codeRangeOp[OF a2[unfolded p]] have
    v: "v = codeRanges (metadataTier x1) @ map (CodeRange_offsetBy (of_nat B)) (cc_codeRanges code)"
    and n: "noted x1 x2" by auto
  from a3 p obtain r3 where x3: "x3 = (F1 v x2)\<lparr>systemAlloc := r3\<rparr>" by (auto dest: alloc_InrD)
  from a4 obtain r4 where x4: "x4 = (F2 x3)\<lparr>systemAlloc := r4\<rparr>" by (auto dest: alloc_InrD)
  from a5 x4' obtain r5 where x5: "x5 = (F3 x4)\<lparr>systemAlloc := r5\<rparr>" by (auto dest: alloc_InrD)
  from a6 obtain r6 where x6: "x6 = (F4 x5)\<lparr>systemAlloc := r6\<rparr>" by (auto dest: alloc_InrD)
  from a7 obtain r7 where x7: "x7 = (F5 x6)\<lparr>systemAlloc := r7\<rparr>" by (auto dest: alloc_InrD)
  from linkSymbolicAccesses_result[OF a8] obtain r8 where
    x8: "x8 = (F6 x7)\<lparr>linkDataTier := (linkDataTier (F6 x7))
            \<lparr>symbolicLinks := (\<lambda>t. symbolicLinks (linkDataTier (F6 x7)) t @
                map (\<lambda>a. of_nat (B + sa_patchAt a))
                 (filter (\<lambda>a. sa_target a = t) (cc_symbolicAccesses code)))\<rparr>,
            systemAlloc := r8\<rparr>" by blast
  from linkCodeLabels_result[OF a9] obtain r9 where
    s': "s' = x8\<lparr>linkDataTier := (linkDataTier x8)
            \<lparr>internalLinks := internalLinks (linkDataTier x8) @
                map (\<lambda>l. \<lparr>patchAtOffset = of_nat (B + cl_patchAt l),
                           targetOffset = of_nat (B + cl_target l)\<rparr>) (cc_codeLabels code)\<rparr>,
            systemAlloc := r9\<rparr>" by blast
  show ?thesis
    using n noom ts v
    unfolding s' x8 x7 x6 x5 x4 x3 F1_def F2_def F3_def F4_def F5_def F6_def
    by (simp add: noted_def unlinked_def x1 s2_def)
qed

section \<open>Examples\<close>

text \<open>A small target: a branch range of 16 bytes, far jumps of 5 bytes, code aligned to 4
  bytes, a baseline compiler that fails on every non-empty batch.\<close>

definition example_Globals :: Globals where
  "example_Globals =
     \<lparr>JitOptions = \<lparr>jumpThreshold = 16, wasmBatchBaselineThreshold = 10,
                    wasmBatchIonThreshold = 10\<rparr>,
      JumpImmediateRange = 1024, CodeAlignment = 4, MaxModuleBytes = 1000, haltCode = 244,
      farJumpCode = [233, 0, 0, 0, 0], farJumpPatchAt = 5, loadTlsCode = [139, 0, 0],
      sizeofFuncImportTls = 16, sizeofTableTls = 8, sizeofPointer = 4, SystemPageSize = 4096,
      AsmJSFirstDefFuncIndex = 0, AsmJSMaxTypes = 0, AsmJSMaxTables = 0,
      threadCount = 2, cpuCount = 1, maxWasmCompilationThreads = 1,
      CanUseExtraThreads = False,
      SigIdDesc_isGlobal = (\<lambda>_. False),
      IonCompileFunctions = (\<lambda>_. Inl (Some ''ion'')),
      BaselineCompileFunctions = (\<lambda>ins. if ins = [] then Inr CompiledCode_empty
                                           else Inl (Some ''too hard'')),
      GenerateStubs = (\<lambda>_ _. Some CompiledCode_empty)\<rparr>"

definition example_env :: ModuleEnvironment where
  "example_env =
     \<lparr>isAsmJS = False, tier = Baseline, mode = Once,
      sigs = [\<lparr>sig_sig = \<lparr>args = [], ret = Some I32\<rparr>, sig_id = NoSigId\<rparr>],
      funcSigs = [Some 0, Some 0, Some 0, Some 0],
      funcImportGlobalDataOffsets = [],
      tables = [\<lparr>external = True, tbl_globalDataOffset = 0\<rparr>,
                \<lparr>external = False, tbl_globalDataOffset = 0\<rparr>],
      globals = [],
      exports = [\<lparr>exp_fieldName = ''f'', exp_kind = FunctionDef, exp_funcIndex = 2\<rparr>,
                 \<lparr>exp_fieldName = ''t'', exp_kind = TableDef, exp_funcIndex = 3\<rparr>],
      startFuncIndex = Some 1,
      elemSegments = [\<lparr>tableIndex = 0, elemFuncIndices = [2, 0], elemCodeRangeIndices = []\<rparr>,
                      \<lparr>tableIndex = 1, elemFuncIndices = [3], elemCodeRangeIndices = []\<rparr>],
      asmJSSigToTableIndex = []\<rparr>"

definition example_generator :: ModuleGenerator where
  "example_generator = ModuleGenerator_new example_env None [] [] []"

definition example_input :: FuncCompileInput where
  "example_input = \<lparr>fi_index = 0, fi_lineOrBytecode = 0, fi_bytes = [], fi_begin = 0,
     fi_end = 4, fi_lineNums = []\<rparr>"

section \<open>The range of a branch\<close>

lemma uint_sub_lt: "a < b \<Longrightarrow> uint (b - a) = uint b - uint (a::32 word)"
  by (simp add: less_le_not_le uint_minus_simple_alt)

lemma uint_sub_ge: "\<not> a < b \<Longrightarrow> uint (a - b) = uint a - uint (b::32 word)"
  by (meson leI uint_minus_simple_alt)

lemma InRange_abs:
  "InRange g a b \<longleftrightarrow>
     \<bar>uint a - uint b\<bar> < uint (min (jumpThreshold (JitOptions g)) (JumpImmediateRange g))"
proof (cases "a < b")
  case True
  then have "uint a < uint b" by (simp add: word_less_def)
  then show ?thesis using True uint_sub_lt[OF True]
    unfolding InRange_def Let_def by (simp add: word_less_def)
next
  case False
  then have "uint b \<le> uint a" by (simp add: word_less_def)
  then show ?thesis using False uint_sub_ge[OF False]
    unfolding InRange_def Let_def by (simp add: word_less_def)
qed

lemma funcCodeRange_compiled:
  "funcCodeRange s f = Inr cr \<Longrightarrow> funcIsCompiled s f = Inr True"
  by (auto simp: funcCodeRange_def andThen_Inr_iff MOZ_ASSERT_Inr_iff)

lemma linkCallSites_Func_direct:
  assumes "funcCodeRange s f = Inr cr" and "InRange g co (funcNormalEntry cr)"
  shows "linkCallSites_Func g co (FuncIndexTarget f) c s =
           Inr (c, s\<lparr>masm := patchCall co (funcNormalEntry cr) (masm s)\<rparr>)"
  using assms funcCodeRange_compiled[OF assms(1)]
  by (simp add: linkCallSites_Func_def CallSiteTarget_funcIndex_def andThen_def)

lemma linkCallSite_Func:
  assumes "lastPatchedCallSite s < length (callSites (metadataTier s))"
    and "lastPatchedCallSite s < length (callSiteTargets s)"
    and "cs_kind (callSites (metadataTier s) ! lastPatchedCallSite s) = Func"
  shows "linkCallSite g c t s =
     andThen (linkCallSites_Func g
                (returnAddressOffset (callSites (metadataTier s) ! lastPatchedCallSite s))
                (callSiteTargets s ! lastPatchedCallSite s) c s)
       (\<lambda>(m, s'). Inr (m, t, s'))"
  using assms by (simp add: linkCallSite_def Let_def)

text \<open>
  C7. \<open>InRange g a b\<close> holds exactly when the distance between the two offsets, as
  unsigned numbers, is below \<open>branchRange = min(jumpThreshold, JumpImmediateRange)\<close>. In
  the switch of \<^verbatim>\<open>linkCallSites\<close>, the caller of the comparison for a call site of kind
  \<open>Func\<close> whose callee is compiled is the return address offset of the call site and the
  callee is the normal entry of the function: within the range the call is patched to the
  entry of the callee, otherwise to an island of the pass.
\<close>

theorem InRange_is_abs_diff_below_branchRange:
  "(InRange g a b \<longleftrightarrow>
      \<bar>uint a - uint b\<bar> < uint (min (jumpThreshold (JitOptions g)) (JumpImmediateRange g))) \<and>
   (\<forall>s c t f cr.
      lastPatchedCallSite s < length (callSites (metadataTier s)) \<and>
      lastPatchedCallSite s < length (callSiteTargets s) \<and>
      cs_kind (callSites (metadataTier s) ! lastPatchedCallSite s) = Func \<and>
      callSiteTargets s ! lastPatchedCallSite s = FuncIndexTarget f \<and>
      funcCodeRange s f = Inr cr \<longrightarrow>
      (let caller = returnAddressOffset (callSites (metadataTier s) ! lastPatchedCallSite s);
           callee = funcNormalEntry cr
       in if \<bar>uint caller - uint callee\<bar>
              < uint (min (jumpThreshold (JitOptions g)) (JumpImmediateRange g))
          then linkCallSite g c t s =
                 Inr (c, t, s\<lparr>masm := patchCall caller callee (masm s)\<rparr>)
          else \<forall>c' t' s'. linkCallSite g c t s = Inr (c', t', s') \<longrightarrow>
                 (\<exists>island. c' f = Some island \<and>
                    patchedCalls (masm s') = patchedCalls (masm s) @ [(caller, island)])))"
proof (intro conjI allI impI)
  show "InRange g a b \<longleftrightarrow>
      \<bar>uint a - uint b\<bar> < uint (min (jumpThreshold (JitOptions g)) (JumpImmediateRange g))"
    by (rule InRange_abs)
next
  fix s c t f cr
  assume h: "lastPatchedCallSite s < length (callSites (metadataTier s)) \<and>
      lastPatchedCallSite s < length (callSiteTargets s) \<and>
      cs_kind (callSites (metadataTier s) ! lastPatchedCallSite s) = Func \<and>
      callSiteTargets s ! lastPatchedCallSite s = FuncIndexTarget f \<and>
      funcCodeRange s f = Inr cr"
  let ?caller = "returnAddressOffset (callSites (metadataTier s) ! lastPatchedCallSite s)"
  have step: "linkCallSite g c t s =
     andThen (linkCallSites_Func g ?caller (FuncIndexTarget f) c s) (\<lambda>(m, s'). Inr (m, t, s'))"
    using linkCallSite_Func[of s g c t] h by simp
  show "let caller = ?caller; callee = funcNormalEntry cr
       in if \<bar>uint caller - uint callee\<bar>
              < uint (min (jumpThreshold (JitOptions g)) (JumpImmediateRange g))
          then linkCallSite g c t s =
                 Inr (c, t, s\<lparr>masm := patchCall caller callee (masm s)\<rparr>)
          else \<forall>c' t' s'. linkCallSite g c t s = Inr (c', t', s') \<longrightarrow>
                 (\<exists>island. c' f = Some island \<and>
                    patchedCalls (masm s') = patchedCalls (masm s) @ [(caller, island)])"
  proof (cases "InRange g ?caller (funcNormalEntry cr)")
    case True
    then show ?thesis
      using step linkCallSites_Func_direct[of s f cr g ?caller c] h
      by (simp add: InRange_abs andThen_def Let_def)
  next
    case False
    have "\<exists>island. c' f = Some island \<and>
            patchedCalls (masm s') = patchedCalls (masm s) @ [(?caller, island)]"
      if r: "linkCallSite g c t s = Inr (c', t', s')" for c' t' s'
    proof -
      from r step have "linkCallSites_Func g ?caller (FuncIndexTarget f) c s = Inr (c', s')"
        by (auto simp: andThen_Inr_iff)
      from linkCallSites_Func_result[OF this] False h show ?thesis
        by (auto simp: patchCall_def emit_def split: list.splits if_splits)
    qed
    then show ?thesis using False by (simp add: InRange_abs Let_def)
  qed
qed

text \<open>A function of 8 bytes at offset 0 and a call to it that returns to offset 12: the
  call is within the range of 16 bytes and is patched to the entry of the function.\<close>

definition example_near_call :: ModuleGenerator where
  "example_near_call =
     example_generator
       \<lparr>metadataTier := (metadataTier example_generator)
          \<lparr>codeRanges := [\<lparr>cr_kind = Function, cr_begin = 0, cr_end = 8, cr_funcIndex = 0,
                            cr_trap = 0, cr_beginToNormalEntry = 2\<rparr>],
           callSites := [\<lparr>cs_kind = Func, returnAddressOffset = 12\<rparr>]\<rparr>,
        funcToCodeRange := [0],
        callSiteTargets := [FuncIndexTarget 0],
        masm := (masm example_generator)\<lparr>buffer := replicate 16 0\<rparr>\<rparr>"

theorem InRange_is_abs_diff_below_branchRange_witness:
  "InRange example_Globals 12 2 \<and> \<not> InRange example_Globals 2 18 \<and>
   linkCallSite example_Globals Map.empty (\<lambda>_. None) example_near_call =
     Inr (Map.empty, (\<lambda>_. None),
          example_near_call\<lparr>masm := patchCall 12 2 (masm example_near_call)\<rparr>)"
proof -
  have cr: "funcCodeRange example_near_call 0 =
      Inr \<lparr>cr_kind = Function, cr_begin = 0, cr_end = 8, cr_funcIndex = 0,
                            cr_trap = 0, cr_beginToNormalEntry = 2\<rparr>"
    by (simp add: funcCodeRange_def funcIsCompiled_def example_near_call_def andThen_def
        MOZ_ASSERT_def BAD_CODE_RANGE_def isFunction_def)
  have g: "min (jumpThreshold (JitOptions example_Globals)) (JumpImmediateRange example_Globals)
      = 16"
    by (simp add: example_Globals_def)
  have 1: "InRange example_Globals 12 2"
    using InRange_is_abs_diff_below_branchRange[of example_Globals 12 2, THEN conjunct1]
    by (simp add: g)
  have 2: "\<not> InRange example_Globals 2 18"
    using InRange_is_abs_diff_below_branchRange[of example_Globals 2 18, THEN conjunct1]
    by (simp add: g)
  have 3: "linkCallSite example_Globals Map.empty (\<lambda>_. None) example_near_call =
     Inr (Map.empty, (\<lambda>_. None),
          example_near_call\<lparr>masm := patchCall 12 2 (masm example_near_call)\<rparr>)"
    using InRange_is_abs_diff_below_branchRange[of example_Globals 0 0, THEN conjunct2,
        rule_format, of example_near_call 0 _ Map.empty "\<lambda>_. None"] cr
    by (simp add: g funcNormalEntry_def example_near_call_def example_generator_def
        ModuleGenerator_new_def)
  from 1 2 3 show ?thesis by simp
qed

section \<open>The global data\<close>

text \<open>\<open>roundUp n a\<close> is \<open>n\<close> rounded up to the next multiple of \<open>a\<close>.\<close>

definition roundUp :: "nat \<Rightarrow> nat \<Rightarrow> nat" where
  "roundUp n a = ((n + a - 1) div a) * a"

lemma div_mult_add_less: "r < (a::nat) \<Longrightarrow> (q * a + r) div a = q"
  by simp

lemma pad_roundUp: "0 < a \<Longrightarrow> n + (a - n mod a) mod a = roundUp n a"
proof -
  assume a: "0 < a"
  obtain q r where n: "n = q * a + r" and r: "r < a"
    by (metis a div_mult_mod_eq mod_less_divisor mult.commute)
  have nmod: "n mod a = r" using n r by simp
  show ?thesis
  proof (cases "r = 0")
    case True
    have "n + a - 1 = q * a + (a - 1)" using a n True by simp
    moreover have "a - 1 < a" using a by simp
    ultimately have "(n + a - 1) div a = q" using div_mult_add_less by metis
    then show ?thesis using a n True nmod by (simp add: roundUp_def)
  next
    case False
    have "n + a - 1 = (q + 1) * a + (r - 1)" using n False by (simp add: algebra_simps)
    moreover have "r - 1 < a" using r by simp
    ultimately have "(n + a - 1) div a = q + 1" using div_mult_add_less by metis
    then show ?thesis using n r False nmod by (simp add: roundUp_def algebra_simps)
  qed
qed

lemma unat_add_of_nat: "unat (x::32 word) + n < 2 ^ 32 \<Longrightarrow> unat (x + of_nat n) = unat x + n"
proof -
  assume h: "unat x + n < 2 ^ 32"
  have "unat (x + of_nat n) = (unat x + unat (of_nat n :: 32 word)) mod 2 ^ 32"
    by (simp add: unat_word_ariths)
  also have "unat (of_nat n :: 32 word) = n" using h by (simp add: unat_of_nat)
  finally show ?thesis using h by simp
qed

text \<open>
  C10. For an alignment that is not zero \<^verbatim>\<open>allocateGlobalBytes\<close> returns. When it returns
  \<^verbatim>\<open>false\<close> the generator is unchanged, and the length rounded up to the alignment plus
  the bytes does not fit \<^verbatim>\<open>uint32_t\<close>. When it returns \<^verbatim>\<open>true\<close> the offset that it writes is
  the old length rounded up to the alignment, the new length is that offset plus the bytes,
  and nothing else has changed.
\<close>

theorem allocateGlobalBytes_atomic:
  "(align \<noteq> 0 \<longrightarrow> (\<exists>r. allocateGlobalBytes nbytes align s = Inr r)) \<and>
   (\<forall>ok out s'. allocateGlobalBytes nbytes align s = Inr (ok, out, s') \<longrightarrow>
      (if ok
       then out = Some (of_nat (roundUp (unat (globalDataLength (metadata s))) (unat align))) \<and>
            unat (the out) = roundUp (unat (globalDataLength (metadata s))) (unat align) \<and>
            unat (globalDataLength (metadata s')) =
              roundUp (unat (globalDataLength (metadata s))) (unat align) + unat nbytes \<and>
            s' = s\<lparr>metadata := (metadata s)
                     \<lparr>globalDataLength := globalDataLength (metadata s')\<rparr>\<rparr>
       else s' = s \<and>
            \<not> roundUp (unat (globalDataLength (metadata s))) (unat align) + unat nbytes
                < 2 ^ 32))"
proof (cases "align = 0")
  case True
  then show ?thesis
    by (simp add: allocateGlobalBytes_def ComputeByteAlignment_def andThen_def)
next
  case False
  define old where "old = globalDataLength (metadata s)"
  define pad where "pad = (unat align - unat old mod unat align) mod unat align"
  have apos: "0 < unat align" using False by (simp add: unat_gt_0)
  have ru: "unat old + pad = roundUp (unat old) (unat align)"
    unfolding pad_def by (rule pad_roundUp[OF apos])
  have cba: "ComputeByteAlignment (unat old) (unat align) = Inr pad"
    using apos by (simp add: ComputeByteAlignment_def pad_def)
  show ?thesis
  proof (cases "unat old + pad < 2 ^ 32")
    case False
    then have "CheckedInt_add (Some old) pad = None" by (simp add: CheckedInt_add_def)
    then show ?thesis using False ru \<open>align \<noteq> 0\<close> cba
      by (auto simp: allocateGlobalBytes_def andThen_def Let_def CheckedInt_isValid_def
          CheckedInt_value_def old_def[symmetric])
  next
    case True
    then have c1: "CheckedInt_add (Some old) pad = Some (old + of_nat pad)"
      by (simp add: CheckedInt_add_def)
    have u1: "unat (old + of_nat pad) = roundUp (unat old) (unat align)"
      using unat_add_of_nat[OF True] ru by simp
    then have e1: "old + of_nat pad = of_nat (roundUp (unat old) (unat align))"
      by (simp add: u1[symmetric])
    show ?thesis
    proof (cases "unat (old + of_nat pad) + unat nbytes < 2 ^ 32")
      case False
      then have "CheckedInt_add (Some (old + of_nat pad)) (unat nbytes) = None"
        by (simp add: CheckedInt_add_def)
      then show ?thesis using False c1 u1 cba \<open>align \<noteq> 0\<close>
        by (auto simp: allocateGlobalBytes_def andThen_def Let_def CheckedInt_isValid_def
            CheckedInt_value_def old_def[symmetric])
    next
      case True
      then have c2: "CheckedInt_add (Some (old + of_nat pad)) (unat nbytes) =
          Some (old + of_nat pad + nbytes)"
        by (simp add: CheckedInt_add_def)
      have u2: "unat (old + of_nat pad + nbytes) = roundUp (unat old) (unat align) + unat nbytes"
        using unat_add_of_nat[OF True] u1 by simp
      show ?thesis using c1 c2 u1 u2 e1 cba \<open>align \<noteq> 0\<close>
        by (auto simp: allocateGlobalBytes_def andThen_def Let_def CheckedInt_isValid_def
            CheckedInt_value_def old_def[symmetric])
    qed
  qed
qed

text \<open>A length of 5 bytes and a request of 4 bytes aligned to 8: the slot is at 8 and the
  new length is 12. A length of \<open>2^32 - 4\<close> and a request of 8 bytes aligned to 4: the
  function returns \<^verbatim>\<open>false\<close> and the generator is unchanged.\<close>

definition example_data5 :: ModuleGenerator where
  "example_data5 =
     example_generator\<lparr>metadata := (metadata example_generator)\<lparr>globalDataLength := 5\<rparr>\<rparr>"

definition example_dataFull :: ModuleGenerator where
  "example_dataFull =
     example_generator\<lparr>metadata := (metadata example_generator)
       \<lparr>globalDataLength := 4294967292\<rparr>\<rparr>"

theorem allocateGlobalBytes_atomic_witness:
  "allocateGlobalBytes 4 8 example_data5 =
     Inr (True, Some 8,
          example_data5\<lparr>metadata := (metadata example_data5)\<lparr>globalDataLength := 12\<rparr>\<rparr>) \<and>
   (\<exists>out. allocateGlobalBytes 8 4 example_dataFull = Inr (False, out, example_dataFull))"
proof -
  have l5: "unat (globalDataLength (metadata example_data5)) = 5"
    by (simp add: example_data5_def)
  have r5: "roundUp 5 8 = 8" by (simp add: roundUp_def)
  have "\<exists>r. allocateGlobalBytes 4 8 example_data5 = Inr r"
    using allocateGlobalBytes_atomic[of 8 4 example_data5] by simp
  then obtain ok out s' where a: "allocateGlobalBytes 4 8 example_data5 = Inr (ok, out, s')"
    by (metis prod_cases3)
  with allocateGlobalBytes_atomic[of 8 4 example_data5] have
    b: "if ok
        then out = Some (of_nat (roundUp 5 8)) \<and>
             unat (globalDataLength (metadata s')) = roundUp 5 8 + unat (4 :: u32) \<and>
             s' = example_data5\<lparr>metadata := (metadata example_data5)
                     \<lparr>globalDataLength := globalDataLength (metadata s')\<rparr>\<rparr>
        else \<not> roundUp 5 8 + unat (4 :: u32) < 2 ^ 32"
    by (simp add: l5 split: if_splits)
  have ok: ok using b by (simp add: r5 split: if_splits)
  with b have "unat (globalDataLength (metadata s')) = 12" by (simp add: r5)
  then have "globalDataLength (metadata s') = 12"
    by (metis of_nat_unat ucast_id of_nat_numeral)
  with b ok a have 1: "allocateGlobalBytes 4 8 example_data5 =
     Inr (True, Some 8,
          example_data5\<lparr>metadata := (metadata example_data5)\<lparr>globalDataLength := 12\<rparr>\<rparr>)"
    by (simp add: r5)
  have lF: "unat (globalDataLength (metadata example_dataFull)) = 4294967292"
    by (simp add: example_dataFull_def)
  have rF: "roundUp 4294967292 4 = 4294967292" by (simp add: roundUp_def)
  have "\<exists>r. allocateGlobalBytes 8 4 example_dataFull = Inr r"
    using allocateGlobalBytes_atomic[of 4 8 example_dataFull] by simp
  then obtain ok2 out2 s2 where
    a2: "allocateGlobalBytes 8 4 example_dataFull = Inr (ok2, out2, s2)"
    by (metis prod_cases3)
  with allocateGlobalBytes_atomic[of 4 8 example_dataFull] have
    b2: "if ok2
        then unat (globalDataLength (metadata s2)) = roundUp 4294967292 4 + unat (8 :: u32)
        else s2 = example_dataFull"
    by (simp add: lF split: if_splits)
  have "unat (globalDataLength (metadata s2)) < 2 ^ 32"
    using unsigned_less[of "globalDataLength (metadata s2)"] by simp
  then have "\<not> ok2" using b2 by (auto simp: rF split: if_splits)
  with b2 a2 have 2: "\<exists>out. allocateGlobalBytes 8 4 example_dataFull
      = Inr (False, out, example_dataFull)"
    by auto
  from 1 2 show ?thesis by simp
qed

section \<open>The failure of a helper thread\<close>

text \<open>
  C9. When the compilation of the task fails, or the append to \<^verbatim>\<open>finished\<close> fails,
  \<^verbatim>\<open>ExecuteCompileTaskFromHelperThread\<close> increments \<open>numFailed\<close>, and sets
  \<open>errorMessage\<close> to the message of this failure only if no message is stored: a stored
  message stays as it is, and so does \<^verbatim>\<open>finished\<close>.
\<close>

theorem first_errorMessage_is_kept:
  assumes "ExecuteCompileTask g tr task = Inr (ok, message, task')"
    and "\<not> ok \<or> \<not> appended"
  shows "ExecuteCompileTaskFromHelperThread g tr appended taskPtr task st =
           Inr (task', st\<lparr>numFailed := numFailed st + 1,
                          errorMessage := (case errorMessage st of
                                             None \<Rightarrow> message
                                           | Some m \<Rightarrow> Some m)\<rparr>)"
  using assms
  by (cases "errorMessage st")
     (auto simp: ExecuteCompileTaskFromHelperThread_def andThen_def Let_def)

text \<open>A second failure, with the message of the first one stored.\<close>

theorem first_errorMessage_is_kept_witness:
  "ExecuteCompileTaskFromHelperThread example_Globals Baseline True 0
     \<lparr>task_inputs = [example_input], task_output = CompiledCode_empty\<rparr>
     \<lparr>finished = [], numFailed = 1, errorMessage = Some ''first''\<rparr> =
   Inr (\<lparr>task_inputs = [example_input], task_output = CompiledCode_empty\<rparr>,
        \<lparr>finished = [], numFailed = 2, errorMessage = Some ''first''\<rparr>)"
proof -
  have "ExecuteCompileTask example_Globals Baseline
          \<lparr>task_inputs = [example_input], task_output = CompiledCode_empty\<rparr> =
        Inr (False, Some ''too hard'',
             \<lparr>task_inputs = [example_input], task_output = CompiledCode_empty\<rparr>)"
    by (simp add: ExecuteCompileTask_def example_Globals_def MOZ_ASSERT_def andThen_def)
  from first_errorMessage_is_kept[OF this, of True 0
      "\<lparr>finished = [], numFailed = 1, errorMessage = Some ''first''\<rparr>"]
  show ?thesis by simp
qed

section \<open>Linking compiled code\<close>

text \<open>
  C1. Let \<open>B\<close> be the size of the buffer after the alignment with which
  \<^verbatim>\<open>linkCompiledCode\<close> starts. When \<^verbatim>\<open>linkCompiledCode\<close> succeeds, the bytes of the code
  are in the buffer from \<open>B\<close> on (and \<open>B\<close> is the old size rounded up to the alignment of
  code), and what it has appended to the tables of the module are the records of the code
  with every offset shifted by \<open>B\<close>: \<open>begin\<close> and \<open>end\<close> of a code range, the return
  address offset of a call site, the jump of a trap far jump and of a call far jump, the
  offset of a memory access; a symbolic access adds \<open>B + patchAt\<close> to the links of its
  target, and a code label adds the link from \<open>B + patchAt\<close> to \<open>B + target\<close>. The
  targets of the call sites are appended as they are. The offsets of type \<^verbatim>\<open>uint32_t\<close> are
  added as \<^verbatim>\<open>uint32_t\<close>: the sum wraps modulo \<open>2^32\<close>.
\<close>

theorem linkCompiledCode_rebases_by_append_offset:
  assumes "linkCompiledCode g code s = Inr s'"
  shows "let B = size_masm (haltingAlign g (CodeAlignment g) (masm s)) in
    (0 < CodeAlignment g \<longrightarrow> B = roundUp (size_masm (masm s)) (CodeAlignment g)) \<and>
    buffer (masm s') =
      buffer (masm s) @ replicate (B - size_masm (masm s)) (haltCode g) @ cc_bytes code \<and>
    codeRanges (metadataTier s') = codeRanges (metadataTier s) @
       map (\<lambda>r. r\<lparr>cr_begin := cr_begin r + of_nat B, cr_end := cr_end r + of_nat B\<rparr>)
         (cc_codeRanges code) \<and>
    callSites (metadataTier s') = callSites (metadataTier s) @
       map (\<lambda>c. c\<lparr>returnAddressOffset := returnAddressOffset c + of_nat B\<rparr>)
         (cc_callSites code) \<and>
    callSiteTargets s' = callSiteTargets s @ cc_callSiteTargets code \<and>
    trapFarJumps s' = trapFarJumps s @
       map (\<lambda>j. j\<lparr>tfj_jump := tfj_jump j + B\<rparr>) (cc_trapFarJumps code) \<and>
    callFarJumps s' = callFarJumps s @
       map (\<lambda>j. j\<lparr>cfj_jump := cfj_jump j + B\<rparr>) (cc_callFarJumps code) \<and>
    memoryAccesses (metadataTier s') = memoryAccesses (metadataTier s) @
       map (\<lambda>a. a\<lparr>insnOffset := insnOffset a + of_nat B\<rparr>) (cc_memoryAccesses code) \<and>
    (\<forall>target. symbolicLinks (linkDataTier s') target =
       symbolicLinks (linkDataTier s) target @
       map (\<lambda>a. of_nat (B + sa_patchAt a))
         (filter (\<lambda>a. sa_target a = target) (cc_symbolicAccesses code))) \<and>
    internalLinks (linkDataTier s') = internalLinks (linkDataTier s) @
       map (\<lambda>l. \<lparr>patchAtOffset = of_nat (B + cl_patchAt l),
                  targetOffset = of_nat (B + cl_target l)\<rparr>) (cc_codeLabels code)"
proof -
  define m0 where "m0 = haltingAlign g (CodeAlignment g) (masm s)"
  define pad where "pad = (CodeAlignment g - size_masm (masm s) mod CodeAlignment g)
      mod CodeAlignment g"
  note r = linkCompiledCode_result[OF assms, folded m0_def]
  from r have m: "masm s' = emit (cc_bytes code) m0"
    by (rule conjunct1)
  from r have noom: "\<not> oom (emit (cc_bytes code) m0)"
    by (rule conjunct2[THEN conjunct1])
  from emit_not_oom[OF noom] have noom0: "\<not> oom m0"
    and b: "buffer (emit (cc_bytes code) m0) = buffer m0 @ cc_bytes code"
    by simp_all
  have m0: "m0 = emit (replicate pad (haltCode g)) (masm s)"
    by (simp add: m0_def haltingAlign_def pad_def)
  from noom0 have b0: "buffer m0 = buffer (masm s) @ replicate pad (haltCode g)"
    unfolding m0 by (rule emit_not_oom)
  have sz: "size_masm m0 = size_masm (masm s) + pad"
    by (simp add: size_masm_def b0)
  have ru: "0 < CodeAlignment g \<longrightarrow> size_masm m0 = roundUp (size_masm (masm s)) (CodeAlignment g)"
    using pad_roundUp[of "CodeAlignment g" "size_masm (masm s)"] sz by (simp add: pad_def)
  have tk: "buffer (masm s') = buffer (masm s) @
      replicate (size_masm m0 - size_masm (masm s)) (haltCode g) @ cc_bytes code"
    by (simp add: m b b0 sz)
  have f1: "CodeRange_offsetBy (of_nat (size_masm m0)) =
      (\<lambda>r. r\<lparr>cr_begin := cr_begin r + of_nat (size_masm m0),
              cr_end := cr_end r + of_nat (size_masm m0)\<rparr>)"
    by (rule ext) (simp add: CodeRange_offsetBy_def)
  have f2: "CallSite_offsetBy (of_nat (size_masm m0)) =
      (\<lambda>c. c\<lparr>returnAddressOffset := returnAddressOffset c + of_nat (size_masm m0)\<rparr>)"
    by (rule ext) (simp add: CallSite_offsetBy_def)
  have f3: "TrapFarJump_offsetBy (size_masm m0) =
      (\<lambda>j. j\<lparr>tfj_jump := tfj_jump j + size_masm m0\<rparr>)"
    by (rule ext) (simp add: TrapFarJump_offsetBy_def)
  have f4: "CallFarJump_offsetBy (size_masm m0) =
      (\<lambda>j. j\<lparr>cfj_jump := cfj_jump j + size_masm m0\<rparr>)"
    by (rule ext) (simp add: CallFarJump_offsetBy_def)
  have f5: "MemoryAccess_offsetBy (of_nat (size_masm m0)) =
      (\<lambda>a. a\<lparr>insnOffset := insnOffset a + of_nat (size_masm m0)\<rparr>)"
    by (rule ext) (simp add: MemoryAccess_offsetBy_def)
  show ?thesis
    unfolding Let_def m0_def[symmetric]
    using r ru tk by (simp add: f1 f2 f3 f4 f5)
qed

text \<open>
  A buffer of 6 bytes and code of 3 bytes with one record of each kind: the code is
  appended at \<open>B = 8\<close>, after two halts, and every offset is 8 more than in the code.
\<close>

definition example_code :: CompiledCode where
  "example_code =
     \<lparr>cc_bytes = [1, 2, 3],
      cc_codeRanges = [\<lparr>cr_kind = Throw, cr_begin = 0, cr_end = 3, cr_funcIndex = 0,
                         cr_trap = 0, cr_beginToNormalEntry = 0\<rparr>],
      cc_callSites = [\<lparr>cs_kind = Func, returnAddressOffset = 2\<rparr>],
      cc_callSiteTargets = [FuncIndexTarget 1],
      cc_trapSites = [],
      cc_trapFarJumps = [\<lparr>tfj_trap = 0, tfj_jump = 1\<rparr>],
      cc_callFarJumps = [\<lparr>cfj_funcIndex = 1, cfj_jump = 2\<rparr>],
      cc_memoryAccesses = [\<lparr>insnOffset = 1\<rparr>],
      cc_symbolicAccesses = [\<lparr>sa_patchAt = 1, sa_target = 7\<rparr>],
      cc_codeLabels = [\<lparr>cl_patchAt = 1, cl_target = 2\<rparr>]\<rparr>"

definition example_six_bytes :: ModuleGenerator where
  "example_six_bytes =
     example_generator\<lparr>masm := (masm example_generator)\<lparr>buffer := [9, 9, 9, 9, 9, 9]\<rparr>\<rparr>"

lemma example_code_links:
  "\<exists>s'. linkCompiledCode example_Globals example_code example_six_bytes = Inr s'"
  by (simp add: linkCompiledCode_def example_Globals_def example_code_def example_six_bytes_def
      example_generator_def ModuleGenerator_new_def Let_def haltingAlign_def emit_def
      size_masm_def appendRawCode_def alloc_def andThen_def codeRangeOp_def noteCodeRange_def
      CodeRange_offsetBy_def MOZ_ASSERT_def)

theorem linkCompiledCode_rebases_by_append_offset_witness:
  "\<exists>s'. linkCompiledCode example_Globals example_code example_six_bytes = Inr s' \<and>
     buffer (masm s') = [9, 9, 9, 9, 9, 9, 244, 244, 1, 2, 3] \<and>
     codeRanges (metadataTier s') =
       [\<lparr>cr_kind = Throw, cr_begin = 8, cr_end = 11, cr_funcIndex = 0, cr_trap = 0,
         cr_beginToNormalEntry = 0\<rparr>] \<and>
     callSites (metadataTier s') = [\<lparr>cs_kind = Func, returnAddressOffset = 10\<rparr>] \<and>
     callSiteTargets s' = [FuncIndexTarget 1] \<and>
     trapFarJumps s' = [\<lparr>tfj_trap = 0, tfj_jump = 9\<rparr>] \<and>
     callFarJumps s' = [\<lparr>cfj_funcIndex = 1, cfj_jump = 10\<rparr>] \<and>
     memoryAccesses (metadataTier s') = [\<lparr>insnOffset = 9\<rparr>] \<and>
     symbolicLinks (linkDataTier s') 7 = [9] \<and>
     internalLinks (linkDataTier s') = [\<lparr>patchAtOffset = 9, targetOffset = 10\<rparr>]"
proof -
  from example_code_links obtain s' where
    l: "linkCompiledCode example_Globals example_code example_six_bytes = Inr s'"
    by blast
  have B: "size_masm (haltingAlign example_Globals (CodeAlignment example_Globals)
      (masm example_six_bytes)) = 8"
    by (simp add: example_Globals_def example_six_bytes_def example_generator_def
        ModuleGenerator_new_def haltingAlign_def emit_def size_masm_def)
  note t = linkCompiledCode_rebases_by_append_offset[OF l, unfolded Let_def B]
  have "replicate (8 - 6) (244 :: u8) = [244, 244]"
    by (simp add: eval_nat_numeral)
  with t have buf: "buffer (masm s') = [9, 9, 9, 9, 9, 9, 244, 244, 1, 2, 3]"
    by (simp add: example_Globals_def example_six_bytes_def example_generator_def
        ModuleGenerator_new_def example_code_def size_masm_def)
  from t buf l show ?thesis
    by (intro exI[of _ s'])
       (simp add: example_six_bytes_def example_generator_def ModuleGenerator_new_def
         example_code_def)
qed

section \<open>The exported functions\<close>

lemma forEach_fold:
  assumes "forEach xs body s = Inr s'"
    and "\<And>x a b. x \<in> set xs \<Longrightarrow> body x a = Inr b \<Longrightarrow> P b = h x (P a)"
  shows "P s' = fold h xs (P s)"
  using assms
proof (induction xs arbitrary: s)
  case Nil
  then show ?case by simp
next
  case (Cons x xs)
  from Cons.prems(1) obtain s1 where 1: "body x s = Inr s1" and 2: "forEach xs body s1 = Inr s'"
    by (auto simp: andThen_Inr_iff)
  have "P s1 = h x (P s)" using Cons.prems(2)[OF _ 1] by simp
  moreover have "P s' = fold h xs (P s1)"
    using Cons.IH[OF 2] Cons.prems(2) by simp
  ultimately show ?case by simp
qed

lemma fold_const_id: "fold (\<lambda>_ p. p) xs a = a"
  by (induction xs) auto

lemma forEach_preserves:
  assumes "forEach xs body s = Inr s'"
    and "\<And>x a b. x \<in> set xs \<Longrightarrow> body x a = Inr b \<Longrightarrow> P b = P a"
  shows "P s' = P s"
  using forEach_fold[where h = "\<lambda>_ p. p" and P = P, OF assms(1)] assms(2)
  by (simp add: fold_const_id)

lemma exportedFuncs_put_result:
  assumes "exportedFuncs_put f s = Inr s'"
  shows "exportedFuncs s' = List.insert f (exportedFuncs s) \<and> env s' = env s \<and>
         metadataTier s' = metadataTier s \<and> metadata s' = metadata s"
proof (cases "f \<in> set (exportedFuncs s)")
  case True
  then show ?thesis using assms by (simp add: exportedFuncs_put_def)
next
  case False
  with assms obtain x where "alloc s = Inr x" "s' = x\<lparr>exportedFuncs := f # exportedFuncs x\<rparr>"
    by (auto simp: exportedFuncs_put_def andThen_Inr_iff)
  then show ?thesis using False by (auto dest!: alloc_InrD)
qed

lemma putAll_result:
  assumes "forEach fs exportedFuncs_put s = Inr s'"
  shows "exportedFuncs s' = fold List.insert fs (exportedFuncs s) \<and> env s' = env s \<and>
         metadataTier s' = metadataTier s \<and> metadata s' = metadata s"
proof -
  have 1: "exportedFuncs s' = fold List.insert fs (exportedFuncs s)"
    by (rule forEach_fold[OF assms]) (simp add: exportedFuncs_put_result)
  have 2: "env s' = env s"
    by (rule forEach_preserves[OF assms]) (simp add: exportedFuncs_put_result)
  have 3: "metadataTier s' = metadataTier s"
    by (rule forEach_preserves[OF assms]) (simp add: exportedFuncs_put_result)
  have 4: "metadata s' = metadata s"
    by (rule forEach_preserves[OF assms]) (simp add: exportedFuncs_put_result)
  from 1 2 3 4 show ?thesis by simp
qed

lemma set_fold_insert: "set (fold List.insert fs xs) = set fs \<union> set xs"
  by (induction fs arbitrary: xs) auto

lemma distinct_fold_insert: "distinct xs \<Longrightarrow> distinct (fold List.insert fs xs)"
  by (induction fs arbitrary: xs) auto

text \<open>The function indices of the element segments of the external tables.\<close>

definition externalElems :: "bool list \<Rightarrow> ElemSegment list \<Rightarrow> u32 set" where
  "externalElems ext segs =
     (\<Union>e \<in> set segs. if ext ! unat (tableIndex e) then set (elemFuncIndices e) else {})"

lemma finishFuncExports_elems_result:
  assumes "finishFuncExports_elems e s = Inr s'"
  shows "env s' = env s \<and> metadataTier s' = metadataTier s \<and> metadata s' = metadata s \<and>
     distinct (exportedFuncs s) \<longrightarrow> distinct (exportedFuncs s')"
    and "env s' = env s" and "metadataTier s' = metadataTier s"
    and "set (exportedFuncs s') = set (exportedFuncs s) \<union>
           (if map external (tables (env s)) ! unat (tableIndex e)
            then set (elemFuncIndices e) else {})"
    and "distinct (exportedFuncs s) \<Longrightarrow> distinct (exportedFuncs s')"
  using assms
  by (auto simp: finishFuncExports_elems_def set_fold_insert distinct_fold_insert
      split: if_splits dest!: putAll_result)

lemma exportElems_result:
  assumes "forEach segs finishFuncExports_elems s = Inr s'"
  shows "env s' = env s \<and> metadataTier s' = metadataTier s \<and>
     set (exportedFuncs s') = set (exportedFuncs s) \<union>
        externalElems (map external (tables (env s))) segs \<and>
     (distinct (exportedFuncs s) \<longrightarrow> distinct (exportedFuncs s'))"
  using assms
proof (induction segs arbitrary: s)
  case Nil
  then show ?case by (simp add: externalElems_def)
next
  case (Cons e segs)
  from Cons.prems obtain s1 where 1: "finishFuncExports_elems e s = Inr s1"
    and 2: "forEach segs finishFuncExports_elems s1 = Inr s'"
    by (auto simp: andThen_Inr_iff)
  from finishFuncExports_elems_result(2-5)[OF 1] Cons.IH[OF 2] show ?case
    by (auto simp: externalElems_def)
qed

lemma allocateGlobalBytes_cases:
  assumes "allocateGlobalBytes n a s = Inr (ok, out, s')"
  shows "s' = s \<or> (\<exists>l. s' = s\<lparr>metadata := (metadata s)\<lparr>globalDataLength := l\<rparr>\<rparr>)"
  using assms
  by (auto simp: allocateGlobalBytes_def andThen_Inr_iff Let_def split: if_splits)

text \<open>The part of the generator that decides which functions are exported.\<close>

definition exportSeed ::
  "ModuleGenerator \<Rightarrow> Export list \<times> u32 option \<times> ElemSegment list \<times> bool list \<times> nat option list
     \<times> Sig list \<times> u32 list" where
  "exportSeed s = (exports (env s), startFuncIndex (env s), elemSegments (env s),
     map external (tables (env s)), funcSigs (env s), map sig_sig (sigs (env s)),
     exportedFuncs s)"

lemma exportSeed_alloc: "alloc s = Inr s' \<Longrightarrow> exportSeed s' = exportSeed s"
  by (auto simp: exportSeed_def dest!: alloc_InrD)

lemma exportSeed_allocateGlobalBytes:
  "allocateGlobalBytes n a s = Inr (ok, out, s') \<Longrightarrow> exportSeed s' = exportSeed s"
  by (auto simp: exportSeed_def dest!: allocateGlobalBytes_cases)

lemma exportSeed_addFuncImport:
  "addFuncImport sg off s = Inr s' \<Longrightarrow> exportSeed s' = exportSeed s"
  by (auto simp: addFuncImport_def andThen_Inr_iff MOZ_ASSERT_Inr_iff exportSeed_def
      dest!: alloc_InrD)

lemma exportSeed_allocateGlobal:
  "allocateGlobal gl s = Inr (gl', s') \<Longrightarrow> exportSeed s' = exportSeed s"
  by (auto simp: allocateGlobal_def andThen_Inr_iff MOZ_ASSERT_Inr_iff Let_def
      split: if_splits dest!: exportSeed_allocateGlobalBytes)

lemma map_update_same:
  assumes "map f xs = map f ys" and "i < length ys \<Longrightarrow> f z = f (ys ! i)"
  shows "map f (xs[i := z]) = map f ys"
proof (cases "i < length ys")
  case True
  have "map f (xs[i := z]) = (map f xs)[i := f z]" by (simp add: map_update)
  also have "\<dots> = (map f ys)[i := f (ys ! i)]" using assms True by simp
  also have "\<dots> = map f ys" using True by (simp add: list_update_same_conv)
  finally show ?thesis .
next
  case False
  moreover have "length xs = length ys" using assms(1) by (metis length_map)
  ultimately have "xs[i := z] = xs" by (simp add: list_update_beyond)
  then show ?thesis using assms(1) by simp
qed

lemma exportSeed_initWasm_reserve:
  assumes "initWasm_reserve s = Inr s'"
  shows "exportSeed s' = exportSeed s"
proof -
  from assms obtain x0 x1 x2 x3 x4 x5 where
    "MOZ_ASSERT (\<not> isAsmJS (env s)) ''!env_->isAsmJS()'' s = Inr x0"
    "alloc x0 = Inr x1" "alloc x1 = Inr x2" "alloc x2 = Inr x3"
    "alloc (x3\<lparr>numSigs := of_nat (length (sigs (env x3))),
                 numTables := of_nat (length (tables (env x3))),
                 masm := snd (reserve_masm (masm x3))\<rparr>) = Inr x4"
    "alloc x4 = Inr x5" "alloc x5 = Inr s'"
    unfolding initWasm_reserve_def Let_def split_def
    by (elim andThenE) (auto split: if_splits elim!: andThenE)
  then show ?thesis
    by (auto simp: MOZ_ASSERT_Inr_iff exportSeed_def dest!: alloc_InrD)
qed

lemma exportSeed_initWasm_funcImport:
  assumes "initWasm_funcImport g i s = Inr s'"
  shows "exportSeed s' = exportSeed s"
  using assms
  by (auto simp: initWasm_funcImport_def Let_def exportSeed_def
      split: if_splits option.splits dest!: exportSeed_addFuncImport)

lemma exportSeed_initWasm_table:
  assumes "initWasm_table g i s = Inr s'"
  shows "exportSeed s' = exportSeed s"
  using assms
  by (auto simp: initWasm_table_def Let_def andThen_Inr_iff exportSeed_def
      split: if_splits option.splits dest!: allocateGlobalBytes_cases
      intro!: map_update_same)

lemma exportSeed_initWasm_sig:
  assumes "initWasm_sig g i s = Inr s'"
  shows "exportSeed s' = exportSeed s"
  using assms
  by (auto simp: initWasm_sig_def Let_def andThen_Inr_iff exportSeed_def
      split: if_splits option.splits dest!: allocateGlobalBytes_cases alloc_InrD
      intro!: map_update_same)

lemma exportSeed_initWasm_global:
  assumes "initWasm_global i s = Inr s'"
  shows "exportSeed s' = exportSeed s"
  using assms
  by (auto simp: initWasm_global_def Let_def andThen_Inr_iff exportSeed_def
      split: if_splits option.splits dest!: exportSeed_allocateGlobal)

lemma initWasm_export_result:
  assumes "initWasm_export e s = Inr s'"
  shows "env s' = env s \<and>
     exportedFuncs s' = (if exp_kind e = FunctionDef
                         then List.insert (exp_funcIndex e) (exportedFuncs s)
                         else exportedFuncs s)"
  using assms by (auto simp: initWasm_export_def dest!: exportedFuncs_put_result split: if_splits)

lemma initWasm_exports_result:
  assumes "forEach es initWasm_export s = Inr s'"
  shows "env s' = env s \<and>
     set (exportedFuncs s') = set (exportedFuncs s) \<union>
       {exp_funcIndex e |e. e \<in> set es \<and> exp_kind e = FunctionDef} \<and>
     (distinct (exportedFuncs s) \<longrightarrow> distinct (exportedFuncs s'))"
  using assms
proof (induction es arbitrary: s)
  case Nil
  then show ?case by simp
next
  case (Cons e es)
  from Cons.prems obtain s1 where 1: "initWasm_export e s = Inr s1"
    and 2: "forEach es initWasm_export s1 = Inr s'"
    by (auto simp: andThen_Inr_iff)
  from initWasm_export_result[OF 1] Cons.IH[OF 2] show ?case
    by (auto split: if_splits)
qed

lemma initWasm_exportSeed:
  assumes "initWasm g n s = Inr s'"
  shows "exports (env s') = exports (env s) \<and> startFuncIndex (env s') = startFuncIndex (env s) \<and>
     elemSegments (env s') = elemSegments (env s) \<and>
     map external (tables (env s')) = map external (tables (env s)) \<and>
     funcSigs (env s') = funcSigs (env s) \<and>
     map sig_sig (sigs (env s')) = map sig_sig (sigs (env s)) \<and>
     set (exportedFuncs s') = set (exportedFuncs s) \<union>
       {exp_funcIndex e |e. e \<in> set (exports (env s)) \<and> exp_kind e = FunctionDef} \<union>
       set_option (startFuncIndex (env s)) \<and>
     (distinct (exportedFuncs s) \<longrightarrow> distinct (exportedFuncs s'))"
proof -
  from assms obtain x1 x2 x3 x4 x5 x6 where
    l0: "initWasm_reserve s = Inr x1" and
    l1: "forEach [0 ..< length (funcImportGlobalDataOffsets (env x1))]
           (initWasm_funcImport g) x1 = Inr x2" and
    l2: "forEach [0 ..< length (tables (env x2))] (initWasm_table g) x2 = Inr x3" and
    l3: "forEach [0 ..< unat (numSigs x3)] (initWasm_sig g) x3 = Inr x4" and
    l4: "forEach [0 ..< length (globals (env x4))] initWasm_global x4 = Inr x5" and
    l5: "forEach (exports (env x5)) initWasm_export x5 = Inr x6" and
    l6: "(case startFuncIndex (env x6) of
            None \<Rightarrow> Inr x6
          | Some start \<Rightarrow>
              exportedFuncs_put start
                (x6\<lparr>metadata := (metadata x6)\<lparr>md_startFuncIndex := Some start\<rparr>\<rparr>)) = Inr s'"
    unfolding initWasm_def by (elim andThenE) blast
  have e1: "exportSeed x1 = exportSeed s" by (rule exportSeed_initWasm_reserve[OF l0])
  have e2: "exportSeed x2 = exportSeed x1"
    by (rule forEach_preserves[OF l1]) (rule exportSeed_initWasm_funcImport)
  have e3: "exportSeed x3 = exportSeed x2"
    by (rule forEach_preserves[OF l2]) (rule exportSeed_initWasm_table)
  have e4: "exportSeed x4 = exportSeed x3"
    by (rule forEach_preserves[OF l3]) (rule exportSeed_initWasm_sig)
  have e5: "exportSeed x5 = exportSeed x4"
    by (rule forEach_preserves[OF l4]) (rule exportSeed_initWasm_global)
  have e: "exportSeed x5 = exportSeed s" using e1 e2 e3 e4 e5 by simp
  note r5 = initWasm_exports_result[OF l5]
  have r6: "env s' = env x6 \<and> exportedFuncs s' =
      (case startFuncIndex (env x6) of None \<Rightarrow> exportedFuncs x6
       | Some start \<Rightarrow> List.insert start (exportedFuncs x6))"
    using l6 by (auto split: option.splits dest!: exportedFuncs_put_result)
  show ?thesis using e r5 r6
    by (auto simp: exportSeed_def split: option.splits)
qed

lemma exportElems_inrange:
  assumes "forEach segs finishFuncExports_elems s = Inr s'"
  shows "\<forall>e \<in> set segs. unat (tableIndex e) < length (tables (env s))"
  using assms
proof (induction segs arbitrary: s)
  case Nil
  then show ?case by simp
next
  case (Cons e segs)
  from Cons.prems obtain s1 where 1: "finishFuncExports_elems e s = Inr s1"
    and 2: "forEach segs finishFuncExports_elems s1 = Inr s'"
    by (auto simp: andThen_Inr_iff)
  from 1 have "unat (tableIndex e) < length (tables (env s))"
    by (auto simp: finishFuncExports_elems_def split: if_splits)
  moreover from finishFuncExports_elems_result(2)[OF 1] Cons.IH[OF 2]
  have "\<forall>e \<in> set segs. unat (tableIndex e) < length (tables (env s))" by simp
  ultimately show ?case by simp
qed

lemma finishFuncExports_append_result:
  assumes "finishFuncExports_append f s = Inr s'"
  shows "map fe_funcIndex (funcExports (metadataTier s')) =
           map fe_funcIndex (funcExports (metadataTier s)) @ [f]"
proof -
  from assms obtain sg :: SigWithId and x where "alloc s = Inr x"
    "Inr (x\<lparr>metadataTier := (metadataTier x)
              \<lparr>funcExports := funcExports (metadataTier x) @
                 [FuncExport_new (sig_sig sg) f]\<rparr>\<rparr>) = (Inr s' :: error + ModuleGenerator)"
    unfolding finishFuncExports_append_def by (elim andThenE) blast
  then show ?thesis by (auto simp: FuncExport_new_def dest!: alloc_InrD)
qed

lemma fold_snoc: "fold (\<lambda>x p. p @ [x]) xs a = a @ xs"
  by (induction xs arbitrary: a) auto

lemma finishFuncExports_result:
  assumes "finishFuncExports s = Inr s'"
  shows "\<exists>fs. map fe_funcIndex (funcExports (metadataTier s')) = sort fs \<and>
     set fs = set (exportedFuncs s) \<union>
        externalElems (map external (tables (env s))) (elemSegments (env s)) \<and>
     (distinct (exportedFuncs s) \<longrightarrow> distinct fs) \<and>
     (\<forall>e \<in> set (elemSegments (env s)). unat (tableIndex e) < length (tables (env s)))"
proof -
  from assms obtain x1 x2 x3 x4 where
    l1: "forEach (elemSegments (env s)) finishFuncExports_elems s = Inr x1" and
    a2: "alloc x1 = Inr x2" and
    a3: "MOZ_ASSERT (funcExports (metadataTier x2) = [])
           ''metadataTier_->funcExports.empty()'' x2 = Inr x3" and
    a4: "alloc x3 = Inr x4" and
    l5: "forEach (sort (exportedFuncs x2)) finishFuncExports_append x4 = Inr s'"
    unfolding finishFuncExports_def Let_def by (elim andThenE) blast
  note r1 = exportElems_result[OF l1]
  from a2 a3 a4 have x: "exportedFuncs x2 = exportedFuncs x1"
    "funcExports (metadataTier x4) = []"
    by (auto simp: MOZ_ASSERT_Inr_iff dest!: alloc_InrD)
  have "map fe_funcIndex (funcExports (metadataTier s')) =
      fold (\<lambda>x p. p @ [x]) (sort (exportedFuncs x2))
        (map fe_funcIndex (funcExports (metadataTier x4)))"
    by (rule forEach_fold[OF l5]) (rule finishFuncExports_append_result)
  then have "map fe_funcIndex (funcExports (metadataTier s')) = sort (exportedFuncs x1)"
    using x by (simp add: fold_snoc)
  with r1 exportElems_inrange[OF l1] show ?thesis by blast
qed

text \<open>
  C5. A generator that has exported nothing is initialised by \<^verbatim>\<open>initWasm\<close>; later, with the
  same environment and the same set of exported functions, \<^verbatim>\<open>finishFuncExports\<close> succeeds.
  Then the function indices of \<open>funcExports\<close> are strictly increasing, and they are
  exactly the function indices of the exports of kind function, the start function if
  there is one, and the elements of the element segments whose table is external.
\<close>

theorem funcExports_strictly_sorted_and_complete:
  assumes "exportedFuncs s0 = []"
    and "initWasm g codeSectionSize s0 = Inr s1"
    and "env s2 = env s1" and "exportedFuncs s2 = exportedFuncs s1"
    and "finishFuncExports s2 = Inr s3"
  shows "sorted_wrt (<) (map fe_funcIndex (funcExports (metadataTier s3))) \<and>
     set (map fe_funcIndex (funcExports (metadataTier s3))) =
       {exp_funcIndex e |e. e \<in> set (exports (env s0)) \<and> exp_kind e = FunctionDef} \<union>
       set_option (startFuncIndex (env s0)) \<union>
       (\<Union>e \<in> set (elemSegments (env s0)).
          if external (tables (env s0) ! unat (tableIndex e))
          then set (elemFuncIndices e) else {})"
proof -
  note i = initWasm_exportSeed[OF assms(2)]
  from i assms(1) have d1: "distinct (exportedFuncs s1)" by simp
  from finishFuncExports_result[OF assms(5)] obtain fs where
    m: "map fe_funcIndex (funcExports (metadataTier s3)) = sort fs" and
    st: "set fs = set (exportedFuncs s2) \<union>
        externalElems (map external (tables (env s2))) (elemSegments (env s2))" and
    d: "distinct (exportedFuncs s2) \<longrightarrow> distinct fs" and
    inr: "\<forall>e \<in> set (elemSegments (env s2)). unat (tableIndex e) < length (tables (env s2))"
    by blast
  have len: "length (tables (env s2)) = length (tables (env s0))"
    using i assms(3) by (metis length_map)
  have ee: "externalElems (map external (tables (env s2))) (elemSegments (env s2)) =
      (\<Union>e \<in> set (elemSegments (env s0)).
          if external (tables (env s0) ! unat (tableIndex e))
          then set (elemFuncIndices e) else {})"
    unfolding externalElems_def using i assms(3) inr len by auto
  have "distinct fs" using d d1 assms(4) by simp
  then have "sorted_wrt (<) (sort fs)"
    by (simp add: strict_sorted_iff)
  moreover have "set (sort fs) = {exp_funcIndex e |e. e \<in> set (exports (env s0)) \<and> exp_kind e = FunctionDef} \<union>
       set_option (startFuncIndex (env s0)) \<union>
       (\<Union>e \<in> set (elemSegments (env s0)).
          if external (tables (env s0) ! unat (tableIndex e))
          then set (elemFuncIndices e) else {})"
    using st ee i assms(1,4) by simp
  ultimately show ?thesis unfolding m by simp
qed

text \<open>
  The example environment exports function 2, starts with function 1, and has the element
  segments \<open>[2, 0]\<close> of an external table and \<open>[3]\<close> of a table that is not external: the
  exports are those of the functions 0, 1 and 2.
\<close>

definition example_initialised :: ModuleGenerator where
  "example_initialised =
     example_generator
       \<lparr>env := example_env
          \<lparr>sigs := [\<lparr>sig_sig = \<lparr>args = [], ret = Some I32\<rparr>, sig_id = ImmediateSigId\<rparr>],
           tables := [\<lparr>external = True, tbl_globalDataOffset = 0\<rparr>,
                      \<lparr>external = False, tbl_globalDataOffset = 8\<rparr>]\<rparr>,
        metadata := \<lparr>globalDataLength = 16, md_startFuncIndex = Some 1, sigIds = [],
                      md_filename = None\<rparr>,
        numSigs := 1, numTables := 2, exportedFuncs := [1, 2]\<rparr>"

lemma upt_2: "[0..<2] = [0, 1]"
  by (simp add: eval_nat_numeral)

lemma example_initWasm: "initWasm example_Globals 0 example_generator = Inr example_initialised"
  by (simp add: initWasm_def initWasm_reserve_def initWasm_funcImport_def initWasm_table_def
      initWasm_sig_def initWasm_global_def initWasm_export_def exportedFuncs_put_def
      example_generator_def ModuleGenerator_new_def example_env_def example_Globals_def
      example_initialised_def andThen_def MOZ_ASSERT_def alloc_def Let_def reserve_masm_def
      allocateGlobalBytes_def ComputeByteAlignment_def CheckedInt_add_def CheckedInt_isValid_def
      CheckedInt_value_def upt_2)

definition example_exported :: ModuleGenerator where
  "example_exported =
     example_initialised
       \<lparr>exportedFuncs := [0, 1, 2],
        metadataTier := (metadataTier example_initialised)
          \<lparr>funcExports :=
             [FuncExport_new \<lparr>args = [], ret = Some I32\<rparr> 0,
              FuncExport_new \<lparr>args = [], ret = Some I32\<rparr> 1,
              FuncExport_new \<lparr>args = [], ret = Some I32\<rparr> 2]\<rparr>\<rparr>"

lemma sort_012: "sort [0, 1, 2 :: u32] = [0, 1, 2]"
  by (simp add: word_le_nat_alt)

lemma example_finishFuncExports: "finishFuncExports example_initialised = Inr example_exported"
  by (simp add: finishFuncExports_def finishFuncExports_elems_def finishFuncExports_append_def
      exportedFuncs_put_def funcSig_def
      example_generator_def ModuleGenerator_new_def example_env_def
      example_initialised_def example_exported_def andThen_def MOZ_ASSERT_def alloc_def Let_def
      sort_012)

lemma setcompr_map_filter: "{f e |e. e \<in> set xs \<and> P e} = set (map f (filter P xs))"
  by auto

theorem funcExports_strictly_sorted_and_complete_witness:
  "exportedFuncs example_generator = [] \<and>
   initWasm example_Globals 0 example_generator = Inr example_initialised \<and>
   finishFuncExports example_initialised = Inr example_exported \<and>
   sorted_wrt (<) (map fe_funcIndex (funcExports (metadataTier example_exported))) \<and>
   set (map fe_funcIndex (funcExports (metadataTier example_exported))) = {0, 1, 2}"
proof -
  have 1: "exportedFuncs example_generator = []"
    by (simp add: example_generator_def ModuleGenerator_new_def)
  note t = funcExports_strictly_sorted_and_complete[OF 1 example_initWasm refl refl
      example_finishFuncExports]
  have "{exp_funcIndex e |e. e \<in> set (exports (env example_generator)) \<and>
          exp_kind e = FunctionDef} = {2}"
    unfolding setcompr_map_filter
    by (simp add: example_generator_def ModuleGenerator_new_def example_env_def)
  moreover have "set_option (startFuncIndex (env example_generator)) = {1}"
    by (simp add: example_generator_def ModuleGenerator_new_def example_env_def)
  moreover have "(\<Union>e \<in> set (elemSegments (env example_generator)).
          if external (tables (env example_generator) ! unat (tableIndex e))
          then set (elemFuncIndices e) else {}) = {2, 0}"
    by (simp add: example_generator_def ModuleGenerator_new_def example_env_def)
  ultimately have "set (map fe_funcIndex (funcExports (metadataTier example_exported)))
      = {0, 1, 2}"
    using t by auto
  with t 1 example_initWasm example_finishFuncExports show ?thesis by simp
qed
section \<open>The passes over the call sites\<close>

text \<open>The switch of \<^verbatim>\<open>linkCallSites\<close>, case by case.\<close>

lemma linkCallSite_cases:
  assumes "linkCallSite g c t s = Inr (c', t', s')"
  shows "lastPatchedCallSite s < length (callSites (metadataTier s)) \<and>
     lastPatchedCallSite s < length (callSiteTargets s) \<and>
     (case cs_kind (callSites (metadataTier s) ! lastPatchedCallSite s) of
        Dynamic \<Rightarrow> c' = c \<and> t' = t \<and> s' = s
      | Symbolic \<Rightarrow> c' = c \<and> t' = t \<and> s' = s
      | Func \<Rightarrow>
          t' = t \<and>
          linkCallSites_Func g
            (returnAddressOffset (callSites (metadataTier s) ! lastPatchedCallSite s))
            (callSiteTargets s ! lastPatchedCallSite s) c s = Inr (c', s')
      | TrapExitCall \<Rightarrow>
          c' = c \<and>
          linkCallSites_TrapExit g
            (returnAddressOffset (callSites (metadataTier s) ! lastPatchedCallSite s))
            (callSiteTargets s ! lastPatchedCallSite s) t s = Inr (t', s')
      | _ \<Rightarrow>
          c' = c \<and> t' = t \<and>
          linkCallSites_Breakpoint g
            (returnAddressOffset (callSites (metadataTier s) ! lastPatchedCallSite s)) s
            = Inr s')"
proof -
  from assms have inb: "lastPatchedCallSite s < length (callSites (metadataTier s))"
    "lastPatchedCallSite s < length (callSiteTargets s)"
    by (auto simp: linkCallSite_def split: if_splits)
  show ?thesis
    using assms inb
    by (cases "cs_kind (callSites (metadataTier s) ! lastPatchedCallSite s)")
       (auto simp: linkCallSite_def Let_def andThen_Inr_iff)
qed

lemma linkCallSites_Func_unlinked:
  "linkCallSites_Func g co target c s = Inr (c', s') \<Longrightarrow> unlinked s s'"
  by (drule linkCallSites_Func_result) (auto simp: unlinked_def)

lemma linkCallSites_TrapExit_unlinked:
  "linkCallSites_TrapExit g co target t s = Inr (t', s') \<Longrightarrow> unlinked s s'"
  by (drule linkCallSites_TrapExit_result) (auto simp: unlinked_def)

lemma linkCallSites_Breakpoint_unlinked:
  "linkCallSites_Breakpoint g co s = Inr s' \<Longrightarrow> unlinked s s'"
  by (drule linkCallSites_Breakpoint_result) (auto simp: unlinked_def)

lemma linkCallSite_unlinked:
  assumes "linkCallSite g c t s = Inr (c', t', s')"
  shows "unlinked s s'"
  using linkCallSite_cases[OF assms]
  by (cases "cs_kind (callSites (metadataTier s) ! lastPatchedCallSite s)")
     (auto intro: linkCallSites_Func_unlinked linkCallSites_TrapExit_unlinked
        linkCallSites_Breakpoint_unlinked)

text \<open>The rule of the loop: what holds before the loop and is kept by each call site
  holds after the loop, where no call site is left.\<close>

lemma linkCallSites_loop_rule:
  assumes "linkCallSites_loop g c t s = Inr (c', t', s')"
    and "P c t s"
    and "\<And>c t s c1 t1 s1. P c t s \<Longrightarrow>
           lastPatchedCallSite s < length (callSites (metadataTier s)) \<Longrightarrow>
           linkCallSite g c t s = Inr (c1, t1, s1) \<Longrightarrow>
           P c1 t1 (s1\<lparr>lastPatchedCallSite := lastPatchedCallSite s1 + 1\<rparr>)"
  shows "P c' t' s' \<and> \<not> lastPatchedCallSite s' < length (callSites (metadataTier s'))"
  using assms
proof (induction g c t s rule: linkCallSites_loop.induct)
  case (1 g c t s)
  show ?case
  proof (cases "lastPatchedCallSite s < length (callSites (metadataTier s))")
    case False
    with "1.prems" show ?thesis by (simp add: linkCallSites_loop.simps)
  next
    case True
    with "1.prems"(1) obtain c1 t1 s1 where
      x: "linkCallSite g c t s = Inr (c1, t1, s1)" and
      r: "linkCallSites_loop g c1 t1 (s1\<lparr>lastPatchedCallSite := Suc (lastPatchedCallSite s1)\<rparr>)
          = Inr (c', t', s')"
      by (auto simp: linkCallSites_loop.simps[of g c t s] andThen_Inr_iff)
    from r have r': "linkCallSites_loop g c1 t1
        (s1\<lparr>lastPatchedCallSite := lastPatchedCallSite s1 + 1\<rparr>) = Inr (c', t', s')"
      by simp
    have P1: "P c1 t1 (s1\<lparr>lastPatchedCallSite := lastPatchedCallSite s1 + 1\<rparr>)"
      using "1.prems"(3)[OF "1.prems"(2) True x] .
    show ?thesis
      by (rule "1.IH"[OF True x refl refl r' P1]) (rule "1.prems"(3); assumption)
  qed
qed

lemma linkCallSites_loop_unlinked:
  assumes "linkCallSites_loop g c t s = Inr (c', t', s')"
  shows "unlinked s s'"
proof -
  have "unlinked s s' \<and> \<not> lastPatchedCallSite s' < length (callSites (metadataTier s'))"
  proof (rule linkCallSites_loop_rule[where P = "\<lambda>c t x. unlinked s x", OF assms])
    show "unlinked s s" by simp
  next
    fix c t x c1 t1 and s1 :: ModuleGenerator
    assume "unlinked s x" and "linkCallSite g c t x = Inr (c1, t1, s1)"
    then have "unlinked s s1" by (blast intro: unlinked_trans linkCallSite_unlinked)
    then show "unlinked s (s1\<lparr>lastPatchedCallSite := lastPatchedCallSite s1 + 1\<rparr>)"
      by (simp add: unlinked_def)
  qed
  then show ?thesis by simp
qed

lemma linkCallSites_unlinked:
  assumes "linkCallSites g s = Inr s'"
  shows "unlinked s s'"
proof -
  from assms obtain x p where
    a: "alloc (s\<lparr>masm := haltingAlign g (CodeAlignment g) (masm s)\<rparr>) = Inr x" and
    l: "linkCallSites_loop g Map.empty (\<lambda>_. None) x = Inr p" and
    r: "(let y = (snd (snd p))\<lparr>masm := flushBuffer (masm (snd (snd p)))\<rparr>
         in if oom (masm y) then Inl OutOfMemory else Inr y) = Inr s'"
    unfolding linkCallSites_def Let_def split_def by (elim andThenE) blast
  obtain c t y where p: "p = (c, t, y)" by (cases p)
  from a obtain r1 where
    x: "x = s\<lparr>masm := haltingAlign g (CodeAlignment g) (masm s), systemAlloc := r1\<rparr>"
    by (auto dest: alloc_InrD)
  from linkCallSites_loop_unlinked[OF l[unfolded p]] have u: "unlinked x y" .
  from r p have "s' = y\<lparr>masm := flushBuffer (masm y)\<rparr>"
    by (simp add: Let_def split: if_splits)
  with u x show ?thesis by (simp add: unlinked_def)
qed

text \<open>What \<^verbatim>\<open>finishTask\<close> leaves alone: it clears the output of the task and frees the
  task.\<close>

lemma finishTask_frame:
  assumes "finishTask g task s = Inr s'"
  shows "env s' = env s \<and> cancelled s' = cancelled s \<and> errorSlot s' = errorSlot s \<and>
     taskState s' = taskState s \<and> numFuncDefs s' = numFuncDefs s \<and>
     parallel s' = parallel s \<and> outstanding s' = outstanding s \<and>
     currentTask s' = currentTask s \<and> batchedBytecode s' = batchedBytecode s \<and>
     startedFuncDefs s' = startedFuncDefs s \<and> finishedFuncDefs s' = finishedFuncDefs s \<and>
     wasmWorklist s' = wasmWorklist s \<and> helperSchedule s' = helperSchedule s \<and>
     length (tasks s') = length (tasks s) \<and> freeTasks s' = freeTasks s @ [task]"
proof -
  define s1 where "s1 = s\<lparr>masm := haltingAlign g (CodeAlignment g) (masm s)\<rparr>"
  define code where "code = task_output (tasks s1 ! task)"
  from assms have inb: "task < length (tasks s)"
    by (auto simp: finishTask_def split: if_splits)
  with assms obtain x1 x2 x3 where
    a: "(if \<not> InRange g (startOfUnpatchedCallsites s1)
                     (of_nat (size_masm (masm s1) + length (cc_bytes code)))
         then linkCallSites g
                (s1\<lparr>startOfUnpatchedCallsites := of_nat (size_masm (masm s1))\<rparr>)
         else Inr s1) = Inr x1" and
    b: "linkCompiledCode g code x1 = Inr x2" and
    c: "MOZ_ASSERT (task_inputs ((tasks x2)[task := (tasks x2 ! task)
                                   \<lparr>task_output := CompiledCode_empty\<rparr>] ! task) = [])
          ''task->inputs.empty()''
          (x2\<lparr>tasks := (tasks x2)[task := (tasks x2 ! task)
                                   \<lparr>task_output := CompiledCode_empty\<rparr>]\<rparr>) = Inr x3" and
    d: "s' = x3\<lparr>freeTasks := freeTasks x3 @ [task]\<rparr>"
    unfolding finishTask_def Let_def s1_def code_def
    by (simp add: andThen_Inr_iff) blast
  have u1: "unlinked s x1"
  proof (cases "InRange g (startOfUnpatchedCallsites s1)
                     (of_nat (size_masm (masm s1) + length (cc_bytes code)))")
    case True
    with a have "x1 = s1" by simp
    then show ?thesis by (simp add: s1_def unlinked_def)
  next
    case False
    with a have "unlinked (s1\<lparr>startOfUnpatchedCallsites := of_nat (size_masm (masm s1))\<rparr>) x1"
      by (auto intro: linkCallSites_unlinked)
    then show ?thesis by (simp add: s1_def unlinked_def)
  qed
  from linkCompiledCode_result[OF b] have u2: "unlinked x1 x2" by blast
  from c have x3: "x3 = x2\<lparr>tasks := (tasks x2)[task := (tasks x2 ! task)
                                   \<lparr>task_output := CompiledCode_empty\<rparr>]\<rparr>"
    by (simp add: MOZ_ASSERT_Inr_iff)
  from u1 u2 show ?thesis unfolding d x3 by (simp add: unlinked_def)
qed
section \<open>The batches\<close>

text \<open>What the helper threads and the wait for a finished task leave alone.\<close>

lemma helperThreadRuns_frame:
  "helperThreadRuns g completion s = Inr s' \<Longrightarrow>
     (env s', batchedBytecode s', currentTask s') = (env s, batchedBytecode s, currentTask s)"
  by (auto simp: helperThreadRuns_def Let_def andThen_Inr_iff split: if_splits)

lemma helperThreadsRun_frame:
  assumes "helperThreadsRun g completions s = Inr s'"
  shows "(env s', batchedBytecode s', currentTask s') =
         (env s, batchedBytecode s, currentTask s)"
  using assms unfolding helperThreadsRun_def
  by (rule forEach_invariant) (rule helperThreadRuns_frame)

lemma lockTaskState_frame:
  assumes "lockTaskState g s = Inr s'"
  shows "(env s', batchedBytecode s', currentTask s') =
         (env s, batchedBytecode s, currentTask s)"
proof (cases "helperSchedule s")
  case Nil
  then show ?thesis using assms by (simp add: lockTaskState_def)
next
  case (Cons completions rest)
  then have "helperThreadsRun g completions (s\<lparr>helperSchedule := rest\<rparr>) = Inr s'"
    using assms by (simp add: lockTaskState_def)
  from helperThreadsRun_frame[OF this] show ?thesis by simp
qed

lemma waitFailedOrFinished_frame:
  assumes "waitFailedOrFinished g s = Inr s'"
  shows "(env s', batchedBytecode s', currentTask s') =
         (env s, batchedBytecode s, currentTask s)"
proof (cases "helperSchedule s")
  case Nil
  then show ?thesis using assms by (simp add: waitFailedOrFinished_def)
next
  case (Cons completions rest)
  then have "helperThreadsRun g completions (s\<lparr>helperSchedule := rest\<rparr>) = Inr s'"
    using assms by (simp add: waitFailedOrFinished_def)
  from helperThreadsRun_frame[OF this] show ?thesis by simp
qed

lemma awaitFinishedTask_frame:
  assumes "awaitFinishedTask g s = Inr (task, s')"
  shows "(env s', batchedBytecode s', currentTask s') =
         (env s, batchedBytecode s, currentTask s)"
  using assms
proof (induction g s rule: awaitFinishedTask.induct)
  case (1 g s)
  from "1.prems" have pos: "outstanding s > 0"
    by (auto simp: awaitFinishedTask.simps[of g s] andThen_Inr_iff MOZ_ASSERT_Inr_iff)
  then have a: "MOZ_ASSERT (0 < outstanding s) ''outstanding_ > 0'' s = Inr s"
    by (simp add: MOZ_ASSERT_def)
  from "1.prems" pos have nf: "\<not> numFailed (taskState s) > 0"
    by (auto simp: awaitFinishedTask.simps[of g s] andThen_def MOZ_ASSERT_def split: if_splits)
  show ?case
  proof (cases "finished (taskState s) = []")
    case False
    with "1.prems" pos nf show ?thesis
      by (auto simp: awaitFinishedTask.simps[of g s] andThen_def MOZ_ASSERT_def)
  next
    case True
    with "1.prems" pos nf obtain x where
      w: "waitFailedOrFinished g s = Inr x" and r: "awaitFinishedTask g x = Inr (task, s')"
      by (auto simp: awaitFinishedTask.simps[of g s] andThen_Inr_iff MOZ_ASSERT_def)
    from "1.IH"[OF a _ _ w r] nf True waitFailedOrFinished_frame[OF w]
    show ?thesis by simp
  qed
qed

lemma finishOutstandingTask_frame:
  assumes "finishOutstandingTask g s = Inr s'"
  shows "(env s', batchedBytecode s', currentTask s') =
         (env s, batchedBytecode s, currentTask s)"
proof -
  from assms obtain x1 x2 p where
    a: "MOZ_ASSERT (parallel s) ''parallel_'' s = Inr x1" and
    b: "lockTaskState g x1 = Inr x2" and
    c: "awaitFinishedTask g x2 = Inr p" and
    d: "finishTask g (fst p) (snd p) = Inr s'"
    unfolding finishOutstandingTask_def split_def by (elim andThenE) blast
  from a have "x1 = s" by (simp add: MOZ_ASSERT_Inr_iff)
  with lockTaskState_frame[OF b] awaitFinishedTask_frame[of g x2 "fst p" "snd p"] c
    finishTask_frame[OF d]
  show ?thesis by simp
qed

lemma launchBatchCompile_result:
  assumes "launchBatchCompile g s = Inr s'"
  shows "currentTask s \<noteq> None \<and> currentTask s' = None \<and> batchedBytecode s' = 0"
proof (cases "currentTask s")
  case None
  then show ?thesis using assms by (simp add: launchBatchCompile_def)
next
  case (Some task)
  with assms obtain x :: ModuleGenerator where
    "s' = x\<lparr>currentTask := None, batchedBytecode := 0\<rparr>"
    by (auto simp: launchBatchCompile_def andThen_Inr_iff split: if_splits)
  with Some show ?thesis by simp
qed

text \<open>
  C6. A call of \<^verbatim>\<open>compileFuncDef\<close> succeeds. The accumulated bytecode is the counter
  \<open>batchedBytecode\<close> after the length of the body has been added to it, and the threshold
  is that of the tier. Then the generator reaches a state with a current task and with this
  counter; if the counter exceeds the threshold, the call returns what \<^verbatim>\<open>launchBatchCompile\<close>
  returns in that state, and otherwise it returns that state. A launch leaves no current
  task, so after the call there is no current task if and only if the accumulated bytecode
  exceeds the threshold; with the two equal nothing is launched.
\<close>

theorem compileFuncDef_launches_iff_threshold_exceeded:
  assumes "compileFuncDef g funcIndex lineOrBytecode bs bgn en lineNums s = Inr s'"
  defines "accumulated \<equiv> batchedBytecode s + (of_nat en - of_nat bgn)"
  defines "threshold \<equiv> (case tier (env s) of
                           Baseline \<Rightarrow> wasmBatchBaselineThreshold (JitOptions g)
                         | Ion \<Rightarrow> wasmBatchIonThreshold (JitOptions g))"
  shows "\<exists>s1. batchedBytecode s1 = accumulated \<and> currentTask s1 \<noteq> None \<and>
           (threshold < accumulated \<longrightarrow> launchBatchCompile g s1 = Inr s') \<and>
           (accumulated \<le> threshold \<longrightarrow> s' = s1) \<and>
           (currentTask s' = None \<longleftrightarrow> threshold < accumulated)"
proof -
  define s0 where "s0 = s\<lparr>numFuncDefs := numFuncDefs s + 1\<rparr>"
  define T where "T = (\<lambda>(k::nat) (x::ModuleGenerator). (tasks x)[k :=
      (tasks x ! k)
        \<lparr>task_inputs := task_inputs (tasks x ! k) @
           [\<lparr>fi_index = funcIndex, fi_lineOrBytecode = lineOrBytecode,
             fi_bytes = bs, fi_begin = bgn, fi_end = en, fi_lineNums = lineNums\<rparr>]\<rparr>])"
  define U where "U = (\<lambda>(k::nat) (x::ModuleGenerator).
      x\<lparr>tasks := T k x, batchedBytecode := batchedBytecode x + (of_nat en - of_nat bgn)\<rparr>)"
  define th where "th = (\<lambda>x::ModuleGenerator. case tier (env x) of
                           Baseline \<Rightarrow> wasmBatchBaselineThreshold (JitOptions g)
                         | Ion \<Rightarrow> wasmBatchIonThreshold (JitOptions g))"
  have eq: "compileFuncDef g funcIndex lineOrBytecode bs bgn en lineNums s =
     andThen (MOZ_ASSERT (startedFuncDefs s) ''startedFuncDefs_'' s) (\<lambda>x.
     andThen (MOZ_ASSERT (\<not> finishedFuncDefs x) ''!finishedFuncDefs_'' x) (\<lambda>x.
     andThen (MOZ_ASSERT (mode (env x) = Tier1 \<longrightarrow> unat funcIndex < numFuncs (env x))
                ''funcIndex < env_->numFuncs()'' x) (\<lambda>x.
       andThen
         (if currentTask (x\<lparr>numFuncDefs := numFuncDefs x + 1\<rparr>) = None
          then
            andThen (if freeTasks (x\<lparr>numFuncDefs := numFuncDefs x + 1\<rparr>) = []
                     then finishOutstandingTask g (x\<lparr>numFuncDefs := numFuncDefs x + 1\<rparr>)
                     else Inr (x\<lparr>numFuncDefs := numFuncDefs x + 1\<rparr>)) (\<lambda>y.
              if freeTasks y = [] then Inl (AssertionFailure ''!empty()'')
              else Inr (y\<lparr>currentTask := Some (last (freeTasks y)),
                          freeTasks := butlast (freeTasks y)\<rparr>))
          else Inr (x\<lparr>numFuncDefs := numFuncDefs x + 1\<rparr>)) (\<lambda>y.
         if \<not> the (currentTask y) < length (tasks y) then Inl OutOfRange
            else
              andThen (alloc y) (\<lambda>z.
                andThen (MOZ_ASSERT (batchedBytecode (U (the (currentTask y)) z) \<le> MaxModuleBytes g)
                            ''batchedBytecode_ <= MaxModuleBytes'' (U (the (currentTask y)) z)) (\<lambda>w.
                   if batchedBytecode w \<le> th (U (the (currentTask y)) z) then Inr w
                   else launchBatchCompile g w))))))"
    unfolding compileFuncDef_def Let_def U_def T_def th_def by (simp cong: if_cong)
  from assms(1) obtain a1 a2 a3 y where
    m1: "MOZ_ASSERT (startedFuncDefs s) ''startedFuncDefs_'' s = Inr a1" and
    m2: "MOZ_ASSERT (\<not> finishedFuncDefs a1) ''!finishedFuncDefs_'' a1 = Inr a2" and
    m3: "MOZ_ASSERT (mode (env a2) = Tier1 \<longrightarrow> unat funcIndex < numFuncs (env a2))
                ''funcIndex < env_->numFuncs()'' a2 = Inr a3" and
    blk: "(if currentTask (a3\<lparr>numFuncDefs := numFuncDefs a3 + 1\<rparr>) = None
          then
            andThen (if freeTasks (a3\<lparr>numFuncDefs := numFuncDefs a3 + 1\<rparr>) = []
                     then finishOutstandingTask g (a3\<lparr>numFuncDefs := numFuncDefs a3 + 1\<rparr>)
                     else Inr (a3\<lparr>numFuncDefs := numFuncDefs a3 + 1\<rparr>)) (\<lambda>y.
              if freeTasks y = [] then Inl (AssertionFailure ''!empty()'')
              else Inr (y\<lparr>currentTask := Some (last (freeTasks y)),
                          freeTasks := butlast (freeTasks y)\<rparr>))
          else Inr (a3\<lparr>numFuncDefs := numFuncDefs a3 + 1\<rparr>)) = Inr y" and
    rest: "(if \<not> the (currentTask y) < length (tasks y) then Inl OutOfRange
            else
              andThen (alloc y) (\<lambda>z.
                andThen (MOZ_ASSERT (batchedBytecode (U (the (currentTask y)) z) \<le> MaxModuleBytes g)
                            ''batchedBytecode_ <= MaxModuleBytes'' (U (the (currentTask y)) z)) (\<lambda>w.
                   if batchedBytecode w \<le> th (U (the (currentTask y)) z) then Inr w
                   else launchBatchCompile g w))) = Inr s'"
    unfolding eq by (elim andThenE) blast
  from m1 m2 m3 have a3: "a3 = s" by (simp add: MOZ_ASSERT_Inr_iff)
  have y: "env y = env s \<and> batchedBytecode y = batchedBytecode s \<and> currentTask y \<noteq> None"
  proof (cases "currentTask s = None")
    case False
    with blk a3 show ?thesis by auto
  next
    case True
    with blk a3 obtain y0 where
      f: "(if freeTasks s0 = [] then finishOutstandingTask g s0 else Inr s0) = Inr y0" and
      y0: "freeTasks y0 \<noteq> []"
        "y = y0\<lparr>currentTask := Some (last (freeTasks y0)), freeTasks := butlast (freeTasks y0)\<rparr>"
      unfolding s0_def by (auto simp: andThen_Inr_iff split: if_splits)
    have "env y0 = env s0 \<and> batchedBytecode y0 = batchedBytecode s0"
    proof (cases "freeTasks s0 = []")
      case True
      with f have "finishOutstandingTask g s0 = Inr y0" by simp
      from finishOutstandingTask_frame[OF this] show ?thesis by simp
    next
      case False
      with f show ?thesis by simp
    qed
    with y0 show ?thesis by (simp add: s0_def)
  qed
  from rest obtain z w where
    al: "alloc y = Inr z" and
    m4: "MOZ_ASSERT (batchedBytecode (U (the (currentTask y)) z) \<le> MaxModuleBytes g)
           ''batchedBytecode_ <= MaxModuleBytes'' (U (the (currentTask y)) z) = Inr w" and
    fin: "(if batchedBytecode w \<le> th (U (the (currentTask y)) z) then Inr w else launchBatchCompile g w) = Inr s'"
    by (auto simp: andThen_Inr_iff split: if_splits)
  from al obtain r where z: "z = y\<lparr>systemAlloc := r\<rparr>" by (auto dest: alloc_InrD)
  from m4 have w: "w = U (the (currentTask y)) z" by (simp add: MOZ_ASSERT_Inr_iff)
  have bw: "batchedBytecode w = accumulated"
    using y unfolding w z U_def accumulated_def by simp
  have cw: "currentTask w \<noteq> None"
    using y unfolding w z U_def by simp
  have tw: "th (U (the (currentTask y)) z) = threshold"
    using y unfolding z U_def th_def threshold_def by simp
  show ?thesis
  proof (cases "accumulated \<le> threshold")
    case True
    with fin bw tw have "s' = w" by simp
    with True bw cw show ?thesis by (intro exI[of _ w]) auto
  next
    case False
    with fin bw tw have l: "launchBatchCompile g w = Inr s'" by simp
    from launchBatchCompile_result[OF l] False bw cw l show ?thesis
      by (intro exI[of _ w]) auto
  qed
qed

text \<open>With extra threads and two processors the function definitions are compiled in
  parallel, by two tasks. The thresholds of the example are 10 bytes: a body of 11 bytes
  is launched at once, a body of 10 bytes is not.\<close>

definition example_parallel_Globals :: Globals where
  "example_parallel_Globals = example_Globals\<lparr>cpuCount := 2, CanUseExtraThreads := True\<rparr>"

definition example_started :: ModuleGenerator where
  "example_started = example_generator
     \<lparr>parallel := True, tasks := [CompileTask_new, CompileTask_new], freeTasks := [0, 1],
      startedFuncDefs := True\<rparr>"

definition example_body :: "nat \<Rightarrow> FuncCompileInput" where
  "example_body n = \<lparr>fi_index = 0, fi_lineOrBytecode = 0, fi_bytes = [], fi_begin = 0,
     fi_end = n, fi_lineNums = []\<rparr>"

definition example_launched :: ModuleGenerator where
  "example_launched = example_started
     \<lparr>numFuncDefs := 1, outstanding := 1,
      tasks := [CompileTask_new, CompileTask_new\<lparr>task_inputs := [example_body 11]\<rparr>],
      freeTasks := [0], wasmWorklist := [1]\<rparr>"

definition example_batched :: ModuleGenerator where
  "example_batched = example_started
     \<lparr>numFuncDefs := 1,
      tasks := [CompileTask_new, CompileTask_new\<lparr>task_inputs := [example_body 10]\<rparr>],
      freeTasks := [0], currentTask := Some 1, batchedBytecode := 10\<rparr>"

lemma example_startFuncDefs:
  "startFuncDefs example_parallel_Globals example_generator = Inr example_started"
  by (simp add: startFuncDefs_def example_parallel_Globals_def example_Globals_def
      example_generator_def ModuleGenerator_new_def example_started_def MOZ_ASSERT_def
      andThen_def alloc_def Let_def upt_rec numeral_2_eq_2)

lemma example_compile_11:
  "compileFuncDef example_parallel_Globals 0 0 [] 0 11 [] example_started
     = Inr example_launched"
  by (simp add: compileFuncDef_def launchBatchCompile_def StartOffThreadWasmCompile_def
      example_parallel_Globals_def example_Globals_def example_env_def
      example_generator_def ModuleGenerator_new_def example_started_def example_launched_def
      example_body_def CompileTask_new_def MOZ_ASSERT_def andThen_def alloc_def Let_def numFuncs_def
      word_le_nat_alt word_less_nat_alt)

lemma example_compile_10:
  "compileFuncDef example_parallel_Globals 0 0 [] 0 10 [] example_started
     = Inr example_batched"
  by (simp add: compileFuncDef_def launchBatchCompile_def StartOffThreadWasmCompile_def
      example_parallel_Globals_def example_Globals_def example_env_def
      example_generator_def ModuleGenerator_new_def example_started_def example_batched_def
      example_body_def CompileTask_new_def MOZ_ASSERT_def andThen_def alloc_def Let_def numFuncs_def
      word_le_nat_alt word_less_nat_alt)

theorem compileFuncDef_launches_iff_threshold_exceeded_witness:
  "compileFuncDef example_parallel_Globals 0 0 [] 0 11 [] example_started
     = Inr example_launched \<and>
   currentTask example_launched = None \<and>
   compileFuncDef example_parallel_Globals 0 0 [] 0 10 [] example_started
     = Inr example_batched \<and>
   currentTask example_batched \<noteq> None"
proof -
  have th: "(case tier (env example_started) of
               Baseline \<Rightarrow> wasmBatchBaselineThreshold (JitOptions example_parallel_Globals)
             | Ion \<Rightarrow> wasmBatchIonThreshold (JitOptions example_parallel_Globals)) = 10"
    by (simp add: example_started_def example_generator_def ModuleGenerator_new_def
        example_env_def example_parallel_Globals_def example_Globals_def)
  have b: "batchedBytecode example_started = 0"
    by (simp add: example_started_def example_generator_def ModuleGenerator_new_def)
  have lt: "(10::u32) < 0 + (of_nat 11 - of_nat 0)" "\<not> (10::u32) < 0 + (of_nat 10 - of_nat 0)"
    by (simp_all add: word_less_nat_alt)
  from compileFuncDef_launches_iff_threshold_exceeded[OF example_compile_11]
  have 1: "currentTask example_launched = None"
    unfolding th b using lt by blast
  from compileFuncDef_launches_iff_threshold_exceeded[OF example_compile_10]
  have 2: "currentTask example_batched \<noteq> None"
    unfolding th b using lt by blast
  from 1 2 example_compile_11 example_compile_10 show ?thesis by blast
qed

end
